theory Spec2Isabelle
  imports Main
begin

section \<open>The catalog generator of generate\_translations.py\<close>

text \<open>
  The script holds one literal, the dictionary \<open>translations\<close> (source string to a
  dictionary from language code to translated text), builds the dictionary \<open>catalog\<close>
  from it and dumps it as JSON to one fixed path. The last statement prints a line on
  the console; it is left out, no property below is about it.

  Python values. A \<open>str\<close> is a \<open>string\<close>; text beyond ASCII stands as the bytes of
  its UTF-8 encoding, which is what the script's file holds and what it writes. Two
  such strings are equal exactly when the Python strings are. A \<open>dict\<close> is the list of its
  items in iteration order (insertion order). The values the script builds are
  strings and dictionaries with string keys only, hence the type \<open>pyval\<close>.
  The table is a parameter of every function that reads the global \<open>translations\<close>;
  the literal of the script is \<open>translations_dict\<close>, at the end of the definitions.
\<close>

datatype pyval = Str string | Dict "(string \<times> pyval) list"

datatype error = KeyError | TypeError

type_synonym row = "(string \<times> string) list"
type_synonym table = "(string \<times> row) list"

subsection \<open>Dictionary operations\<close>

text \<open>\<open>k in d\<close>\<close>

definition dict_contains :: "('k \<times> 'v) list \<Rightarrow> 'k \<Rightarrow> bool" where
  "dict_contains d k = (k \<in> set (map fst d))"

text \<open>\<open>d[k]\<close> as an expression: KeyError when the key is absent.\<close>

definition dict_getitem :: "('k \<times> 'v) list \<Rightarrow> 'k \<Rightarrow> error + 'v" where
  "dict_getitem d k = (case map_of d k of None \<Rightarrow> Inl KeyError | Some v \<Rightarrow> Inr v)"

text \<open>
  \<open>d[k] = v\<close>: a key already present keeps its position and takes the new value,
  a new key goes to the end.
\<close>

fun dict_setitem :: "('k \<times> 'v) list \<Rightarrow> 'k \<Rightarrow> 'v \<Rightarrow> ('k \<times> 'v) list" where
  "dict_setitem [] k v = [(k, v)]"
| "dict_setitem ((k', v') # d) k v =
     (if k' = k then (k, v) # d else (k', v') # dict_setitem d k v)"

text \<open>\<open>d.keys()\<close> and \<open>d.items()\<close>, in iteration order; \<open>len(d)\<close>.\<close>

definition dict_keys :: "('k \<times> 'v) list \<Rightarrow> 'k list" where
  "dict_keys d = map fst d"

definition dict_items :: "('k \<times> 'v) list \<Rightarrow> ('k \<times> 'v) list" where
  "dict_items d = d"

definition dict_len :: "('k \<times> 'v) list \<Rightarrow> nat" where
  "dict_len d = length d"

text \<open>
  A list of items is a Python dictionary when no key occurs twice; the table is a
  dictionary of dictionaries.
\<close>

definition is_dict :: "('k \<times> 'v) list \<Rightarrow> bool" where
  "is_dict d = distinct (map fst d)"

definition is_table :: "table \<Rightarrow> bool" where
  "is_table t = (is_dict t \<and> list_all (\<lambda>(s, r). is_dict r) t)"

subsection \<open>The builder\<close>

definition create_localization_entry :: "string \<Rightarrow> string \<Rightarrow> pyval" where
  "create_localization_entry lang_code val =
     Dict [(''stringUnit'', Dict [(''state'', Str ''translated''), (''value'', Str val)])]"

text \<open>
  The loop of \<open>create_string_entry\<close> over the items of the row, on the dictionary
  \<open>localizations\<close>.
\<close>

fun add_translations :: "row \<Rightarrow> (string \<times> pyval) list \<Rightarrow> (string \<times> pyval) list" where
  "add_translations [] localizations = localizations"
| "add_translations ((lang_code, translation) # rest) localizations =
     add_translations rest
       (dict_setitem localizations lang_code (create_localization_entry lang_code translation))"

definition create_string_entry :: "table \<Rightarrow> string \<Rightarrow> error + pyval" where
  "create_string_entry translations english_text =
     (let localizations = [(''en'', create_localization_entry ''en'' english_text)] in
      if dict_contains translations english_text then
        (case dict_getitem translations english_text of
           Inl e \<Rightarrow> Inl e
         | Inr r \<Rightarrow>
             Inr (Dict [(''localizations'', Dict (add_translations (dict_items r) localizations))]))
      else Inr (Dict [(''localizations'', Dict localizations)]))"

text \<open>
  The loop at the top level, on the dictionary \<open>catalog\<close>. The statement
  \<open>catalog["strings"][english_text] = create_string_entry(english_text)\<close> evaluates its
  right-hand side, then \<open>catalog["strings"]\<close>, then stores into that dictionary, which
  \<open>catalog\<close> still holds under the same key.
\<close>

fun add_entries :: "table \<Rightarrow> string list \<Rightarrow> (string \<times> pyval) list \<Rightarrow> error + (string \<times> pyval) list" where
  "add_entries translations [] catalog = Inr catalog"
| "add_entries translations (english_text # rest) catalog =
     (case create_string_entry translations english_text of
        Inl e \<Rightarrow> Inl e
      | Inr entry \<Rightarrow>
          (case dict_getitem catalog ''strings'' of
             Inl e \<Rightarrow> Inl e
           | Inr (Str s) \<Rightarrow> Inl TypeError
           | Inr (Dict strings) \<Rightarrow>
               add_entries translations rest
                 (dict_setitem catalog ''strings''
                    (Dict (dict_setitem strings english_text entry)))))"

definition initial_catalog :: "(string \<times> pyval) list" where
  "initial_catalog =
     [(''sourceLanguage'', Str ''en''), (''strings'', Dict []), (''version'', Str ''1.0'')]"

definition build_catalog :: "table \<Rightarrow> error + (string \<times> pyval) list" where
  "build_catalog translations = add_entries translations (dict_keys translations) initial_catalog"

subsection \<open>Writing the file\<close>

text \<open>
  \<open>json.dump(catalog, f, ensure_ascii=False, indent=2)\<close> on strings and dictionaries, as
  the encoder of the Python library writes them. A string goes between double quotes;
  the backslash, the double quote and the characters below 0x20 are escaped (the five
  short escapes, \<open>\u00XX\<close> in lower-case hexadecimal for the others) and nothing else
  is, since \<open>ensure_ascii\<close> is off. An empty dictionary is \<open>{}\<close>; any other has one item
  per line, indented by two spaces per level, key and value separated by a colon and a
  space, items separated by a comma at the end of the line. Nothing follows the last
  brace.
\<close>

definition hex_digit :: "nat \<Rightarrow> char" where
  "hex_digit n = (if n < 10 then char_of (48 + n) else char_of (87 + n))"

definition escape_char :: "char \<Rightarrow> string" where
  "escape_char c =
     (if c = CHR 0x5C then [CHR 0x5C, CHR 0x5C]
      else if c = CHR 0x22 then [CHR 0x5C, CHR 0x22]
      else if c = CHR 0x08 then [CHR 0x5C, CHR ''b'']
      else if c = CHR 0x0C then [CHR 0x5C, CHR ''f'']
      else if c = CHR 0x0A then [CHR 0x5C, CHR ''n'']
      else if c = CHR 0x0D then [CHR 0x5C, CHR ''r'']
      else if c = CHR 0x09 then [CHR 0x5C, CHR ''t'']
      else if (of_char c :: nat) < 0x20 then
        [CHR 0x5C, CHR ''u'', CHR ''0'', CHR ''0'',
         hex_digit (of_char c div 16), hex_digit (of_char c mod 16)]
      else [c])"

definition encode_basestring :: "string \<Rightarrow> string" where
  "encode_basestring s = [CHR 0x22] @ concat (map escape_char s) @ [CHR 0x22]"

definition newline_indent :: "nat \<Rightarrow> string" where
  "newline_indent lvl = CHR 0x0A # replicate (2 * lvl) (CHR '' '')"

fun iterencode :: "nat \<Rightarrow> pyval \<Rightarrow> string"
  and iterencode_items :: "bool \<Rightarrow> nat \<Rightarrow> (string \<times> pyval) list \<Rightarrow> string" where
  "iterencode lvl (Str s) = encode_basestring s"
| "iterencode lvl (Dict []) = ''{}''"
| "iterencode lvl (Dict (item # items)) =
     ''{'' @ newline_indent (Suc lvl) @ iterencode_items True (Suc lvl) (item # items)
       @ newline_indent lvl @ ''}''"
| "iterencode_items first lvl [] = []"
| "iterencode_items first lvl ((k, v) # items) =
     (if first then [] else '','' @ newline_indent lvl)
       @ encode_basestring k @ '': '' @ iterencode lvl v @ iterencode_items False lvl items"

definition json_dumps :: "pyval \<Rightarrow> string" where
  "json_dumps obj = iterencode 0 obj"

text \<open>
  The script as a whole, on the files of the machine (path to content): the catalog is
  built, then the file at the fixed path is opened for writing, which replaces whatever
  was there, and receives the dump. What the operating system may refuse (a missing
  directory, a permission) is outside the model.
\<close>

definition output_path :: string where
  "output_path = ''/Users/bchapuis/Projects/bchapuis/diskmanager/FolderCleaner/Localizable.xcstrings''"

definition generate_translations :: "table \<Rightarrow> (string \<rightharpoonup> string) \<Rightarrow> error + (string \<rightharpoonup> string)" where
  "generate_translations translations files =
     (case build_catalog translations of
        Inl e \<Rightarrow> Inl e
      | Inr catalog \<Rightarrow> Inr (files(output_path \<mapsto> json_dumps (Dict catalog))))"

subsection \<open>Reading the document\<close>

text \<open>
  \<open>lookup_path v [k1, ..., kn]\<close> is \<open>v[k1]...[kn]\<close> where every key on the way is
  present, \<open>None\<close> otherwise.
\<close>

fun lookup_path :: "pyval \<Rightarrow> string list \<Rightarrow> pyval option" where
  "lookup_path v [] = Some v"
| "lookup_path (Str s) (k # ks) = None"
| "lookup_path (Dict d) (k # ks) =
     (case map_of d k of None \<Rightarrow> None | Some v \<Rightarrow> lookup_path v ks)"

text \<open>
  The same on the document that the builder returns for a table; \<open>None\<close> also when
  the builder raises.
\<close>

definition catalog_at :: "table \<Rightarrow> string list \<Rightarrow> pyval option" where
  "catalog_at translations path =
     (case build_catalog translations of
        Inl e \<Rightarrow> None
      | Inr catalog \<Rightarrow> lookup_path (Dict catalog) path)"

text \<open>\<open>d.get(k, dflt)\<close>\<close>

definition dict_get :: "('k \<times> 'v) list \<Rightarrow> 'k \<Rightarrow> 'v \<Rightarrow> 'v" where
  "dict_get d k dflt = (case map_of d k of None \<Rightarrow> dflt | Some v \<Rightarrow> v)"

subsection \<open>Reading the file back\<close>

text \<open>
  The round trip that the spec describes reads the emitted text as JSON and derives a table
  from the document. \<open>json_loads\<close> reads JSON text made of objects and strings, the
  two kinds of value the generator writes: whitespace between tokens, the escapes of
  JSON strings (a \<open>\u\<close> escape within ASCII; beyond it the result is \<open>None\<close>), no raw
  control character in a string, a repeated key keeping its first position and its last
  value, nothing but whitespace after the value. The fuel of \<open>parse_value\<close> bounds the
  recursion; \<open>json_loads\<close> gives the length of the text, which always suffices for a
  text the generator wrote (\<open>json_loads_dumps\<close> below).
\<close>

definition is_whitespace :: "char \<Rightarrow> bool" where
  "is_whitespace c = (c = CHR '' '' \<or> c = CHR 0x09 \<or> c = CHR 0x0A \<or> c = CHR 0x0D)"

definition skip_whitespace :: "string \<Rightarrow> string" where
  "skip_whitespace s = dropWhile is_whitespace s"

definition hex_value :: "char \<Rightarrow> nat option" where
  "hex_value c =
     (let n = (of_char c :: nat) in
      if 48 \<le> n \<and> n \<le> 57 then Some (n - 48)
      else if 97 \<le> n \<and> n \<le> 102 then Some (n - 87)
      else if 65 \<le> n \<and> n \<le> 70 then Some (n - 55)
      else None)"

definition unescape_char :: "char \<Rightarrow> char option" where
  "unescape_char e =
     (if e = CHR 0x22 then Some (CHR 0x22)
      else if e = CHR 0x5C then Some (CHR 0x5C)
      else if e = CHR ''/'' then Some (CHR ''/'')
      else if e = CHR ''b'' then Some (CHR 0x08)
      else if e = CHR ''f'' then Some (CHR 0x0C)
      else if e = CHR ''n'' then Some (CHR 0x0A)
      else if e = CHR ''r'' then Some (CHR 0x0D)
      else if e = CHR ''t'' then Some (CHR 0x09)
      else None)"

definition unicode_escape :: "string \<Rightarrow> char option" where
  "unicode_escape ds =
     (case map hex_value ds of
        [Some a, Some b, Some c, Some d] \<Rightarrow>
          (let n = ((a * 16 + b) * 16 + c) * 16 + d in
           if n < 128 then Some (char_of n) else None)
      | _ \<Rightarrow> None)"

definition prepend :: "char \<Rightarrow> (string \<times> string) option \<Rightarrow> (string \<times> string) option" where
  "prepend c r = (case r of None \<Rightarrow> None | Some (s, rest) \<Rightarrow> Some (c # s, rest))"

fun scanstring :: "string \<Rightarrow> (string \<times> string) option" where
  "scanstring [] = None"
| "scanstring (c # cs) =
     (if c = CHR 0x22 then Some ([], cs)
      else if c = CHR 0x5C then
        (case cs of
           [] \<Rightarrow> None
         | e # cs' \<Rightarrow>
             if e = CHR ''u'' then
               (case unicode_escape (take 4 cs') of
                  None \<Rightarrow> None
                | Some c' \<Rightarrow> prepend c' (scanstring (drop 4 cs')))
             else
               (case unescape_char e of
                  None \<Rightarrow> None
                | Some c' \<Rightarrow> prepend c' (scanstring cs')))
      else if (of_char c :: nat) < 0x20 then None
      else prepend c (scanstring cs))"

fun parse_value :: "nat \<Rightarrow> string \<Rightarrow> (pyval \<times> string) option"
  and parse_members :: "nat \<Rightarrow> (string \<times> pyval) list \<Rightarrow> string \<Rightarrow> ((string \<times> pyval) list \<times> string) option" where
  "parse_value 0 s = None"
| "parse_value (Suc n) [] = None"
| "parse_value (Suc n) (c # cs) =
     (if c = CHR 0x22 then
        (case scanstring cs of
           None \<Rightarrow> None
         | Some (str, rest) \<Rightarrow> Some (Str str, rest))
      else if c = CHR ''{'' then
        (case skip_whitespace cs of
           [] \<Rightarrow> None
         | c' # cs' \<Rightarrow>
             if c' = CHR ''}'' then Some (Dict [], cs')
             else
               (case parse_members n [] (c' # cs') of
                  None \<Rightarrow> None
                | Some (pairs, rest) \<Rightarrow> Some (Dict pairs, rest)))
      else None)"
| "parse_members 0 pairs s = None"
| "parse_members (Suc n) pairs [] = None"
| "parse_members (Suc n) pairs (c # cs) =
     (if c \<noteq> CHR 0x22 then None
      else
        (case scanstring cs of
           None \<Rightarrow> None
         | Some (key, rest) \<Rightarrow>
             (case skip_whitespace rest of
                [] \<Rightarrow> None
              | c1 # rest1 \<Rightarrow>
                  if c1 \<noteq> CHR '':'' then None
                  else
                    (case parse_value n (skip_whitespace rest1) of
                       None \<Rightarrow> None
                     | Some (v, rest2) \<Rightarrow>
                         (case skip_whitespace rest2 of
                            [] \<Rightarrow> None
                          | c2 # rest3 \<Rightarrow>
                              if c2 = CHR ''}'' then Some (dict_setitem pairs key v, rest3)
                              else if c2 = CHR '','' then
                                parse_members n (dict_setitem pairs key v) (skip_whitespace rest3)
                              else None)))))"

definition json_loads :: "string \<Rightarrow> pyval option" where
  "json_loads s =
     (case parse_value (length s) (skip_whitespace s) of
        None \<Rightarrow> None
      | Some (obj, rest) \<Rightarrow> if skip_whitespace rest = [] then Some obj else None)"

text \<open>
  The table derived from a document, in the spec's words: each entry's localizations,
  without the source-language unit, each remaining language code with the value of its
  \<open>stringUnit\<close>.
\<close>

definition rederive_unit :: "pyval \<Rightarrow> string option" where
  "rederive_unit u =
     (case lookup_path u [''stringUnit'', ''value''] of
        Some (Str v) \<Rightarrow> Some v
      | _ \<Rightarrow> None)"

definition rederive_row :: "pyval \<Rightarrow> row option" where
  "rederive_row entry =
     (case lookup_path entry [''localizations''] of
        Some (Dict locs) \<Rightarrow>
          those (map (\<lambda>(l, u). map_option (Pair l) (rederive_unit u))
                     (filter (\<lambda>(l, u). l \<noteq> ''en'') locs))
      | _ \<Rightarrow> None)"

definition rederive_table :: "pyval \<Rightarrow> table option" where
  "rederive_table doc =
     (case lookup_path doc [''strings''] of
        Some (Dict strings) \<Rightarrow>
          those (map (\<lambda>(s, entry). map_option (Pair s) (rederive_row entry)) strings)
      | _ \<Rightarrow> None)"

definition round_trip :: "table \<Rightarrow> (string \<rightharpoonup> string) \<Rightarrow> table option" where
  "round_trip translations files =
     (case generate_translations translations files of
        Inl e \<Rightarrow> None
      | Inr files' \<Rightarrow>
          (case files' output_path of
             None \<Rightarrow> None
           | Some text \<Rightarrow>
               (case json_loads text of
                  None \<Rightarrow> None
                | Some doc \<Rightarrow> rederive_table doc)))"

definition no_en_row :: "table \<Rightarrow> bool" where
  "no_en_row t = list_all (\<lambda>(s, r). \<not> dict_contains r ''en'') t"

text \<open>
  A document all of whose dictionaries are dictionaries, and the fuel that reading a
  document takes.
\<close>

fun wf_doc :: "pyval \<Rightarrow> bool" where
  "wf_doc (Str s) = True"
| "wf_doc (Dict items) = (is_dict items \<and> (\<forall>item \<in> set items. wf_doc (snd item)))"

fun weight :: "pyval \<Rightarrow> nat" where
  "weight (Str s) = 1"
| "weight (Dict items) = Suc (sum_list (map (\<lambda>item. Suc (weight (snd item))) items))"

subsection \<open>Closed forms used in the proofs\<close>

text \<open>
  The entry that \<open>create_string_entry\<close> returns, the catalog around a given
  \<open>strings\<close> dictionary, and the effect of the top-level loop on that dictionary.
\<close>

definition entry_of :: "table \<Rightarrow> string \<Rightarrow> pyval" where
  "entry_of t s =
     Dict [(''localizations'',
            Dict (add_translations (dict_get t s []) [(''en'', create_localization_entry ''en'' s)]))]"

definition catalog_with :: "(string \<times> pyval) list \<Rightarrow> (string \<times> pyval) list" where
  "catalog_with strings =
     [(''sourceLanguage'', Str ''en''), (''strings'', Dict strings), (''version'', Str ''1.0'')]"

fun set_entries :: "table \<Rightarrow> string list \<Rightarrow> (string \<times> pyval) list \<Rightarrow> (string \<times> pyval) list" where
  "set_entries t [] strings = strings"
| "set_entries t (s # ss) strings = set_entries t ss (dict_setitem strings s (entry_of t s))"

subsection \<open>Example tables\<close>

text \<open>The two scenarios of the spec.\<close>

definition scenario_cancel :: table where
  "scenario_cancel = [(''Cancel'', [(''de'', ''Abbrechen''), (''fr'', ''Annuler'')])]"

definition scenario_orphan :: table where
  "scenario_orphan = [(''Orphan String'', [])]"

text \<open>The first two rows of the literal in the script.\<close>

definition excerpt :: table where
  "excerpt =
     [(''Cancel'',
        [(''de'', ''Abbrechen''),
         (''es'', ''Cancelar''),
         (''fr'', ''Annuler''),
         (''zh-Hans'', [CHR 0xE5, CHR 0x8F, CHR 0x96, CHR 0xE6, CHR 0xB6, CHR 0x88]),
         (''pt'', ''Cancelar''),
         (''ja'', [CHR 0xE3, CHR 0x82, CHR 0xAD, CHR 0xE3, CHR 0x83, CHR 0xA3, CHR 0xE3,
             CHR 0x83, CHR 0xB3, CHR 0xE3, CHR 0x82, CHR 0xBB, CHR 0xE3, CHR 0x83, CHR 0xAB]),
         (''ru'', [CHR 0xD0, CHR 0x9E, CHR 0xD1, CHR 0x82, CHR 0xD0, CHR 0xBC, CHR 0xD0,
             CHR 0xB5, CHR 0xD0, CHR 0xBD, CHR 0xD0, CHR 0xB8, CHR 0xD1, CHR 0x82, CHR 0xD1,
             CHR 0x8C]),
         (''ko'', [CHR 0xEC, CHR 0xB7, CHR 0xA8, CHR 0xEC, CHR 0x86, CHR 0x8C]),
         (''it'', ''Annulla'')]),
      (''Cancel scan'',
        [(''de'', ''Scan abbrechen''),
         (''es'', ''Cancelar escaneo''),
         (''fr'', ''Annuler l'' @ [CHR 0x27] @ ''analyse''),
         (''zh-Hans'', [CHR 0xE5, CHR 0x8F, CHR 0x96, CHR 0xE6, CHR 0xB6, CHR 0x88, CHR 0xE6,
             CHR 0x89, CHR 0xAB, CHR 0xE6, CHR 0x8F, CHR 0x8F]),
         (''pt'', ''Cancelar verifica'' @ [CHR 0xC3, CHR 0xA7, CHR 0xC3, CHR 0xA3] @ ''o''),
         (''ja'', [CHR 0xE3, CHR 0x82, CHR 0xB9, CHR 0xE3, CHR 0x82, CHR 0xAD, CHR 0xE3,
             CHR 0x83, CHR 0xA3, CHR 0xE3, CHR 0x83, CHR 0xB3, CHR 0xE3, CHR 0x82, CHR 0x92,
             CHR 0xE3, CHR 0x82, CHR 0xAD, CHR 0xE3, CHR 0x83, CHR 0xA3, CHR 0xE3, CHR 0x83,
             CHR 0xB3, CHR 0xE3, CHR 0x82, CHR 0xBB, CHR 0xE3, CHR 0x83, CHR 0xAB]),
         (''ru'', [CHR 0xD0, CHR 0x9E, CHR 0xD1, CHR 0x82, CHR 0xD0, CHR 0xBC, CHR 0xD0,
             CHR 0xB5, CHR 0xD0, CHR 0xBD, CHR 0xD0, CHR 0xB8, CHR 0xD1, CHR 0x82, CHR 0xD1,
             CHR 0x8C] @ '' '' @ [CHR 0xD1, CHR 0x81, CHR 0xD0, CHR 0xBA, CHR 0xD0, CHR 0xB0,
             CHR 0xD0, CHR 0xBD, CHR 0xD0, CHR 0xB8, CHR 0xD1, CHR 0x80, CHR 0xD0, CHR 0xBE,
             CHR 0xD0, CHR 0xB2, CHR 0xD0, CHR 0xB0, CHR 0xD0, CHR 0xBD, CHR 0xD0, CHR 0xB8,
             CHR 0xD0, CHR 0xB5]),
         (''ko'', [CHR 0xEC, CHR 0x8A, CHR 0xA4, CHR 0xEC, CHR 0xBA,
             CHR 0x94] @ '' '' @ [CHR 0xEC, CHR 0xB7, CHR 0xA8, CHR 0xEC, CHR 0x86, CHR 0x8C]),
         (''it'', ''Annulla scansione'')])]"

text \<open>A table whose row names the source language itself.\<close>

definition en_row_table :: table where
  "en_row_table = [(''Cancel'', [(''en'', ''Abort''), (''de'', ''Abbrechen'')])]"

subsection \<open>The literal of the script\<close>

text \<open>
  The dictionary \<open>translations\<close> as the script writes it: 39 source strings, each with
  the same nine language codes.
\<close>

definition translations_dict :: table where
  "translations_dict =
     [(''Cancel'',
        [(''de'', ''Abbrechen''),
         (''es'', ''Cancelar''),
         (''fr'', ''Annuler''),
         (''zh-Hans'', [CHR 0xE5, CHR 0x8F, CHR 0x96, CHR 0xE6, CHR 0xB6, CHR 0x88]),
         (''pt'', ''Cancelar''),
         (''ja'', [CHR 0xE3, CHR 0x82, CHR 0xAD, CHR 0xE3, CHR 0x83, CHR 0xA3, CHR 0xE3,
             CHR 0x83, CHR 0xB3, CHR 0xE3, CHR 0x82, CHR 0xBB, CHR 0xE3, CHR 0x83, CHR 0xAB]),
         (''ru'', [CHR 0xD0, CHR 0x9E, CHR 0xD1, CHR 0x82, CHR 0xD0, CHR 0xBC, CHR 0xD0,
             CHR 0xB5, CHR 0xD0, CHR 0xBD, CHR 0xD0, CHR 0xB8, CHR 0xD1, CHR 0x82, CHR 0xD1,
             CHR 0x8C]),
         (''ko'', [CHR 0xEC, CHR 0xB7, CHR 0xA8, CHR 0xEC, CHR 0x86, CHR 0x8C]),
         (''it'', ''Annulla'')]),
      (''Cancel scan'',
        [(''de'', ''Scan abbrechen''),
         (''es'', ''Cancelar escaneo''),
         (''fr'', ''Annuler l'' @ [CHR 0x27] @ ''analyse''),
         (''zh-Hans'', [CHR 0xE5, CHR 0x8F, CHR 0x96, CHR 0xE6, CHR 0xB6, CHR 0x88, CHR 0xE6,
             CHR 0x89, CHR 0xAB, CHR 0xE6, CHR 0x8F, CHR 0x8F]),
         (''pt'', ''Cancelar verifica'' @ [CHR 0xC3, CHR 0xA7, CHR 0xC3, CHR 0xA3] @ ''o''),
         (''ja'', [CHR 0xE3, CHR 0x82, CHR 0xB9, CHR 0xE3, CHR 0x82, CHR 0xAD, CHR 0xE3,
             CHR 0x83, CHR 0xA3, CHR 0xE3, CHR 0x83, CHR 0xB3, CHR 0xE3, CHR 0x82, CHR 0x92,
             CHR 0xE3, CHR 0x82, CHR 0xAD, CHR 0xE3, CHR 0x83, CHR 0xA3, CHR 0xE3, CHR 0x83,
             CHR 0xB3, CHR 0xE3, CHR 0x82, CHR 0xBB, CHR 0xE3, CHR 0x83, CHR 0xAB]),
         (''ru'', [CHR 0xD0, CHR 0x9E, CHR 0xD1, CHR 0x82, CHR 0xD0, CHR 0xBC, CHR 0xD0,
             CHR 0xB5, CHR 0xD0, CHR 0xBD, CHR 0xD0, CHR 0xB8, CHR 0xD1, CHR 0x82, CHR 0xD1,
             CHR 0x8C] @ '' '' @ [CHR 0xD1, CHR 0x81, CHR 0xD0, CHR 0xBA, CHR 0xD0, CHR 0xB0,
             CHR 0xD0, CHR 0xBD, CHR 0xD0, CHR 0xB8, CHR 0xD1, CHR 0x80, CHR 0xD0, CHR 0xBE,
             CHR 0xD0, CHR 0xB2, CHR 0xD0, CHR 0xB0, CHR 0xD0, CHR 0xBD, CHR 0xD0, CHR 0xB8,
             CHR 0xD0, CHR 0xB5]),
         (''ko'', [CHR 0xEC, CHR 0x8A, CHR 0xA4, CHR 0xEC, CHR 0xBA,
             CHR 0x94] @ '' '' @ [CHR 0xEC, CHR 0xB7, CHR 0xA8, CHR 0xEC, CHR 0x86, CHR 0x8C]),
         (''it'', ''Annulla scansione'')]),
      (''Clear filename filter'',
        [(''de'', ''Dateinamenfilter l'' @ [CHR 0xC3, CHR 0xB6] @ ''schen''),
         (''es'', ''Borrar filtro de nombre''),
         (''fr'', ''Effacer le filtre de nom''),
         (''zh-Hans'', [CHR 0xE6, CHR 0xB8, CHR 0x85, CHR 0xE9, CHR 0x99, CHR 0xA4, CHR 0xE6,
             CHR 0x96, CHR 0x87, CHR 0xE4, CHR 0xBB, CHR 0xB6, CHR 0xE5, CHR 0x90, CHR 0x8D,
             CHR 0xE7, CHR 0xAD, CHR 0x9B, CHR 0xE9, CHR 0x80, CHR 0x89]),
         (''pt'', ''Limpar filtro de nome''),
         (''ja'', [CHR 0xE3, CHR 0x83, CHR 0x95, CHR 0xE3, CHR 0x82, CHR 0xA1, CHR 0xE3,
             CHR 0x82, CHR 0xA4, CHR 0xE3, CHR 0x83, CHR 0xAB, CHR 0xE5, CHR 0x90, CHR 0x8D,
             CHR 0xE3, CHR 0x83, CHR 0x95, CHR 0xE3, CHR 0x82, CHR 0xA3, CHR 0xE3, CHR 0x83,
             CHR 0xAB, CHR 0xE3, CHR 0x82, CHR 0xBF, CHR 0xE3, CHR 0x83, CHR 0xBC, CHR 0xE3,
             CHR 0x82, CHR 0x92, CHR 0xE3, CHR 0x82, CHR 0xAF, CHR 0xE3, CHR 0x83, CHR 0xAA,
             CHR 0xE3, CHR 0x82, CHR 0xA2]),
         (''ru'', [CHR 0xD0, CHR 0x9E, CHR 0xD1, CHR 0x87, CHR 0xD0, CHR 0xB8, CHR 0xD1,
             CHR 0x81, CHR 0xD1, CHR 0x82, CHR 0xD0, CHR 0xB8, CHR 0xD1, CHR 0x82, CHR 0xD1,
             CHR 0x8C] @ '' '' @ [CHR 0xD1, CHR 0x84, CHR 0xD0, CHR 0xB8, CHR 0xD0, CHR 0xBB,
             CHR 0xD1, CHR 0x8C, CHR 0xD1, CHR 0x82, CHR 0xD1, CHR 0x80] @ '' '' @ [CHR 0xD0,
             CHR 0xB8, CHR 0xD0, CHR 0xBC, CHR 0xD0, CHR 0xB5, CHR 0xD0, CHR 0xBD, CHR 0xD0,
             CHR 0xB8]),
         (''ko'', [CHR 0xED, CHR 0x8C, CHR 0x8C, CHR 0xEC, CHR 0x9D,
             CHR 0xBC] @ '' '' @ [CHR 0xEC, CHR 0x9D, CHR 0xB4, CHR 0xEB, CHR 0xA6,
             CHR 0x84] @ '' '' @ [CHR 0xED, CHR 0x95, CHR 0x84, CHR 0xED, CHR 0x84,
             CHR 0xB0] @ '' '' @ [CHR 0xEC, CHR 0xA7, CHR 0x80, CHR 0xEC, CHR 0x9A, CHR 0xB0,
             CHR 0xEA, CHR 0xB8, CHR 0xB0]),
         (''it'', ''Cancella filtro nome'')]),
      (''Click '' @ [CHR 0x22] @ ''Scan Folder'' @ [CHR 0x22] @ '' to analyze disk usage'',
        [(''de'', ''Klicken Sie auf '' @ [CHR 0x22] @ ''Ordner scannen'' @ [CHR 0x22] @ '', um die Festplattennutzung zu analysieren''),
         (''es'', ''Haga clic en '' @ [CHR 0x22] @ ''Escanear carpeta'' @ [CHR 0x22] @ '' para analizar el uso del disco''),
         (''fr'', ''Cliquez sur '' @ [CHR 0x22] @ ''Analyser le dossier'' @ [CHR 0x22] @ '' pour analyser l'' @ [CHR 0x27] @ ''utilisation du disque''),
         (''zh-Hans'', [CHR 0xE7, CHR 0x82, CHR 0xB9, CHR 0xE5, CHR 0x87, CHR 0xBB, CHR 0x22,
             CHR 0xE6, CHR 0x89, CHR 0xAB, CHR 0xE6, CHR 0x8F, CHR 0x8F, CHR 0xE6, CHR 0x96,
             CHR 0x87, CHR 0xE4, CHR 0xBB, CHR 0xB6, CHR 0xE5, CHR 0xA4, CHR 0xB9, CHR 0x22,
             CHR 0xE4, CHR 0xBB, CHR 0xA5, CHR 0xE5, CHR 0x88, CHR 0x86, CHR 0xE6, CHR 0x9E,
             CHR 0x90, CHR 0xE7, CHR 0xA3, CHR 0x81, CHR 0xE7, CHR 0x9B, CHR 0x98, CHR 0xE4,
             CHR 0xBD, CHR 0xBF, CHR 0xE7, CHR 0x94, CHR 0xA8, CHR 0xE6, CHR 0x83, CHR 0x85,
             CHR 0xE5, CHR 0x86, CHR 0xB5]),
         (''pt'', ''Clique em '' @ [CHR 0x22] @ ''Verificar pasta'' @ [CHR 0x22] @ '' para analisar o uso do disco''),
         (''ja'', [CHR 0xE3, CHR 0x80, CHR 0x8C, CHR 0xE3, CHR 0x83, CHR 0x95, CHR 0xE3,
             CHR 0x82, CHR 0xA9, CHR 0xE3, CHR 0x83, CHR 0xAB, CHR 0xE3, CHR 0x83, CHR 0x80,
             CHR 0xE3, CHR 0x83, CHR 0xBC, CHR 0xE3, CHR 0x82, CHR 0x92, CHR 0xE3, CHR 0x82,
             CHR 0xB9, CHR 0xE3, CHR 0x82, CHR 0xAD, CHR 0xE3, CHR 0x83, CHR 0xA3, CHR 0xE3,
             CHR 0x83, CHR 0xB3, CHR 0xE3, CHR 0x80, CHR 0x8D, CHR 0xE3, CHR 0x82, CHR 0x92,
             CHR 0xE3, CHR 0x82, CHR 0xAF, CHR 0xE3, CHR 0x83, CHR 0xAA, CHR 0xE3, CHR 0x83,
             CHR 0x83, CHR 0xE3, CHR 0x82, CHR 0xAF, CHR 0xE3, CHR 0x81, CHR 0x97, CHR 0xE3,
             CHR 0x81, CHR 0xA6, CHR 0xE3, CHR 0x83, CHR 0x87, CHR 0xE3, CHR 0x82, CHR 0xA3,
             CHR 0xE3, CHR 0x82, CHR 0xB9, CHR 0xE3, CHR 0x82, CHR 0xAF, CHR 0xE4, CHR 0xBD,
             CHR 0xBF, CHR 0xE7, CHR 0x94, CHR 0xA8, CHR 0xE9, CHR 0x87, CHR 0x8F, CHR 0xE3,
             CHR 0x82, CHR 0x92, CHR 0xE5, CHR 0x88, CHR 0x86, CHR 0xE6, CHR 0x9E, CHR 0x90]),
         (''ru'', [CHR 0xD0, CHR 0x9D, CHR 0xD0, CHR 0xB0, CHR 0xD0, CHR 0xB6, CHR 0xD0,
             CHR 0xBC, CHR 0xD0, CHR 0xB8, CHR 0xD1, CHR 0x82, CHR 0xD0,
             CHR 0xB5] @ '' '' @ [CHR 0x22, CHR 0xD0, CHR 0xA1, CHR 0xD0, CHR 0xBA, CHR 0xD0,
             CHR 0xB0, CHR 0xD0, CHR 0xBD, CHR 0xD0, CHR 0xB8, CHR 0xD1, CHR 0x80, CHR 0xD0,
             CHR 0xBE, CHR 0xD0, CHR 0xB2, CHR 0xD0, CHR 0xB0, CHR 0xD1, CHR 0x82, CHR 0xD1,
             CHR 0x8C] @ '' '' @ [CHR 0xD0, CHR 0xBF, CHR 0xD0, CHR 0xB0, CHR 0xD0, CHR 0xBF,
             CHR 0xD0, CHR 0xBA, CHR 0xD1, CHR 0x83, CHR 0x22] @ '' '' @ [CHR 0xD0, CHR 0xB4,
             CHR 0xD0, CHR 0xBB, CHR 0xD1, CHR 0x8F] @ '' '' @ [CHR 0xD0, CHR 0xB0, CHR 0xD0,
             CHR 0xBD, CHR 0xD0, CHR 0xB0, CHR 0xD0, CHR 0xBB, CHR 0xD0, CHR 0xB8, CHR 0xD0,
             CHR 0xB7, CHR 0xD0, CHR 0xB0] @ '' '' @ [CHR 0xD0, CHR 0xB8, CHR 0xD1, CHR 0x81,
             CHR 0xD0, CHR 0xBF, CHR 0xD0, CHR 0xBE, CHR 0xD0, CHR 0xBB, CHR 0xD1, CHR 0x8C,
             CHR 0xD0, CHR 0xB7, CHR 0xD0, CHR 0xBE, CHR 0xD0, CHR 0xB2, CHR 0xD0, CHR 0xB0,
             CHR 0xD0, CHR 0xBD, CHR 0xD0, CHR 0xB8, CHR 0xD1, CHR 0x8F] @ '' '' @ [CHR 0xD0,
             CHR 0xB4, CHR 0xD0, CHR 0xB8, CHR 0xD1, CHR 0x81, CHR 0xD0, CHR 0xBA, CHR 0xD0,
             CHR 0xB0]),
         (''ko'', [CHR 0x22, CHR 0xED, CHR 0x8F, CHR 0xB4, CHR 0xEB, CHR 0x8D,
             CHR 0x94] @ '' '' @ [CHR 0xEC, CHR 0x8A, CHR 0xA4, CHR 0xEC, CHR 0xBA, CHR 0x94,
             CHR 0x22, CHR 0xEC, CHR 0x9D, CHR 0x84] @ '' '' @ [CHR 0xED, CHR 0x81, CHR 0xB4,
             CHR 0xEB, CHR 0xA6, CHR 0xAD, CHR 0xED, CHR 0x95, CHR 0x98, CHR 0xEC, CHR 0x97,
             CHR 0xAC] @ '' '' @ [CHR 0xEB, CHR 0x94, CHR 0x94, CHR 0xEC, CHR 0x8A, CHR 0xA4,
             CHR 0xED, CHR 0x81, CHR 0xAC] @ '' '' @ [CHR 0xEC, CHR 0x82, CHR 0xAC, CHR 0xEC,
             CHR 0x9A, CHR 0xA9, CHR 0xEB, CHR 0x9F, CHR 0x89] @ '' '' @ [CHR 0xEB, CHR 0xB6,
             CHR 0x84, CHR 0xEC, CHR 0x84, CHR 0x9D]),
         (''it'', ''Fai clic su '' @ [CHR 0x22] @ ''Scansiona cartella'' @ [CHR 0x22] @ '' per analizzare l'' @ [CHR 0x27] @ ''uso del disco'')]),
      (''Delete'',
        [(''de'', ''L'' @ [CHR 0xC3, CHR 0xB6] @ ''schen''),
         (''es'', ''Eliminar''),
         (''fr'', ''Supprimer''),
         (''zh-Hans'', [CHR 0xE5, CHR 0x88, CHR 0xA0, CHR 0xE9, CHR 0x99, CHR 0xA4]),
         (''pt'', ''Excluir''),
         (''ja'', [CHR 0xE5, CHR 0x89, CHR 0x8A, CHR 0xE9, CHR 0x99, CHR 0xA4]),
         (''ru'', [CHR 0xD0, CHR 0xA3, CHR 0xD0, CHR 0xB4, CHR 0xD0, CHR 0xB0, CHR 0xD0,
             CHR 0xBB, CHR 0xD0, CHR 0xB8, CHR 0xD1, CHR 0x82, CHR 0xD1, CHR 0x8C]),
         (''ko'', [CHR 0xEC, CHR 0x82, CHR 0xAD, CHR 0xEC, CHR 0xA0, CHR 0x9C]),
         (''it'', ''Elimina'')]),
      (''Enter text or wildcards to filter files by name. Use asterisk for any characters.'',
        [(''de'', ''Geben Sie Text oder Platzhalter ein, um Dateien nach Namen zu filtern. Verwenden Sie Sternchen f'' @ [CHR 0xC3,
            CHR 0xBC] @ ''r beliebige Zeichen.''),
         (''es'', ''Ingrese texto o comodines para filtrar archivos por nombre. Use asterisco para cualquier car'' @ [CHR 0xC3,
             CHR 0xA1] @ ''cter.''),
         (''fr'', ''Saisissez du texte ou des caract'' @ [CHR 0xC3,
             CHR 0xA8] @ ''res g'' @ [CHR 0xC3, CHR 0xA9] @ ''n'' @ [CHR 0xC3,
             CHR 0xA9] @ ''riques pour filtrer les fichiers par nom. Utilisez l'' @ [CHR 0x27] @ ''ast'' @ [CHR 0xC3,
             CHR 0xA9] @ ''risque pour n'' @ [CHR 0x27] @ ''importe quel caract'' @ [CHR 0xC3,
             CHR 0xA8] @ ''re.''),
         (''zh-Hans'', [CHR 0xE8, CHR 0xBE, CHR 0x93, CHR 0xE5, CHR 0x85, CHR 0xA5, CHR 0xE6,
             CHR 0x96, CHR 0x87, CHR 0xE6, CHR 0x9C, CHR 0xAC, CHR 0xE6, CHR 0x88, CHR 0x96,
             CHR 0xE9, CHR 0x80, CHR 0x9A, CHR 0xE9, CHR 0x85, CHR 0x8D, CHR 0xE7, CHR 0xAC,
             CHR 0xA6, CHR 0xE4, CHR 0xBB, CHR 0xA5, CHR 0xE6, CHR 0x8C, CHR 0x89, CHR 0xE5,
             CHR 0x90, CHR 0x8D, CHR 0xE7, CHR 0xA7, CHR 0xB0, CHR 0xE7, CHR 0xAD, CHR 0x9B,
             CHR 0xE9, CHR 0x80, CHR 0x89, CHR 0xE6, CHR 0x96, CHR 0x87, CHR 0xE4, CHR 0xBB,
             CHR 0xB6, CHR 0xE3, CHR 0x80, CHR 0x82, CHR 0xE4, CHR 0xBD, CHR 0xBF, CHR 0xE7,
             CHR 0x94, CHR 0xA8, CHR 0xE6, CHR 0x98, CHR 0x9F, CHR 0xE5, CHR 0x8F, CHR 0xB7,
             CHR 0xE8, CHR 0xA1, CHR 0xA8, CHR 0xE7, CHR 0xA4, CHR 0xBA, CHR 0xE4, CHR 0xBB,
             CHR 0xBB, CHR 0xE6, CHR 0x84, CHR 0x8F, CHR 0xE5, CHR 0xAD, CHR 0x97, CHR 0xE7,
             CHR 0xAC, CHR 0xA6, CHR 0xE3, CHR 0x80, CHR 0x82]),
         (''pt'', ''Digite texto ou curingas para filtrar arquivos por nome. Use asterisco para qualquer caractere.''),
         (''ja'', [CHR 0xE3, CHR 0x83, CHR 0x86, CHR 0xE3, CHR 0x82, CHR 0xAD, CHR 0xE3,
             CHR 0x82, CHR 0xB9, CHR 0xE3, CHR 0x83, CHR 0x88, CHR 0xE3, CHR 0x81, CHR 0xBE,
             CHR 0xE3, CHR 0x81, CHR 0x9F, CHR 0xE3, CHR 0x81, CHR 0xAF, CHR 0xE3, CHR 0x83,
             CHR 0xAF, CHR 0xE3, CHR 0x82, CHR 0xA4, CHR 0xE3, CHR 0x83, CHR 0xAB, CHR 0xE3,
             CHR 0x83, CHR 0x89, CHR 0xE3, CHR 0x82, CHR 0xAB, CHR 0xE3, CHR 0x83, CHR 0xBC,
             CHR 0xE3, CHR 0x83, CHR 0x89, CHR 0xE3, CHR 0x82, CHR 0x92, CHR 0xE5, CHR 0x85,
             CHR 0xA5, CHR 0xE5, CHR 0x8A, CHR 0x9B, CHR 0xE3, CHR 0x81, CHR 0x97, CHR 0xE3,
             CHR 0x81, CHR 0xA6, CHR 0xE3, CHR 0x80, CHR 0x81, CHR 0xE5, CHR 0x90, CHR 0x8D,
             CHR 0xE5, CHR 0x89, CHR 0x8D, CHR 0xE3, CHR 0x81, CHR 0xA7, CHR 0xE3, CHR 0x83,
             CHR 0x95, CHR 0xE3, CHR 0x82, CHR 0xA1, CHR 0xE3, CHR 0x82, CHR 0xA4, CHR 0xE3,
             CHR 0x83, CHR 0xAB, CHR 0xE3, CHR 0x82, CHR 0x92, CHR 0xE3, CHR 0x83, CHR 0x95,
             CHR 0xE3, CHR 0x82, CHR 0xA3, CHR 0xE3, CHR 0x83, CHR 0xAB, CHR 0xE3, CHR 0x82,
             CHR 0xBF, CHR 0xE3, CHR 0x83, CHR 0xBC, CHR 0xE3, CHR 0x80, CHR 0x82, CHR 0xE4,
             CHR 0xBB, CHR 0xBB, CHR 0xE6, CHR 0x84, CHR 0x8F, CHR 0xE3, CHR 0x81, CHR 0xAE,
             CHR 0xE6, CHR 0x96, CHR 0x87, CHR 0xE5, CHR 0xAD, CHR 0x97, CHR 0xE3, CHR 0x81,
             CHR 0xAB, CHR 0xE3, CHR 0x81, CHR 0xAF, CHR 0xE3, CHR 0x82, CHR 0xA2, CHR 0xE3,
             CHR 0x82, CHR 0xB9, CHR 0xE3, CHR 0x82, CHR 0xBF, CHR 0xE3, CHR 0x83, CHR 0xAA,
             CHR 0xE3, CHR 0x82, CHR 0xB9, CHR 0xE3, CHR 0x82, CHR 0xAF, CHR 0xE3, CHR 0x82,
             CHR 0x92, CHR 0xE4, CHR 0xBD, CHR 0xBF, CHR 0xE7, CHR 0x94, CHR 0xA8, CHR 0xE3,
             CHR 0x80, CHR 0x82]),
         (''ru'', [CHR 0xD0, CHR 0x92, CHR 0xD0, CHR 0xB2, CHR 0xD0, CHR 0xB5, CHR 0xD0,
             CHR 0xB4, CHR 0xD0, CHR 0xB8, CHR 0xD1, CHR 0x82, CHR 0xD0,
             CHR 0xB5] @ '' '' @ [CHR 0xD1, CHR 0x82, CHR 0xD0, CHR 0xB5, CHR 0xD0, CHR 0xBA,
             CHR 0xD1, CHR 0x81, CHR 0xD1, CHR 0x82] @ '' '' @ [CHR 0xD0, CHR 0xB8, CHR 0xD0,
             CHR 0xBB, CHR 0xD0, CHR 0xB8] @ '' '' @ [CHR 0xD0, CHR 0xBF, CHR 0xD0, CHR 0xBE,
             CHR 0xD0, CHR 0xB4, CHR 0xD1, CHR 0x81, CHR 0xD1, CHR 0x82, CHR 0xD0, CHR 0xB0,
             CHR 0xD0, CHR 0xBD, CHR 0xD0, CHR 0xBE, CHR 0xD0, CHR 0xB2, CHR 0xD0, CHR 0xBE,
             CHR 0xD1, CHR 0x87, CHR 0xD0, CHR 0xBD, CHR 0xD1, CHR 0x8B, CHR 0xD0,
             CHR 0xB5] @ '' '' @ [CHR 0xD0, CHR 0xB7, CHR 0xD0, CHR 0xBD, CHR 0xD0, CHR 0xB0,
             CHR 0xD0, CHR 0xBA, CHR 0xD0, CHR 0xB8] @ '' '' @ [CHR 0xD0, CHR 0xB4, CHR 0xD0,
             CHR 0xBB, CHR 0xD1, CHR 0x8F] @ '' '' @ [CHR 0xD1, CHR 0x84, CHR 0xD0, CHR 0xB8,
             CHR 0xD0, CHR 0xBB, CHR 0xD1, CHR 0x8C, CHR 0xD1, CHR 0x82, CHR 0xD1, CHR 0x80,
             CHR 0xD0, CHR 0xB0, CHR 0xD1, CHR 0x86, CHR 0xD0, CHR 0xB8, CHR 0xD0,
             CHR 0xB8] @ '' '' @ [CHR 0xD1, CHR 0x84, CHR 0xD0, CHR 0xB0, CHR 0xD0, CHR 0xB9,
             CHR 0xD0, CHR 0xBB, CHR 0xD0, CHR 0xBE, CHR 0xD0, CHR 0xB2] @ '' '' @ [CHR 0xD0,
             CHR 0xBF, CHR 0xD0, CHR 0xBE] @ '' '' @ [CHR 0xD0, CHR 0xB8, CHR 0xD0, CHR 0xBC,
             CHR 0xD0, CHR 0xB5, CHR 0xD0, CHR 0xBD, CHR 0xD0, CHR 0xB8] @ ''. '' @ [CHR 0xD0,
             CHR 0x98, CHR 0xD1, CHR 0x81, CHR 0xD0, CHR 0xBF, CHR 0xD0, CHR 0xBE, CHR 0xD0,
             CHR 0xBB, CHR 0xD1, CHR 0x8C, CHR 0xD0, CHR 0xB7, CHR 0xD1, CHR 0x83, CHR 0xD0,
             CHR 0xB9, CHR 0xD1, CHR 0x82, CHR 0xD0, CHR 0xB5] @ '' '' @ [CHR 0xD0, CHR 0xB7,
             CHR 0xD0, CHR 0xB2, CHR 0xD0, CHR 0xB5, CHR 0xD0, CHR 0xB7, CHR 0xD0, CHR 0xB4,
             CHR 0xD0, CHR 0xBE, CHR 0xD1, CHR 0x87, CHR 0xD0, CHR 0xBA, CHR 0xD1,
             CHR 0x83] @ '' '' @ [CHR 0xD0, CHR 0xB4, CHR 0xD0, CHR 0xBB, CHR 0xD1,
             CHR 0x8F] @ '' '' @ [CHR 0xD0, CHR 0xBB, CHR 0xD1, CHR 0x8E, CHR 0xD0, CHR 0xB1,
             CHR 0xD1, CHR 0x8B, CHR 0xD1, CHR 0x85] @ '' '' @ [CHR 0xD1, CHR 0x81, CHR 0xD0,
             CHR 0xB8, CHR 0xD0, CHR 0xBC, CHR 0xD0, CHR 0xB2, CHR 0xD0, CHR 0xBE, CHR 0xD0,
             CHR 0xBB, CHR 0xD0, CHR 0xBE, CHR 0xD0, CHR 0xB2] @ ''.''),
         (''ko'', [CHR 0xEC, CHR 0x9D, CHR 0xB4, CHR 0xEB, CHR 0xA6, CHR 0x84, CHR 0xEC,
             CHR 0x9C, CHR 0xBC, CHR 0xEB, CHR 0xA1, CHR 0x9C] @ '' '' @ [CHR 0xED, CHR 0x8C,
             CHR 0x8C, CHR 0xEC, CHR 0x9D, CHR 0xBC, CHR 0xEC, CHR 0x9D,
             CHR 0x84] @ '' '' @ [CHR 0xED, CHR 0x95, CHR 0x84, CHR 0xED, CHR 0x84, CHR 0xB0,
             CHR 0xEB, CHR 0xA7, CHR 0x81, CHR 0xED, CHR 0x95, CHR 0x98, CHR 0xEB, CHR 0xA0,
             CHR 0xA4, CHR 0xEB, CHR 0xA9, CHR 0xB4] @ '' '' @ [CHR 0xED, CHR 0x85, CHR 0x8D,
             CHR 0xEC, CHR 0x8A, CHR 0xA4, CHR 0xED, CHR 0x8A, CHR 0xB8] @ '' '' @ [CHR 0xEB,
             CHR 0x98, CHR 0x90, CHR 0xEB, CHR 0x8A, CHR 0x94] @ '' '' @ [CHR 0xEC, CHR 0x99,
             CHR 0x80, CHR 0xEC, CHR 0x9D, CHR 0xBC, CHR 0xEB, CHR 0x93, CHR 0x9C, CHR 0xEC,
             CHR 0xB9, CHR 0xB4, CHR 0xEB, CHR 0x93, CHR 0x9C, CHR 0xEB, CHR 0xA5,
             CHR 0xBC] @ '' '' @ [CHR 0xEC, CHR 0x9E, CHR 0x85, CHR 0xEB, CHR 0xA0, CHR 0xA5,
             CHR 0xED, CHR 0x95, CHR 0x98, CHR 0xEC, CHR 0x84, CHR 0xB8, CHR 0xEC, CHR 0x9A,
             CHR 0x94] @ ''. '' @ [CHR 0xEB, CHR 0xAA, CHR 0xA8, CHR 0xEB, CHR 0x93,
             CHR 0xA0] @ '' '' @ [CHR 0xEB, CHR 0xAC, CHR 0xB8, CHR 0xEC, CHR 0x9E, CHR 0x90,
             CHR 0xEC, CHR 0x97, CHR 0x90] @ '' '' @ [CHR 0xEB, CHR 0xB3, CHR 0x84, CHR 0xED,
             CHR 0x91, CHR 0x9C, CHR 0xEB, CHR 0xA5, CHR 0xBC] @ '' '' @ [CHR 0xEC, CHR 0x82,
             CHR 0xAC, CHR 0xEC, CHR 0x9A, CHR 0xA9, CHR 0xED, CHR 0x95, CHR 0x98, CHR 0xEC,
             CHR 0x84, CHR 0xB8, CHR 0xEC, CHR 0x9A, CHR 0x94] @ ''.''),
         (''it'', ''Inserisci testo o caratteri jolly per filtrare i file per nome. Usa l'' @ [CHR 0x27] @ ''asterisco per qualsiasi carattere.'')]),
      (''Filename filter'',
        [(''de'', ''Dateinamenfilter''),
         (''es'', ''Filtro de nombre''),
         (''fr'', ''Filtre de nom''),
         (''zh-Hans'', [CHR 0xE6, CHR 0x96, CHR 0x87, CHR 0xE4, CHR 0xBB, CHR 0xB6, CHR 0xE5,
             CHR 0x90, CHR 0x8D, CHR 0xE7, CHR 0xAD, CHR 0x9B, CHR 0xE9, CHR 0x80, CHR 0x89]),
         (''pt'', ''Filtro de nome''),
         (''ja'', [CHR 0xE3, CHR 0x83, CHR 0x95, CHR 0xE3, CHR 0x82, CHR 0xA1, CHR 0xE3,
             CHR 0x82, CHR 0xA4, CHR 0xE3, CHR 0x83, CHR 0xAB, CHR 0xE5, CHR 0x90, CHR 0x8D,
             CHR 0xE3, CHR 0x83, CHR 0x95, CHR 0xE3, CHR 0x82, CHR 0xA3, CHR 0xE3, CHR 0x83,
             CHR 0xAB, CHR 0xE3, CHR 0x82, CHR 0xBF, CHR 0xE3, CHR 0x83, CHR 0xBC]),
         (''ru'', [CHR 0xD0, CHR 0xA4, CHR 0xD0, CHR 0xB8, CHR 0xD0, CHR 0xBB, CHR 0xD1,
             CHR 0x8C, CHR 0xD1, CHR 0x82, CHR 0xD1, CHR 0x80] @ '' '' @ [CHR 0xD0, CHR 0xB8,
             CHR 0xD0, CHR 0xBC, CHR 0xD0, CHR 0xB5, CHR 0xD0, CHR 0xBD, CHR 0xD0, CHR 0xB8]),
         (''ko'', [CHR 0xED, CHR 0x8C, CHR 0x8C, CHR 0xEC, CHR 0x9D,
             CHR 0xBC] @ '' '' @ [CHR 0xEC, CHR 0x9D, CHR 0xB4, CHR 0xEB, CHR 0xA6,
             CHR 0x84] @ '' '' @ [CHR 0xED, CHR 0x95, CHR 0x84, CHR 0xED, CHR 0x84, CHR 0xB0]),
         (''it'', ''Filtro nome file'')]),
      (''Filter by name (*.ts, node_modules, etc.)'',
        [(''de'', ''Nach Namen filtern (*.ts, node_modules, usw.)''),
         (''es'', ''Filtrar por nombre (*.ts, node_modules, etc.)''),
         (''fr'', ''Filtrer par nom (*.ts, node_modules, etc.)''),
         (''zh-Hans'', [CHR 0xE6, CHR 0x8C, CHR 0x89, CHR 0xE5, CHR 0x90, CHR 0x8D, CHR 0xE7,
             CHR 0xA7, CHR 0xB0, CHR 0xE7, CHR 0xAD, CHR 0x9B, CHR 0xE9, CHR 0x80, CHR 0x89,
             CHR 0xEF, CHR 0xBC, CHR 0x88] @ ''*.ts'' @ [CHR 0xE3, CHR 0x80,
             CHR 0x81] @ ''node_modules '' @ [CHR 0xE7, CHR 0xAD, CHR 0x89, CHR 0xEF, CHR 0xBC,
             CHR 0x89]),
         (''pt'', ''Filtrar por nome (*.ts, node_modules, etc.)''),
         (''ja'', [CHR 0xE5, CHR 0x90, CHR 0x8D, CHR 0xE5, CHR 0x89, CHR 0x8D, CHR 0xE3,
             CHR 0x81, CHR 0xA7, CHR 0xE3, CHR 0x83, CHR 0x95, CHR 0xE3, CHR 0x82, CHR 0xA3,
             CHR 0xE3, CHR 0x83, CHR 0xAB, CHR 0xE3, CHR 0x82, CHR 0xBF, CHR 0xE3, CHR 0x83,
             CHR 0xBC, CHR 0xEF, CHR 0xBC, CHR 0x88] @ ''*.ts'' @ [CHR 0xE3, CHR 0x80,
             CHR 0x81] @ ''node_modules '' @ [CHR 0xE3, CHR 0x81, CHR 0xAA, CHR 0xE3, CHR 0x81,
             CHR 0xA9, CHR 0xEF, CHR 0xBC, CHR 0x89]),
         (''ru'', [CHR 0xD0, CHR 0xA4, CHR 0xD0, CHR 0xB8, CHR 0xD0, CHR 0xBB, CHR 0xD1,
             CHR 0x8C, CHR 0xD1, CHR 0x82, CHR 0xD1, CHR 0x80] @ '' '' @ [CHR 0xD0, CHR 0xBF,
             CHR 0xD0, CHR 0xBE] @ '' '' @ [CHR 0xD0, CHR 0xB8, CHR 0xD0, CHR 0xBC, CHR 0xD0,
             CHR 0xB5, CHR 0xD0, CHR 0xBD, CHR 0xD0,
             CHR 0xB8] @ '' (*.ts, node_modules '' @ [CHR 0xD0, CHR 0xB8] @ '' '' @ [CHR 0xD1,
             CHR 0x82] @ ''.'' @ [CHR 0xD0, CHR 0xB4] @ ''.)''),
         (''ko'', [CHR 0xEC, CHR 0x9D, CHR 0xB4, CHR 0xEB, CHR 0xA6, CHR 0x84, CHR 0xEC,
             CHR 0x9C, CHR 0xBC, CHR 0xEB, CHR 0xA1, CHR 0x9C] @ '' '' @ [CHR 0xED, CHR 0x95,
             CHR 0x84, CHR 0xED, CHR 0x84, CHR 0xB0, CHR 0xEB, CHR 0xA7,
             CHR 0x81] @ '' (*.ts, node_modules '' @ [CHR 0xEB, CHR 0x93, CHR 0xB1] @ '')''),
         (''it'', ''Filtra per nome (*.ts, node_modules, ecc.)'')]),
      (''Hidden'',
        [(''de'', ''Ausgeblendet''),
         (''es'', ''Oculto''),
         (''fr'', ''Masqu'' @ [CHR 0xC3, CHR 0xA9]),
         (''zh-Hans'', [CHR 0xE5, CHR 0xB7, CHR 0xB2, CHR 0xE9, CHR 0x9A, CHR 0x90, CHR 0xE8,
             CHR 0x97, CHR 0x8F]),
         (''pt'', ''Oculto''),
         (''ja'', [CHR 0xE9, CHR 0x9D, CHR 0x9E, CHR 0xE8, CHR 0xA1, CHR 0xA8, CHR 0xE7,
             CHR 0xA4, CHR 0xBA]),
         (''ru'', [CHR 0xD0, CHR 0xA1, CHR 0xD0, CHR 0xBA, CHR 0xD1, CHR 0x80, CHR 0xD1,
             CHR 0x8B, CHR 0xD1, CHR 0x82, CHR 0xD0, CHR 0xBE]),
         (''ko'', [CHR 0xEC, CHR 0x88, CHR 0xA8, CHR 0xEA, CHR 0xB9, CHR 0x80]),
         (''it'', ''Nascosto'')]),
      (''Moves the selected item to trash. Requires confirmation.'',
        [(''de'', ''Verschiebt das ausgew'' @ [CHR 0xC3,
            CHR 0xA4] @ ''hlte Element in den Papierkorb. Erfordert Best'' @ [CHR 0xC3,
            CHR 0xA4] @ ''tigung.''),
         (''es'', ''Mueve el elemento seleccionado a la papelera. Requiere confirmaci'' @ [CHR 0xC3,
             CHR 0xB3] @ ''n.''),
         (''fr'', ''D'' @ [CHR 0xC3, CHR 0xA9] @ ''place l'' @ [CHR 0x27, CHR 0xC3,
             CHR 0xA9] @ ''l'' @ [CHR 0xC3, CHR 0xA9] @ ''ment s'' @ [CHR 0xC3,
             CHR 0xA9] @ ''lectionn'' @ [CHR 0xC3,
             CHR 0xA9] @ '' vers la corbeille. N'' @ [CHR 0xC3,
             CHR 0xA9] @ ''cessite une confirmation.''),
         (''zh-Hans'', [CHR 0xE5, CHR 0xB0, CHR 0x86, CHR 0xE6, CHR 0x89, CHR 0x80, CHR 0xE9,
             CHR 0x80, CHR 0x89, CHR 0xE9, CHR 0xA1, CHR 0xB9, CHR 0xE7, CHR 0x9B, CHR 0xAE,
             CHR 0xE7, CHR 0xA7, CHR 0xBB, CHR 0xE8, CHR 0x87, CHR 0xB3, CHR 0xE5, CHR 0xBA,
             CHR 0x9F, CHR 0xE7, CHR 0xBA, CHR 0xB8, CHR 0xE7, CHR 0xAF, CHR 0x93, CHR 0xE3,
             CHR 0x80, CHR 0x82, CHR 0xE9, CHR 0x9C, CHR 0x80, CHR 0xE8, CHR 0xA6, CHR 0x81,
             CHR 0xE7, CHR 0xA1, CHR 0xAE, CHR 0xE8, CHR 0xAE, CHR 0xA4, CHR 0xE3, CHR 0x80,
             CHR 0x82]),
         (''pt'', ''Move o item selecionado para a lixeira. Requer confirma'' @ [CHR 0xC3,
             CHR 0xA7, CHR 0xC3, CHR 0xA3] @ ''o.''),
         (''ja'', [CHR 0xE9, CHR 0x81, CHR 0xB8, CHR 0xE6, CHR 0x8A, CHR 0x9E, CHR 0xE3,
             CHR 0x81, CHR 0x97, CHR 0xE3, CHR 0x81, CHR 0x9F, CHR 0xE9, CHR 0xA0, CHR 0x85,
             CHR 0xE7, CHR 0x9B, CHR 0xAE, CHR 0xE3, CHR 0x82, CHR 0x92, CHR 0xE3, CHR 0x82,
             CHR 0xB4, CHR 0xE3, CHR 0x83, CHR 0x9F, CHR 0xE7, CHR 0xAE, CHR 0xB1, CHR 0xE3,
             CHR 0x81, CHR 0xAB, CHR 0xE7, CHR 0xA7, CHR 0xBB, CHR 0xE5, CHR 0x8B, CHR 0x95,
             CHR 0xE3, CHR 0x81, CHR 0x97, CHR 0xE3, CHR 0x81, CHR 0xBE, CHR 0xE3, CHR 0x81,
             CHR 0x99, CHR 0xE3, CHR 0x80, CHR 0x82, CHR 0xE7, CHR 0xA2, CHR 0xBA, CHR 0xE8,
             CHR 0xAA, CHR 0x8D, CHR 0xE3, CHR 0x81, CHR 0x8C, CHR 0xE5, CHR 0xBF, CHR 0x85,
             CHR 0xE8, CHR 0xA6, CHR 0x81, CHR 0xE3, CHR 0x81, CHR 0xA7, CHR 0xE3, CHR 0x81,
             CHR 0x99, CHR 0xE3, CHR 0x80, CHR 0x82]),
         (''ru'', [CHR 0xD0, CHR 0x9F, CHR 0xD0, CHR 0xB5, CHR 0xD1, CHR 0x80, CHR 0xD0,
             CHR 0xB5, CHR 0xD0, CHR 0xBC, CHR 0xD0, CHR 0xB5, CHR 0xD1, CHR 0x89, CHR 0xD0,
             CHR 0xB0, CHR 0xD0, CHR 0xB5, CHR 0xD1, CHR 0x82] @ '' '' @ [CHR 0xD0, CHR 0xB2,
             CHR 0xD1, CHR 0x8B, CHR 0xD0, CHR 0xB1, CHR 0xD1, CHR 0x80, CHR 0xD0, CHR 0xB0,
             CHR 0xD0, CHR 0xBD, CHR 0xD0, CHR 0xBD, CHR 0xD1, CHR 0x8B, CHR 0xD0,
             CHR 0xB9] @ '' '' @ [CHR 0xD1, CHR 0x8D, CHR 0xD0, CHR 0xBB, CHR 0xD0, CHR 0xB5,
             CHR 0xD0, CHR 0xBC, CHR 0xD0, CHR 0xB5, CHR 0xD0, CHR 0xBD, CHR 0xD1,
             CHR 0x82] @ '' '' @ [CHR 0xD0, CHR 0xB2] @ '' '' @ [CHR 0xD0, CHR 0xBA, CHR 0xD0,
             CHR 0xBE, CHR 0xD1, CHR 0x80, CHR 0xD0, CHR 0xB7, CHR 0xD0, CHR 0xB8, CHR 0xD0,
             CHR 0xBD, CHR 0xD1, CHR 0x83] @ ''. '' @ [CHR 0xD0, CHR 0xA2, CHR 0xD1, CHR 0x80,
             CHR 0xD0, CHR 0xB5, CHR 0xD0, CHR 0xB1, CHR 0xD1, CHR 0x83, CHR 0xD0, CHR 0xB5,
             CHR 0xD1, CHR 0x82] @ '' '' @ [CHR 0xD0, CHR 0xBF, CHR 0xD0, CHR 0xBE, CHR 0xD0,
             CHR 0xB4, CHR 0xD1, CHR 0x82, CHR 0xD0, CHR 0xB2, CHR 0xD0, CHR 0xB5, CHR 0xD1,
             CHR 0x80, CHR 0xD0, CHR 0xB6, CHR 0xD0, CHR 0xB4, CHR 0xD0, CHR 0xB5, CHR 0xD0,
             CHR 0xBD, CHR 0xD0, CHR 0xB8, CHR 0xD1, CHR 0x8F] @ ''.''),
         (''ko'', [CHR 0xEC, CHR 0x84, CHR 0xA0, CHR 0xED, CHR 0x83, CHR 0x9D, CHR 0xED,
             CHR 0x95, CHR 0x9C] @ '' '' @ [CHR 0xED, CHR 0x95, CHR 0xAD, CHR 0xEB, CHR 0xAA,
             CHR 0xA9, CHR 0xEC, CHR 0x9D, CHR 0x84] @ '' '' @ [CHR 0xED, CHR 0x9C, CHR 0xB4,
             CHR 0xEC, CHR 0xA7, CHR 0x80, CHR 0xED, CHR 0x86, CHR 0xB5, CHR 0xEC, CHR 0x9C,
             CHR 0xBC, CHR 0xEB, CHR 0xA1, CHR 0x9C] @ '' '' @ [CHR 0xEC, CHR 0x9D, CHR 0xB4,
             CHR 0xEB, CHR 0x8F, CHR 0x99, CHR 0xED, CHR 0x95, CHR 0xA9, CHR 0xEB, CHR 0x8B,
             CHR 0x88, CHR 0xEB, CHR 0x8B, CHR 0xA4] @ ''. '' @ [CHR 0xED, CHR 0x99, CHR 0x95,
             CHR 0xEC, CHR 0x9D, CHR 0xB8, CHR 0xEC, CHR 0x9D, CHR 0xB4] @ '' '' @ [CHR 0xED,
             CHR 0x95, CHR 0x84, CHR 0xEC, CHR 0x9A, CHR 0x94, CHR 0xED, CHR 0x95, CHR 0xA9,
             CHR 0xEB, CHR 0x8B, CHR 0x88, CHR 0xEB, CHR 0x8B, CHR 0xA4] @ ''.''),
         (''it'', ''Sposta l'' @ [CHR 0x27] @ ''elemento selezionato nel cestino. Richiede conferma.'')]),
      (''Name:'',
        [(''de'', ''Name:''),
         (''es'', ''Nombre:''),
         (''fr'', ''Nom:''),
         (''zh-Hans'', [CHR 0xE5, CHR 0x90, CHR 0x8D, CHR 0xE7, CHR 0xA7, CHR 0xB0, CHR 0xEF,
             CHR 0xBC, CHR 0x9A]),
         (''pt'', ''Nome:''),
         (''ja'', [CHR 0xE5, CHR 0x90, CHR 0x8D, CHR 0xE5, CHR 0x89, CHR 0x8D, CHR 0xEF,
             CHR 0xBC, CHR 0x9A]),
         (''ru'', [CHR 0xD0, CHR 0x98, CHR 0xD0, CHR 0xBC, CHR 0xD1, CHR 0x8F] @ '':''),
         (''ko'', [CHR 0xEC, CHR 0x9D, CHR 0xB4, CHR 0xEB, CHR 0xA6, CHR 0x84] @ '':''),
         (''it'', ''Nome:'')]),
      (''No file or folder selected'',
        [(''de'', ''Keine Datei oder Ordner ausgew'' @ [CHR 0xC3, CHR 0xA4] @ ''hlt''),
         (''es'', ''Ning'' @ [CHR 0xC3, CHR 0xBA] @ ''n archivo o carpeta seleccionado''),
         (''fr'', ''Aucun fichier ou dossier s'' @ [CHR 0xC3,
             CHR 0xA9] @ ''lectionn'' @ [CHR 0xC3, CHR 0xA9]),
         (''zh-Hans'', [CHR 0xE6, CHR 0x9C, CHR 0xAA, CHR 0xE9, CHR 0x80, CHR 0x89, CHR 0xE6,
             CHR 0x8B, CHR 0xA9, CHR 0xE6, CHR 0x96, CHR 0x87, CHR 0xE4, CHR 0xBB, CHR 0xB6,
             CHR 0xE6, CHR 0x88, CHR 0x96, CHR 0xE6, CHR 0x96, CHR 0x87, CHR 0xE4, CHR 0xBB,
             CHR 0xB6, CHR 0xE5, CHR 0xA4, CHR 0xB9]),
         (''pt'', ''Nenhum arquivo ou pasta selecionado''),
         (''ja'', [CHR 0xE3, CHR 0x83, CHR 0x95, CHR 0xE3, CHR 0x82, CHR 0xA1, CHR 0xE3,
             CHR 0x82, CHR 0xA4, CHR 0xE3, CHR 0x83, CHR 0xAB, CHR 0xE3, CHR 0x81, CHR 0xBE,
             CHR 0xE3, CHR 0x81, CHR 0x9F, CHR 0xE3, CHR 0x81, CHR 0xAF, CHR 0xE3, CHR 0x83,
             CHR 0x95, CHR 0xE3, CHR 0x82, CHR 0xA9, CHR 0xE3, CHR 0x83, CHR 0xAB, CHR 0xE3,
             CHR 0x83, CHR 0x80, CHR 0xE3, CHR 0x83, CHR 0xBC, CHR 0xE3, CHR 0x81, CHR 0x8C,
             CHR 0xE9, CHR 0x81, CHR 0xB8, CHR 0xE6, CHR 0x8A, CHR 0x9E, CHR 0xE3, CHR 0x81,
             CHR 0x95, CHR 0xE3, CHR 0x82, CHR 0x8C, CHR 0xE3, CHR 0x81, CHR 0xA6, CHR 0xE3,
             CHR 0x81, CHR 0x84, CHR 0xE3, CHR 0x81, CHR 0xBE, CHR 0xE3, CHR 0x81, CHR 0x9B,
             CHR 0xE3, CHR 0x82, CHR 0x93]),
         (''ru'', [CHR 0xD0, CHR 0xA4, CHR 0xD0, CHR 0xB0, CHR 0xD0, CHR 0xB9, CHR 0xD0,
             CHR 0xBB] @ '' '' @ [CHR 0xD0, CHR 0xB8, CHR 0xD0, CHR 0xBB, CHR 0xD0,
             CHR 0xB8] @ '' '' @ [CHR 0xD0, CHR 0xBF, CHR 0xD0, CHR 0xB0, CHR 0xD0, CHR 0xBF,
             CHR 0xD0, CHR 0xBA, CHR 0xD0, CHR 0xB0] @ '' '' @ [CHR 0xD0, CHR 0xBD, CHR 0xD0,
             CHR 0xB5] @ '' '' @ [CHR 0xD0, CHR 0xB2, CHR 0xD1, CHR 0x8B, CHR 0xD0, CHR 0xB1,
             CHR 0xD1, CHR 0x80, CHR 0xD0, CHR 0xB0, CHR 0xD0, CHR 0xBD, CHR 0xD1, CHR 0x8B]),
         (''ko'', [CHR 0xEC, CHR 0x84, CHR 0xA0, CHR 0xED, CHR 0x83, CHR 0x9D, CHR 0xEB,
             CHR 0x90, CHR 0x9C] @ '' '' @ [CHR 0xED, CHR 0x8C, CHR 0x8C, CHR 0xEC, CHR 0x9D,
             CHR 0xBC] @ '' '' @ [CHR 0xEB, CHR 0x98, CHR 0x90, CHR 0xEB, CHR 0x8A,
             CHR 0x94] @ '' '' @ [CHR 0xED, CHR 0x8F, CHR 0xB4, CHR 0xEB, CHR 0x8D,
             CHR 0x94] @ '' '' @ [CHR 0xEC, CHR 0x97, CHR 0x86, CHR 0xEC, CHR 0x9D, CHR 0x8C]),
         (''it'', ''Nessun file o cartella selezionato'')]),
      (''No filter'',
        [(''de'', ''Kein Filter''),
         (''es'', ''Sin filtro''),
         (''fr'', ''Aucun filtre''),
         (''zh-Hans'', [CHR 0xE6, CHR 0x97, CHR 0xA0, CHR 0xE7, CHR 0xAD, CHR 0x9B, CHR 0xE9,
             CHR 0x80, CHR 0x89]),
         (''pt'', ''Sem filtro''),
         (''ja'', [CHR 0xE3, CHR 0x83, CHR 0x95, CHR 0xE3, CHR 0x82, CHR 0xA3, CHR 0xE3,
             CHR 0x83, CHR 0xAB, CHR 0xE3, CHR 0x82, CHR 0xBF, CHR 0xE3, CHR 0x83, CHR 0xBC,
             CHR 0xE3, CHR 0x81, CHR 0xAA, CHR 0xE3, CHR 0x81, CHR 0x97]),
         (''ru'', [CHR 0xD0, CHR 0x91, CHR 0xD0, CHR 0xB5, CHR 0xD0,
             CHR 0xB7] @ '' '' @ [CHR 0xD1, CHR 0x84, CHR 0xD0, CHR 0xB8, CHR 0xD0, CHR 0xBB,
             CHR 0xD1, CHR 0x8C, CHR 0xD1, CHR 0x82, CHR 0xD1, CHR 0x80, CHR 0xD0, CHR 0xB0]),
         (''ko'', [CHR 0xED, CHR 0x95, CHR 0x84, CHR 0xED, CHR 0x84,
             CHR 0xB0] @ '' '' @ [CHR 0xEC, CHR 0x97, CHR 0x86, CHR 0xEC, CHR 0x9D, CHR 0x8C]),
         (''it'', ''Nessun filtro'')]),
      (''No selection'',
        [(''de'', ''Keine Auswahl''),
         (''es'', ''Sin selecci'' @ [CHR 0xC3, CHR 0xB3] @ ''n''),
         (''fr'', ''Aucune s'' @ [CHR 0xC3, CHR 0xA9] @ ''lection''),
         (''zh-Hans'', [CHR 0xE6, CHR 0x9C, CHR 0xAA, CHR 0xE9, CHR 0x80, CHR 0x89, CHR 0xE6,
             CHR 0x8B, CHR 0xA9]),
         (''pt'', ''Nenhuma sele'' @ [CHR 0xC3, CHR 0xA7, CHR 0xC3, CHR 0xA3] @ ''o''),
         (''ja'', [CHR 0xE9, CHR 0x81, CHR 0xB8, CHR 0xE6, CHR 0x8A, CHR 0x9E, CHR 0xE3,
             CHR 0x81, CHR 0xAA, CHR 0xE3, CHR 0x81, CHR 0x97]),
         (''ru'', [CHR 0xD0, CHR 0x9D, CHR 0xD0, CHR 0xB5] @ '' '' @ [CHR 0xD0, CHR 0xB2,
             CHR 0xD1, CHR 0x8B, CHR 0xD0, CHR 0xB1, CHR 0xD1, CHR 0x80, CHR 0xD0, CHR 0xB0,
             CHR 0xD0, CHR 0xBD, CHR 0xD0, CHR 0xBE]),
         (''ko'', [CHR 0xEC, CHR 0x84, CHR 0xA0, CHR 0xED, CHR 0x83,
             CHR 0x9D] @ '' '' @ [CHR 0xEC, CHR 0x97, CHR 0x86, CHR 0xEC, CHR 0x9D, CHR 0x8C]),
         (''it'', ''Nessuna selezione'')]),
      (''Not selected'',
        [(''de'', ''Nicht ausgew'' @ [CHR 0xC3, CHR 0xA4] @ ''hlt''),
         (''es'', ''No seleccionado''),
         (''fr'', ''Non s'' @ [CHR 0xC3, CHR 0xA9] @ ''lectionn'' @ [CHR 0xC3, CHR 0xA9]),
         (''zh-Hans'', [CHR 0xE6, CHR 0x9C, CHR 0xAA, CHR 0xE9, CHR 0x80, CHR 0x89, CHR 0xE6,
             CHR 0x8B, CHR 0xA9]),
         (''pt'', ''N'' @ [CHR 0xC3, CHR 0xA3] @ ''o selecionado''),
         (''ja'', [CHR 0xE6, CHR 0x9C, CHR 0xAA, CHR 0xE9, CHR 0x81, CHR 0xB8, CHR 0xE6,
             CHR 0x8A, CHR 0x9E]),
         (''ru'', [CHR 0xD0, CHR 0x9D, CHR 0xD0, CHR 0xB5] @ '' '' @ [CHR 0xD0, CHR 0xB2,
             CHR 0xD1, CHR 0x8B, CHR 0xD0, CHR 0xB1, CHR 0xD1, CHR 0x80, CHR 0xD0, CHR 0xB0,
             CHR 0xD0, CHR 0xBD, CHR 0xD0, CHR 0xBE]),
         (''ko'', [CHR 0xEC, CHR 0x84, CHR 0xA0, CHR 0xED, CHR 0x83, CHR 0x9D, CHR 0xEB,
             CHR 0x90, CHR 0x98, CHR 0xEC, CHR 0xA7, CHR 0x80] @ '' '' @ [CHR 0xEC, CHR 0x95,
             CHR 0x8A, CHR 0xEC, CHR 0x9D, CHR 0x8C]),
         (''it'', ''Non selezionato'')]),
      (''Open in Application'',
        [(''de'', ''In Programm '' @ [CHR 0xC3, CHR 0xB6] @ ''ffnen''),
         (''es'', ''Abrir en aplicaci'' @ [CHR 0xC3, CHR 0xB3] @ ''n''),
         (''fr'', ''Ouvrir dans l'' @ [CHR 0x27] @ ''application''),
         (''zh-Hans'', [CHR 0xE5, CHR 0x9C, CHR 0xA8, CHR 0xE5, CHR 0xBA, CHR 0x94, CHR 0xE7,
             CHR 0x94, CHR 0xA8, CHR 0xE7, CHR 0xA8, CHR 0x8B, CHR 0xE5, CHR 0xBA, CHR 0x8F,
             CHR 0xE4, CHR 0xB8, CHR 0xAD, CHR 0xE6, CHR 0x89, CHR 0x93, CHR 0xE5, CHR 0xBC,
             CHR 0x80]),
         (''pt'', ''Abrir no aplicativo''),
         (''ja'', [CHR 0xE3, CHR 0x82, CHR 0xA2, CHR 0xE3, CHR 0x83, CHR 0x97, CHR 0xE3,
             CHR 0x83, CHR 0xAA, CHR 0xE3, CHR 0x82, CHR 0xB1, CHR 0xE3, CHR 0x83, CHR 0xBC,
             CHR 0xE3, CHR 0x82, CHR 0xB7, CHR 0xE3, CHR 0x83, CHR 0xA7, CHR 0xE3, CHR 0x83,
             CHR 0xB3, CHR 0xE3, CHR 0x81, CHR 0xA7, CHR 0xE9, CHR 0x96, CHR 0x8B, CHR 0xE3,
             CHR 0x81, CHR 0x8F]),
         (''ru'', [CHR 0xD0, CHR 0x9E, CHR 0xD1, CHR 0x82, CHR 0xD0, CHR 0xBA, CHR 0xD1,
             CHR 0x80, CHR 0xD1, CHR 0x8B, CHR 0xD1, CHR 0x82, CHR 0xD1,
             CHR 0x8C] @ '' '' @ [CHR 0xD0, CHR 0xB2] @ '' '' @ [CHR 0xD0, CHR 0xBF, CHR 0xD1,
             CHR 0x80, CHR 0xD0, CHR 0xB8, CHR 0xD0, CHR 0xBB, CHR 0xD0, CHR 0xBE, CHR 0xD0,
             CHR 0xB6, CHR 0xD0, CHR 0xB5, CHR 0xD0, CHR 0xBD, CHR 0xD0, CHR 0xB8, CHR 0xD0,
             CHR 0xB8]),
         (''ko'', [CHR 0xEC, CHR 0x9D, CHR 0x91, CHR 0xEC, CHR 0x9A,
             CHR 0xA9] @ '' '' @ [CHR 0xED, CHR 0x94, CHR 0x84, CHR 0xEB, CHR 0xA1, CHR 0x9C,
             CHR 0xEA, CHR 0xB7, CHR 0xB8, CHR 0xEB, CHR 0x9E, CHR 0xA8, CHR 0xEC, CHR 0x97,
             CHR 0x90, CHR 0xEC, CHR 0x84, CHR 0x9C] @ '' '' @ [CHR 0xEC, CHR 0x97, CHR 0xB4,
             CHR 0xEA, CHR 0xB8, CHR 0xB0]),
         (''it'', ''Apri nell'' @ [CHR 0x27] @ ''applicazione'')]),
      (''Opens a folder picker to select a folder to analyze'',
        [(''de'', [CHR 0xC3,
            CHR 0x96] @ ''ffnet eine Ordnerauswahl, um einen zu analysierenden Ordner auszuw'' @ [CHR 0xC3,
            CHR 0xA4] @ ''hlen''),
         (''es'', ''Abre un selector de carpetas para seleccionar una carpeta para analizar''),
         (''fr'', ''Ouvre un s'' @ [CHR 0xC3,
             CHR 0xA9] @ ''lecteur de dossier pour choisir un dossier '' @ [CHR 0xC3,
             CHR 0xA0] @ '' analyser''),
         (''zh-Hans'', [CHR 0xE6, CHR 0x89, CHR 0x93, CHR 0xE5, CHR 0xBC, CHR 0x80, CHR 0xE6,
             CHR 0x96, CHR 0x87, CHR 0xE4, CHR 0xBB, CHR 0xB6, CHR 0xE5, CHR 0xA4, CHR 0xB9,
             CHR 0xE9, CHR 0x80, CHR 0x89, CHR 0xE6, CHR 0x8B, CHR 0xA9, CHR 0xE5, CHR 0x99,
             CHR 0xA8, CHR 0xE4, CHR 0xBB, CHR 0xA5, CHR 0xE9, CHR 0x80, CHR 0x89, CHR 0xE6,
             CHR 0x8B, CHR 0xA9, CHR 0xE8, CHR 0xA6, CHR 0x81, CHR 0xE5, CHR 0x88, CHR 0x86,
             CHR 0xE6, CHR 0x9E, CHR 0x90, CHR 0xE7, CHR 0x9A, CHR 0x84, CHR 0xE6, CHR 0x96,
             CHR 0x87, CHR 0xE4, CHR 0xBB, CHR 0xB6, CHR 0xE5, CHR 0xA4, CHR 0xB9]),
         (''pt'', ''Abre um seletor de pastas para selecionar uma pasta para analisar''),
         (''ja'', [CHR 0xE5, CHR 0x88, CHR 0x86, CHR 0xE6, CHR 0x9E, CHR 0x90, CHR 0xE3,
             CHR 0x81, CHR 0x99, CHR 0xE3, CHR 0x82, CHR 0x8B, CHR 0xE3, CHR 0x83, CHR 0x95,
             CHR 0xE3, CHR 0x82, CHR 0xA9, CHR 0xE3, CHR 0x83, CHR 0xAB, CHR 0xE3, CHR 0x83,
             CHR 0x80, CHR 0xE3, CHR 0x83, CHR 0xBC, CHR 0xE3, CHR 0x82, CHR 0x92, CHR 0xE9,
             CHR 0x81, CHR 0xB8, CHR 0xE6, CHR 0x8A, CHR 0x9E, CHR 0xE3, CHR 0x81, CHR 0x99,
             CHR 0xE3, CHR 0x82, CHR 0x8B, CHR 0xE3, CHR 0x81, CHR 0x9F, CHR 0xE3, CHR 0x82,
             CHR 0x81, CHR 0xE3, CHR 0x81, CHR 0xAE, CHR 0xE3, CHR 0x83, CHR 0x95, CHR 0xE3,
             CHR 0x82, CHR 0xA9, CHR 0xE3, CHR 0x83, CHR 0xAB, CHR 0xE3, CHR 0x83, CHR 0x80,
             CHR 0xE3, CHR 0x83, CHR 0xBC, CHR 0xE3, CHR 0x83, CHR 0x94, CHR 0xE3, CHR 0x83,
             CHR 0x83, CHR 0xE3, CHR 0x82, CHR 0xAB, CHR 0xE3, CHR 0x83, CHR 0xBC, CHR 0xE3,
             CHR 0x82, CHR 0x92, CHR 0xE9, CHR 0x96, CHR 0x8B, CHR 0xE3, CHR 0x81, CHR 0x8D,
             CHR 0xE3, CHR 0x81, CHR 0xBE, CHR 0xE3, CHR 0x81, CHR 0x99]),
         (''ru'', [CHR 0xD0, CHR 0x9E, CHR 0xD1, CHR 0x82, CHR 0xD0, CHR 0xBA, CHR 0xD1,
             CHR 0x80, CHR 0xD1, CHR 0x8B, CHR 0xD0, CHR 0xB2, CHR 0xD0, CHR 0xB0, CHR 0xD0,
             CHR 0xB5, CHR 0xD1, CHR 0x82] @ '' '' @ [CHR 0xD1, CHR 0x81, CHR 0xD1, CHR 0x80,
             CHR 0xD0, CHR 0xB5, CHR 0xD0, CHR 0xB4, CHR 0xD1, CHR 0x81, CHR 0xD1, CHR 0x82,
             CHR 0xD0, CHR 0xB2, CHR 0xD0, CHR 0xBE] @ '' '' @ [CHR 0xD0, CHR 0xB2, CHR 0xD1,
             CHR 0x8B, CHR 0xD0, CHR 0xB1, CHR 0xD0, CHR 0xBE, CHR 0xD1, CHR 0x80, CHR 0xD0,
             CHR 0xB0] @ '' '' @ [CHR 0xD0, CHR 0xBF, CHR 0xD0, CHR 0xB0, CHR 0xD0, CHR 0xBF,
             CHR 0xD0, CHR 0xBA, CHR 0xD0, CHR 0xB8] @ '' '' @ [CHR 0xD0, CHR 0xB4, CHR 0xD0,
             CHR 0xBB, CHR 0xD1, CHR 0x8F] @ '' '' @ [CHR 0xD0, CHR 0xB0, CHR 0xD0, CHR 0xBD,
             CHR 0xD0, CHR 0xB0, CHR 0xD0, CHR 0xBB, CHR 0xD0, CHR 0xB8, CHR 0xD0, CHR 0xB7,
             CHR 0xD0, CHR 0xB0]),
         (''ko'', [CHR 0xEB, CHR 0xB6, CHR 0x84, CHR 0xEC, CHR 0x84, CHR 0x9D, CHR 0xED,
             CHR 0x95, CHR 0xA0] @ '' '' @ [CHR 0xED, CHR 0x8F, CHR 0xB4, CHR 0xEB, CHR 0x8D,
             CHR 0x94, CHR 0xEB, CHR 0xA5, CHR 0xBC] @ '' '' @ [CHR 0xEC, CHR 0x84, CHR 0xA0,
             CHR 0xED, CHR 0x83, CHR 0x9D, CHR 0xED, CHR 0x95, CHR 0x98, CHR 0xEA, CHR 0xB8,
             CHR 0xB0] @ '' '' @ [CHR 0xEC, CHR 0x9C, CHR 0x84, CHR 0xED, CHR 0x95,
             CHR 0x9C] @ '' '' @ [CHR 0xED, CHR 0x8F, CHR 0xB4, CHR 0xEB, CHR 0x8D,
             CHR 0x94] @ '' '' @ [CHR 0xEC, CHR 0x84, CHR 0xA0, CHR 0xED, CHR 0x83, CHR 0x9D,
             CHR 0xEA, CHR 0xB8, CHR 0xB0, CHR 0xEB, CHR 0xA5, CHR 0xBC] @ '' '' @ [CHR 0xEC,
             CHR 0x97, CHR 0xBD, CHR 0xEB, CHR 0x8B, CHR 0x88, CHR 0xEB, CHR 0x8B, CHR 0xA4]),
         (''it'', ''Apre un selettore di cartelle per scegliere una cartella da analizzare'')]),
      (''Opens the selected file in its default application'',
        [(''de'', [CHR 0xC3, CHR 0x96] @ ''ffnet die ausgew'' @ [CHR 0xC3,
            CHR 0xA4] @ ''hlte Datei in ihrem Standardprogramm''),
         (''es'', ''Abre el archivo seleccionado en su aplicaci'' @ [CHR 0xC3,
             CHR 0xB3] @ ''n predeterminada''),
         (''fr'', ''Ouvre le fichier s'' @ [CHR 0xC3, CHR 0xA9] @ ''lectionn'' @ [CHR 0xC3,
             CHR 0xA9] @ '' dans son application par d'' @ [CHR 0xC3, CHR 0xA9] @ ''faut''),
         (''zh-Hans'', [CHR 0xE5, CHR 0x9C, CHR 0xA8, CHR 0xE9, CHR 0xBB, CHR 0x98, CHR 0xE8,
             CHR 0xAE, CHR 0xA4, CHR 0xE5, CHR 0xBA, CHR 0x94, CHR 0xE7, CHR 0x94, CHR 0xA8,
             CHR 0xE7, CHR 0xA8, CHR 0x8B, CHR 0xE5, CHR 0xBA, CHR 0x8F, CHR 0xE4, CHR 0xB8,
             CHR 0xAD, CHR 0xE6, CHR 0x89, CHR 0x93, CHR 0xE5, CHR 0xBC, CHR 0x80, CHR 0xE6,
             CHR 0x89, CHR 0x80, CHR 0xE9, CHR 0x80, CHR 0x89, CHR 0xE6, CHR 0x96, CHR 0x87,
             CHR 0xE4, CHR 0xBB, CHR 0xB6]),
         (''pt'', ''Abre o arquivo selecionado em seu aplicativo padr'' @ [CHR 0xC3,
             CHR 0xA3] @ ''o''),
         (''ja'', [CHR 0xE9, CHR 0x81, CHR 0xB8, CHR 0xE6, CHR 0x8A, CHR 0x9E, CHR 0xE3,
             CHR 0x81, CHR 0x97, CHR 0xE3, CHR 0x81, CHR 0x9F, CHR 0xE3, CHR 0x83, CHR 0x95,
             CHR 0xE3, CHR 0x82, CHR 0xA1, CHR 0xE3, CHR 0x82, CHR 0xA4, CHR 0xE3, CHR 0x83,
             CHR 0xAB, CHR 0xE3, CHR 0x82, CHR 0x92, CHR 0xE3, CHR 0x83, CHR 0x87, CHR 0xE3,
             CHR 0x83, CHR 0x95, CHR 0xE3, CHR 0x82, CHR 0xA9, CHR 0xE3, CHR 0x83, CHR 0xAB,
             CHR 0xE3, CHR 0x83, CHR 0x88, CHR 0xE3, CHR 0x81, CHR 0xAE, CHR 0xE3, CHR 0x82,
             CHR 0xA2, CHR 0xE3, CHR 0x83, CHR 0x97, CHR 0xE3, CHR 0x83, CHR 0xAA, CHR 0xE3,
             CHR 0x82, CHR 0xB1, CHR 0xE3, CHR 0x83, CHR 0xBC, CHR 0xE3, CHR 0x82, CHR 0xB7,
             CHR 0xE3, CHR 0x83, CHR 0xA7, CHR 0xE3, CHR 0x83, CHR 0xB3, CHR 0xE3, CHR 0x81,
             CHR 0xA7, CHR 0xE9, CHR 0x96, CHR 0x8B, CHR 0xE3, CHR 0x81, CHR 0x8D, CHR 0xE3,
             CHR 0x81, CHR 0xBE, CHR 0xE3, CHR 0x81, CHR 0x99]),
         (''ru'', [CHR 0xD0, CHR 0x9E, CHR 0xD1, CHR 0x82, CHR 0xD0, CHR 0xBA, CHR 0xD1,
             CHR 0x80, CHR 0xD1, CHR 0x8B, CHR 0xD0, CHR 0xB2, CHR 0xD0, CHR 0xB0, CHR 0xD0,
             CHR 0xB5, CHR 0xD1, CHR 0x82] @ '' '' @ [CHR 0xD0, CHR 0xB2, CHR 0xD1, CHR 0x8B,
             CHR 0xD0, CHR 0xB1, CHR 0xD1, CHR 0x80, CHR 0xD0, CHR 0xB0, CHR 0xD0, CHR 0xBD,
             CHR 0xD0, CHR 0xBD, CHR 0xD1, CHR 0x8B, CHR 0xD0, CHR 0xB9] @ '' '' @ [CHR 0xD1,
             CHR 0x84, CHR 0xD0, CHR 0xB0, CHR 0xD0, CHR 0xB9, CHR 0xD0,
             CHR 0xBB] @ '' '' @ [CHR 0xD0, CHR 0xB2] @ '' '' @ [CHR 0xD0, CHR 0xBF, CHR 0xD1,
             CHR 0x80, CHR 0xD0, CHR 0xB8, CHR 0xD0, CHR 0xBB, CHR 0xD0, CHR 0xBE, CHR 0xD0,
             CHR 0xB6, CHR 0xD0, CHR 0xB5, CHR 0xD0, CHR 0xBD, CHR 0xD0, CHR 0xB8, CHR 0xD0,
             CHR 0xB8] @ '' '' @ [CHR 0xD0, CHR 0xBF, CHR 0xD0, CHR 0xBE] @ '' '' @ [CHR 0xD1,
             CHR 0x83, CHR 0xD0, CHR 0xBC, CHR 0xD0, CHR 0xBE, CHR 0xD0, CHR 0xBB, CHR 0xD1,
             CHR 0x87, CHR 0xD0, CHR 0xB0, CHR 0xD0, CHR 0xBD, CHR 0xD0, CHR 0xB8, CHR 0xD1,
             CHR 0x8E]),
         (''ko'', [CHR 0xEA, CHR 0xB8, CHR 0xB0, CHR 0xEB, CHR 0xB3,
             CHR 0xB8] @ '' '' @ [CHR 0xEC, CHR 0x9D, CHR 0x91, CHR 0xEC, CHR 0x9A,
             CHR 0xA9] @ '' '' @ [CHR 0xED, CHR 0x94, CHR 0x84, CHR 0xEB, CHR 0xA1, CHR 0x9C,
             CHR 0xEA, CHR 0xB7, CHR 0xB8, CHR 0xEB, CHR 0x9E, CHR 0xA8, CHR 0xEC, CHR 0x97,
             CHR 0x90, CHR 0xEC, CHR 0x84, CHR 0x9C] @ '' '' @ [CHR 0xEC, CHR 0x84, CHR 0xA0,
             CHR 0xED, CHR 0x83, CHR 0x9D, CHR 0xED, CHR 0x95, CHR 0x9C] @ '' '' @ [CHR 0xED,
             CHR 0x8C, CHR 0x8C, CHR 0xEC, CHR 0x9D, CHR 0xBC, CHR 0xEC, CHR 0x9D,
             CHR 0x84] @ '' '' @ [CHR 0xEC, CHR 0x97, CHR 0xBD, CHR 0xEB, CHR 0x8B, CHR 0x88,
             CHR 0xEB, CHR 0x8B, CHR 0xA4]),
         (''it'', ''Apre il file selezionato nell'' @ [CHR 0x27] @ ''applicazione predefinita'')]),
      (''Opens this folder in the treemap'',
        [(''de'', [CHR 0xC3, CHR 0x96] @ ''ffnet diesen Ordner in der Baumkarte''),
         (''es'', ''Abre esta carpeta en el mapa de '' @ [CHR 0xC3, CHR 0xA1] @ ''rbol''),
         (''fr'', ''Ouvre ce dossier dans la carte arborescente''),
         (''zh-Hans'', [CHR 0xE5, CHR 0x9C, CHR 0xA8, CHR 0xE6, CHR 0xA0, CHR 0x91, CHR 0xE7,
             CHR 0x8A, CHR 0xB6, CHR 0xE5, CHR 0x9B, CHR 0xBE, CHR 0xE4, CHR 0xB8, CHR 0xAD,
             CHR 0xE6, CHR 0x89, CHR 0x93, CHR 0xE5, CHR 0xBC, CHR 0x80, CHR 0xE6, CHR 0xAD,
             CHR 0xA4, CHR 0xE6, CHR 0x96, CHR 0x87, CHR 0xE4, CHR 0xBB, CHR 0xB6, CHR 0xE5,
             CHR 0xA4, CHR 0xB9]),
         (''pt'', ''Abre esta pasta no mapa de '' @ [CHR 0xC3, CHR 0xA1] @ ''rvore''),
         (''ja'', [CHR 0xE3, CHR 0x83, CHR 0x84, CHR 0xE3, CHR 0x83, CHR 0xAA, CHR 0xE3,
             CHR 0x83, CHR 0xBC, CHR 0xE3, CHR 0x83, CHR 0x9E, CHR 0xE3, CHR 0x83, CHR 0x83,
             CHR 0xE3, CHR 0x83, CHR 0x97, CHR 0xE3, CHR 0x81, CHR 0xA7, CHR 0xE3, CHR 0x81,
             CHR 0x93, CHR 0xE3, CHR 0x81, CHR 0xAE, CHR 0xE3, CHR 0x83, CHR 0x95, CHR 0xE3,
             CHR 0x82, CHR 0xA9, CHR 0xE3, CHR 0x83, CHR 0xAB, CHR 0xE3, CHR 0x83, CHR 0x80,
             CHR 0xE3, CHR 0x83, CHR 0xBC, CHR 0xE3, CHR 0x82, CHR 0x92, CHR 0xE9, CHR 0x96,
             CHR 0x8B, CHR 0xE3, CHR 0x81, CHR 0x8D, CHR 0xE3, CHR 0x81, CHR 0xBE, CHR 0xE3,
             CHR 0x81, CHR 0x99]),
         (''ru'', [CHR 0xD0, CHR 0x9E, CHR 0xD1, CHR 0x82, CHR 0xD0, CHR 0xBA, CHR 0xD1,
             CHR 0x80, CHR 0xD1, CHR 0x8B, CHR 0xD0, CHR 0xB2, CHR 0xD0, CHR 0xB0, CHR 0xD0,
             CHR 0xB5, CHR 0xD1, CHR 0x82] @ '' '' @ [CHR 0xD1, CHR 0x8D, CHR 0xD1, CHR 0x82,
             CHR 0xD1, CHR 0x83] @ '' '' @ [CHR 0xD0, CHR 0xBF, CHR 0xD0, CHR 0xB0, CHR 0xD0,
             CHR 0xBF, CHR 0xD0, CHR 0xBA, CHR 0xD1, CHR 0x83] @ '' '' @ [CHR 0xD0,
             CHR 0xB2] @ '' '' @ [CHR 0xD0, CHR 0xB4, CHR 0xD1, CHR 0x80, CHR 0xD0, CHR 0xB5,
             CHR 0xD0, CHR 0xB2, CHR 0xD0, CHR 0xBE, CHR 0xD0, CHR 0xB2, CHR 0xD0, CHR 0xB8,
             CHR 0xD0, CHR 0xB4, CHR 0xD0, CHR 0xBD, CHR 0xD0, CHR 0xBE, CHR 0xD0,
             CHR 0xB9] @ '' '' @ [CHR 0xD0, CHR 0xBA, CHR 0xD0, CHR 0xB0, CHR 0xD1, CHR 0x80,
             CHR 0xD1, CHR 0x82, CHR 0xD0, CHR 0xB5]),
         (''ko'', [CHR 0xED, CHR 0x8A, CHR 0xB8, CHR 0xEB, CHR 0xA6, CHR 0xAC, CHR 0xEB,
             CHR 0xA7, CHR 0xB5, CHR 0xEC, CHR 0x97, CHR 0x90, CHR 0xEC, CHR 0x84,
             CHR 0x9C] @ '' '' @ [CHR 0xEC, CHR 0x9D, CHR 0xB4] @ '' '' @ [CHR 0xED, CHR 0x8F,
             CHR 0xB4, CHR 0xEB, CHR 0x8D, CHR 0x94, CHR 0xEB, CHR 0xA5,
             CHR 0xBC] @ '' '' @ [CHR 0xEC, CHR 0x97, CHR 0xBD, CHR 0xEB, CHR 0x8B, CHR 0x88,
             CHR 0xEB, CHR 0x8B, CHR 0xA4]),
         (''it'', ''Apre questa cartella nella mappa ad albero'')]),
      (''Ready to Scan'',
        [(''de'', ''Bereit zum Scannen''),
         (''es'', ''Listo para escanear''),
         (''fr'', ''Pr'' @ [CHR 0xC3, CHR 0xAA] @ ''t '' @ [CHR 0xC3,
             CHR 0xA0] @ '' analyser''),
         (''zh-Hans'', [CHR 0xE5, CHR 0x87, CHR 0x86, CHR 0xE5, CHR 0xA4, CHR 0x87, CHR 0xE6,
             CHR 0x89, CHR 0xAB, CHR 0xE6, CHR 0x8F, CHR 0x8F]),
         (''pt'', ''Pronto para verificar''),
         (''ja'', [CHR 0xE3, CHR 0x82, CHR 0xB9, CHR 0xE3, CHR 0x82, CHR 0xAD, CHR 0xE3,
             CHR 0x83, CHR 0xA3, CHR 0xE3, CHR 0x83, CHR 0xB3, CHR 0xE6, CHR 0xBA, CHR 0x96,
             CHR 0xE5, CHR 0x82, CHR 0x99, CHR 0xE5, CHR 0xAE, CHR 0x8C, CHR 0xE4, CHR 0xBA,
             CHR 0x86]),
         (''ru'', [CHR 0xD0, CHR 0x93, CHR 0xD0, CHR 0xBE, CHR 0xD1, CHR 0x82, CHR 0xD0,
             CHR 0xBE, CHR 0xD0, CHR 0xB2] @ '' '' @ [CHR 0xD0, CHR 0xBA] @ '' '' @ [CHR 0xD1,
             CHR 0x81, CHR 0xD0, CHR 0xBA, CHR 0xD0, CHR 0xB0, CHR 0xD0, CHR 0xBD, CHR 0xD0,
             CHR 0xB8, CHR 0xD1, CHR 0x80, CHR 0xD0, CHR 0xBE, CHR 0xD0, CHR 0xB2, CHR 0xD0,
             CHR 0xB0, CHR 0xD0, CHR 0xBD, CHR 0xD0, CHR 0xB8, CHR 0xD1, CHR 0x8E]),
         (''ko'', [CHR 0xEC, CHR 0x8A, CHR 0xA4, CHR 0xEC, CHR 0xBA,
             CHR 0x94] @ '' '' @ [CHR 0xEC, CHR 0xA4, CHR 0x80, CHR 0xEB, CHR 0xB9,
             CHR 0x84] @ '' '' @ [CHR 0xEC, CHR 0x99, CHR 0x84, CHR 0xEB, CHR 0xA3, CHR 0x8C]),
         (''it'', ''Pronto per la scansione'')]),
      (''Removes the filename filter to show all files'',
        [(''de'', ''Entfernt den Dateinamenfilter, um alle Dateien anzuzeigen''),
         (''es'', ''Elimina el filtro de nombre para mostrar todos los archivos''),
         (''fr'', ''Supprime le filtre de nom pour afficher tous les fichiers''),
         (''zh-Hans'', [CHR 0xE5, CHR 0x88, CHR 0xA0, CHR 0xE9, CHR 0x99, CHR 0xA4, CHR 0xE6,
             CHR 0x96, CHR 0x87, CHR 0xE4, CHR 0xBB, CHR 0xB6, CHR 0xE5, CHR 0x90, CHR 0x8D,
             CHR 0xE7, CHR 0xAD, CHR 0x9B, CHR 0xE9, CHR 0x80, CHR 0x89, CHR 0xE4, CHR 0xBB,
             CHR 0xA5, CHR 0xE6, CHR 0x98, CHR 0xBE, CHR 0xE7, CHR 0xA4, CHR 0xBA, CHR 0xE6,
             CHR 0x89, CHR 0x80, CHR 0xE6, CHR 0x9C, CHR 0x89, CHR 0xE6, CHR 0x96, CHR 0x87,
             CHR 0xE4, CHR 0xBB, CHR 0xB6]),
         (''pt'', ''Remove o filtro de nome para mostrar todos os arquivos''),
         (''ja'', [CHR 0xE3, CHR 0x83, CHR 0x95, CHR 0xE3, CHR 0x82, CHR 0xA1, CHR 0xE3,
             CHR 0x82, CHR 0xA4, CHR 0xE3, CHR 0x83, CHR 0xAB, CHR 0xE5, CHR 0x90, CHR 0x8D,
             CHR 0xE3, CHR 0x83, CHR 0x95, CHR 0xE3, CHR 0x82, CHR 0xA3, CHR 0xE3, CHR 0x83,
             CHR 0xAB, CHR 0xE3, CHR 0x82, CHR 0xBF, CHR 0xE3, CHR 0x83, CHR 0xBC, CHR 0xE3,
             CHR 0x82, CHR 0x92, CHR 0xE5, CHR 0x89, CHR 0x8A, CHR 0xE9, CHR 0x99, CHR 0xA4,
             CHR 0xE3, CHR 0x81, CHR 0x97, CHR 0xE3, CHR 0x81, CHR 0xA6, CHR 0xE3, CHR 0x81,
             CHR 0x99, CHR 0xE3, CHR 0x81, CHR 0xB9, CHR 0xE3, CHR 0x81, CHR 0xA6, CHR 0xE3,
             CHR 0x81, CHR 0xAE, CHR 0xE3, CHR 0x83, CHR 0x95, CHR 0xE3, CHR 0x82, CHR 0xA1,
             CHR 0xE3, CHR 0x82, CHR 0xA4, CHR 0xE3, CHR 0x83, CHR 0xAB, CHR 0xE3, CHR 0x82,
             CHR 0x92, CHR 0xE8, CHR 0xA1, CHR 0xA8, CHR 0xE7, CHR 0xA4, CHR 0xBA]),
         (''ru'', [CHR 0xD0, CHR 0xA3, CHR 0xD0, CHR 0xB4, CHR 0xD0, CHR 0xB0, CHR 0xD0,
             CHR 0xBB, CHR 0xD1, CHR 0x8F, CHR 0xD0, CHR 0xB5, CHR 0xD1,
             CHR 0x82] @ '' '' @ [CHR 0xD1, CHR 0x84, CHR 0xD0, CHR 0xB8, CHR 0xD0, CHR 0xBB,
             CHR 0xD1, CHR 0x8C, CHR 0xD1, CHR 0x82, CHR 0xD1, CHR 0x80] @ '' '' @ [CHR 0xD0,
             CHR 0xB8, CHR 0xD0, CHR 0xBC, CHR 0xD0, CHR 0xB5, CHR 0xD0, CHR 0xBD, CHR 0xD0,
             CHR 0xB8] @ '' '' @ [CHR 0xD0, CHR 0xB4, CHR 0xD0, CHR 0xBB, CHR 0xD1,
             CHR 0x8F] @ '' '' @ [CHR 0xD0, CHR 0xBE, CHR 0xD1, CHR 0x82, CHR 0xD0, CHR 0xBE,
             CHR 0xD0, CHR 0xB1, CHR 0xD1, CHR 0x80, CHR 0xD0, CHR 0xB0, CHR 0xD0, CHR 0xB6,
             CHR 0xD0, CHR 0xB5, CHR 0xD0, CHR 0xBD, CHR 0xD0, CHR 0xB8, CHR 0xD1,
             CHR 0x8F] @ '' '' @ [CHR 0xD0, CHR 0xB2, CHR 0xD1, CHR 0x81, CHR 0xD0, CHR 0xB5,
             CHR 0xD1, CHR 0x85] @ '' '' @ [CHR 0xD1, CHR 0x84, CHR 0xD0, CHR 0xB0, CHR 0xD0,
             CHR 0xB9, CHR 0xD0, CHR 0xBB, CHR 0xD0, CHR 0xBE, CHR 0xD0, CHR 0xB2]),
         (''ko'', [CHR 0xED, CHR 0x8C, CHR 0x8C, CHR 0xEC, CHR 0x9D,
             CHR 0xBC] @ '' '' @ [CHR 0xEC, CHR 0x9D, CHR 0xB4, CHR 0xEB, CHR 0xA6,
             CHR 0x84] @ '' '' @ [CHR 0xED, CHR 0x95, CHR 0x84, CHR 0xED, CHR 0x84, CHR 0xB0,
             CHR 0xEB, CHR 0xA5, CHR 0xBC] @ '' '' @ [CHR 0xEC, CHR 0xA0, CHR 0x9C, CHR 0xEA,
             CHR 0xB1, CHR 0xB0, CHR 0xED, CHR 0x95, CHR 0x98, CHR 0xEC, CHR 0x97,
             CHR 0xAC] @ '' '' @ [CHR 0xEB, CHR 0xAA, CHR 0xA8, CHR 0xEB, CHR 0x93,
             CHR 0xA0] @ '' '' @ [CHR 0xED, CHR 0x8C, CHR 0x8C, CHR 0xEC, CHR 0x9D,
             CHR 0xBC] @ '' '' @ [CHR 0xED, CHR 0x91, CHR 0x9C, CHR 0xEC, CHR 0x8B, CHR 0x9C]),
         (''it'', ''Rimuove il filtro nome per mostrare tutti i file'')]),
      (''Resets the scan state so you can select a new folder'',
        [(''de'', ''Setzt den Scanstatus zur'' @ [CHR 0xC3,
            CHR 0xBC] @ ''ck, damit Sie einen neuen Ordner ausw'' @ [CHR 0xC3,
            CHR 0xA4] @ ''hlen k'' @ [CHR 0xC3, CHR 0xB6] @ ''nnen''),
         (''es'', ''Restablece el estado del escaneo para que pueda seleccionar una nueva carpeta''),
         (''fr'', ''R'' @ [CHR 0xC3, CHR 0xA9] @ ''initialise l'' @ [CHR 0x27, CHR 0xC3,
             CHR 0xA9] @ ''tat de l'' @ [CHR 0x27] @ ''analyse afin que vous puissiez s'' @ [CHR 0xC3,
             CHR 0xA9] @ ''lectionner un nouveau dossier''),
         (''zh-Hans'', [CHR 0xE9, CHR 0x87, CHR 0x8D, CHR 0xE7, CHR 0xBD, CHR 0xAE, CHR 0xE6,
             CHR 0x89, CHR 0xAB, CHR 0xE6, CHR 0x8F, CHR 0x8F, CHR 0xE7, CHR 0x8A, CHR 0xB6,
             CHR 0xE6, CHR 0x80, CHR 0x81, CHR 0xEF, CHR 0xBC, CHR 0x8C, CHR 0xE4, CHR 0xBB,
             CHR 0xA5, CHR 0xE4, CHR 0xBE, CHR 0xBF, CHR 0xE6, CHR 0x82, CHR 0xA8, CHR 0xE5,
             CHR 0x8F, CHR 0xAF, CHR 0xE4, CHR 0xBB, CHR 0xA5, CHR 0xE9, CHR 0x80, CHR 0x89,
             CHR 0xE6, CHR 0x8B, CHR 0xA9, CHR 0xE6, CHR 0x96, CHR 0xB0, CHR 0xE6, CHR 0x96,
             CHR 0x87, CHR 0xE4, CHR 0xBB, CHR 0xB6, CHR 0xE5, CHR 0xA4, CHR 0xB9]),
         (''pt'', ''Redefine o estado de verifica'' @ [CHR 0xC3, CHR 0xA7, CHR 0xC3,
             CHR 0xA3] @ ''o para que voc'' @ [CHR 0xC3,
             CHR 0xAA] @ '' possa selecionar uma nova pasta''),
         (''ja'', [CHR 0xE3, CHR 0x82, CHR 0xB9, CHR 0xE3, CHR 0x82, CHR 0xAD, CHR 0xE3,
             CHR 0x83, CHR 0xA3, CHR 0xE3, CHR 0x83, CHR 0xB3, CHR 0xE7, CHR 0x8A, CHR 0xB6,
             CHR 0xE6, CHR 0x85, CHR 0x8B, CHR 0xE3, CHR 0x82, CHR 0x92, CHR 0xE3, CHR 0x83,
             CHR 0xAA, CHR 0xE3, CHR 0x82, CHR 0xBB, CHR 0xE3, CHR 0x83, CHR 0x83, CHR 0xE3,
             CHR 0x83, CHR 0x88, CHR 0xE3, CHR 0x81, CHR 0x97, CHR 0xE3, CHR 0x81, CHR 0xA6,
             CHR 0xE6, CHR 0x96, CHR 0xB0, CHR 0xE3, CHR 0x81, CHR 0x97, CHR 0xE3, CHR 0x81,
             CHR 0x84, CHR 0xE3, CHR 0x83, CHR 0x95, CHR 0xE3, CHR 0x82, CHR 0xA9, CHR 0xE3,
             CHR 0x83, CHR 0xAB, CHR 0xE3, CHR 0x83, CHR 0x80, CHR 0xE3, CHR 0x83, CHR 0xBC,
             CHR 0xE3, CHR 0x82, CHR 0x92, CHR 0xE9, CHR 0x81, CHR 0xB8, CHR 0xE6, CHR 0x8A,
             CHR 0x9E, CHR 0xE3, CHR 0x81, CHR 0xA7, CHR 0xE3, CHR 0x81, CHR 0x8D, CHR 0xE3,
             CHR 0x82, CHR 0x8B, CHR 0xE3, CHR 0x82, CHR 0x88, CHR 0xE3, CHR 0x81, CHR 0x86,
             CHR 0xE3, CHR 0x81, CHR 0xAB, CHR 0xE3, CHR 0x81, CHR 0x97, CHR 0xE3, CHR 0x81,
             CHR 0xBE, CHR 0xE3, CHR 0x81, CHR 0x99]),
         (''ru'', [CHR 0xD0, CHR 0xA1, CHR 0xD0, CHR 0xB1, CHR 0xD1, CHR 0x80, CHR 0xD0,
             CHR 0xB0, CHR 0xD1, CHR 0x81, CHR 0xD1, CHR 0x8B, CHR 0xD0, CHR 0xB2, CHR 0xD0,
             CHR 0xB0, CHR 0xD0, CHR 0xB5, CHR 0xD1, CHR 0x82] @ '' '' @ [CHR 0xD1, CHR 0x81,
             CHR 0xD0, CHR 0xBE, CHR 0xD1, CHR 0x81, CHR 0xD1, CHR 0x82, CHR 0xD0, CHR 0xBE,
             CHR 0xD1, CHR 0x8F, CHR 0xD0, CHR 0xBD, CHR 0xD0, CHR 0xB8, CHR 0xD0,
             CHR 0xB5] @ '' '' @ [CHR 0xD1, CHR 0x81, CHR 0xD0, CHR 0xBA, CHR 0xD0, CHR 0xB0,
             CHR 0xD0, CHR 0xBD, CHR 0xD0, CHR 0xB8, CHR 0xD1, CHR 0x80, CHR 0xD0, CHR 0xBE,
             CHR 0xD0, CHR 0xB2, CHR 0xD0, CHR 0xB0, CHR 0xD0, CHR 0xBD, CHR 0xD0, CHR 0xB8,
             CHR 0xD1, CHR 0x8F] @ '', '' @ [CHR 0xD1, CHR 0x87, CHR 0xD1, CHR 0x82, CHR 0xD0,
             CHR 0xBE, CHR 0xD0, CHR 0xB1, CHR 0xD1, CHR 0x8B] @ '' '' @ [CHR 0xD0, CHR 0xB2,
             CHR 0xD1, CHR 0x8B] @ '' '' @ [CHR 0xD0, CHR 0xBC, CHR 0xD0, CHR 0xBE, CHR 0xD0,
             CHR 0xB3, CHR 0xD0, CHR 0xBB, CHR 0xD0, CHR 0xB8] @ '' '' @ [CHR 0xD0, CHR 0xB2,
             CHR 0xD1, CHR 0x8B, CHR 0xD0, CHR 0xB1, CHR 0xD1, CHR 0x80, CHR 0xD0, CHR 0xB0,
             CHR 0xD1, CHR 0x82, CHR 0xD1, CHR 0x8C] @ '' '' @ [CHR 0xD0, CHR 0xBD, CHR 0xD0,
             CHR 0xBE, CHR 0xD0, CHR 0xB2, CHR 0xD1, CHR 0x83, CHR 0xD1,
             CHR 0x8E] @ '' '' @ [CHR 0xD0, CHR 0xBF, CHR 0xD0, CHR 0xB0, CHR 0xD0, CHR 0xBF,
             CHR 0xD0, CHR 0xBA, CHR 0xD1, CHR 0x83]),
         (''ko'', [CHR 0xEC, CHR 0x8A, CHR 0xA4, CHR 0xEC, CHR 0xBA,
             CHR 0x94] @ '' '' @ [CHR 0xEC, CHR 0x83, CHR 0x81, CHR 0xED, CHR 0x83, CHR 0x9C,
             CHR 0xEB, CHR 0xA5, CHR 0xBC] @ '' '' @ [CHR 0xEC, CHR 0x9E, CHR 0xAC, CHR 0xEC,
             CHR 0x84, CHR 0xA4, CHR 0xEC, CHR 0xA0, CHR 0x95, CHR 0xED, CHR 0x95, CHR 0x98,
             CHR 0xEC, CHR 0x97, CHR 0xAC] @ '' '' @ [CHR 0xEC, CHR 0x83,
             CHR 0x88] @ '' '' @ [CHR 0xED, CHR 0x8F, CHR 0xB4, CHR 0xEB, CHR 0x8D, CHR 0x94,
             CHR 0xEB, CHR 0xA5, CHR 0xBC] @ '' '' @ [CHR 0xEC, CHR 0x84, CHR 0xA0, CHR 0xED,
             CHR 0x83, CHR 0x9D, CHR 0xED, CHR 0x95, CHR 0xA0] @ '' '' @ [CHR 0xEC, CHR 0x88,
             CHR 0x98] @ '' '' @ [CHR 0xEC, CHR 0x9E, CHR 0x88, CHR 0xEC, CHR 0x8A, CHR 0xB5,
             CHR 0xEB, CHR 0x8B, CHR 0x88, CHR 0xEB, CHR 0x8B, CHR 0xA4]),
         (''it'', ''Ripristina lo stato di scansione in modo da poter selezionare una nuova cartella'')]),
      (''Reveals the selected item in Finder'',
        [(''de'', ''Zeigt das ausgew'' @ [CHR 0xC3, CHR 0xA4] @ ''hlte Element im Finder an''),
         (''es'', ''Revela el elemento seleccionado en Finder''),
         (''fr'', ''R'' @ [CHR 0xC3, CHR 0xA9] @ ''v'' @ [CHR 0xC3,
             CHR 0xA8] @ ''le l'' @ [CHR 0x27, CHR 0xC3, CHR 0xA9] @ ''l'' @ [CHR 0xC3,
             CHR 0xA9] @ ''ment s'' @ [CHR 0xC3, CHR 0xA9] @ ''lectionn'' @ [CHR 0xC3,
             CHR 0xA9] @ '' dans le Finder''),
         (''zh-Hans'', [CHR 0xE5, CHR 0x9C, CHR 0xA8, CHR 0xE8, CHR 0xAE, CHR 0xBF, CHR 0xE8,
             CHR 0xBE, CHR 0xBE, CHR 0xE4, CHR 0xB8, CHR 0xAD, CHR 0xE6, CHR 0x98, CHR 0xBE,
             CHR 0xE7, CHR 0xA4, CHR 0xBA, CHR 0xE6, CHR 0x89, CHR 0x80, CHR 0xE9, CHR 0x80,
             CHR 0x89, CHR 0xE9, CHR 0xA1, CHR 0xB9, CHR 0xE7, CHR 0x9B, CHR 0xAE]),
         (''pt'', ''Revela o item selecionado no Finder''),
         (''ja'', ''Finder'' @ [CHR 0xE3, CHR 0x81, CHR 0xA7, CHR 0xE9, CHR 0x81, CHR 0xB8,
             CHR 0xE6, CHR 0x8A, CHR 0x9E, CHR 0xE3, CHR 0x81, CHR 0x97, CHR 0xE3, CHR 0x81,
             CHR 0x9F, CHR 0xE9, CHR 0xA0, CHR 0x85, CHR 0xE7, CHR 0x9B, CHR 0xAE, CHR 0xE3,
             CHR 0x82, CHR 0x92, CHR 0xE8, CHR 0xA1, CHR 0xA8, CHR 0xE7, CHR 0xA4, CHR 0xBA]),
         (''ru'', [CHR 0xD0, CHR 0x9F, CHR 0xD0, CHR 0xBE, CHR 0xD0, CHR 0xBA, CHR 0xD0,
             CHR 0xB0, CHR 0xD0, CHR 0xB7, CHR 0xD1, CHR 0x8B, CHR 0xD0, CHR 0xB2, CHR 0xD0,
             CHR 0xB0, CHR 0xD0, CHR 0xB5, CHR 0xD1, CHR 0x82] @ '' '' @ [CHR 0xD0, CHR 0xB2,
             CHR 0xD1, CHR 0x8B, CHR 0xD0, CHR 0xB1, CHR 0xD1, CHR 0x80, CHR 0xD0, CHR 0xB0,
             CHR 0xD0, CHR 0xBD, CHR 0xD0, CHR 0xBD, CHR 0xD1, CHR 0x8B, CHR 0xD0,
             CHR 0xB9] @ '' '' @ [CHR 0xD1, CHR 0x8D, CHR 0xD0, CHR 0xBB, CHR 0xD0, CHR 0xB5,
             CHR 0xD0, CHR 0xBC, CHR 0xD0, CHR 0xB5, CHR 0xD0, CHR 0xBD, CHR 0xD1,
             CHR 0x82] @ '' '' @ [CHR 0xD0, CHR 0xB2] @ '' Finder''),
         (''ko'', ''Finder'' @ [CHR 0xEC, CHR 0x97, CHR 0x90, CHR 0xEC, CHR 0x84,
             CHR 0x9C] @ '' '' @ [CHR 0xEC, CHR 0x84, CHR 0xA0, CHR 0xED, CHR 0x83, CHR 0x9D,
             CHR 0xED, CHR 0x95, CHR 0x9C] @ '' '' @ [CHR 0xED, CHR 0x95, CHR 0xAD, CHR 0xEB,
             CHR 0xAA, CHR 0xA9] @ '' '' @ [CHR 0xED, CHR 0x91, CHR 0x9C, CHR 0xEC, CHR 0x8B,
             CHR 0x9C]),
         (''it'', ''Rivela l'' @ [CHR 0x27] @ ''elemento selezionato nel Finder'')]),
      (''Scan'',
        [(''de'', ''Scannen''),
         (''es'', ''Escanear''),
         (''fr'', ''Analyser''),
         (''zh-Hans'', [CHR 0xE6, CHR 0x89, CHR 0xAB, CHR 0xE6, CHR 0x8F, CHR 0x8F]),
         (''pt'', ''Verificar''),
         (''ja'', [CHR 0xE3, CHR 0x82, CHR 0xB9, CHR 0xE3, CHR 0x82, CHR 0xAD, CHR 0xE3,
             CHR 0x83, CHR 0xA3, CHR 0xE3, CHR 0x83, CHR 0xB3]),
         (''ru'', [CHR 0xD0, CHR 0xA1, CHR 0xD0, CHR 0xBA, CHR 0xD0, CHR 0xB0, CHR 0xD0,
             CHR 0xBD, CHR 0xD0, CHR 0xB8, CHR 0xD1, CHR 0x80, CHR 0xD0, CHR 0xBE, CHR 0xD0,
             CHR 0xB2, CHR 0xD0, CHR 0xB0, CHR 0xD1, CHR 0x82, CHR 0xD1, CHR 0x8C]),
         (''ko'', [CHR 0xEC, CHR 0x8A, CHR 0xA4, CHR 0xEC, CHR 0xBA, CHR 0x94]),
         (''it'', ''Scansiona'')]),
      (''Scan Failed'',
        [(''de'', ''Scan fehlgeschlagen''),
         (''es'', ''Escaneo fallido''),
         (''fr'', [CHR 0xC3, CHR 0x89] @ ''chec de l'' @ [CHR 0x27] @ ''analyse''),
         (''zh-Hans'', [CHR 0xE6, CHR 0x89, CHR 0xAB, CHR 0xE6, CHR 0x8F, CHR 0x8F, CHR 0xE5,
             CHR 0xA4, CHR 0xB1, CHR 0xE8, CHR 0xB4, CHR 0xA5]),
         (''pt'', ''Verifica'' @ [CHR 0xC3, CHR 0xA7, CHR 0xC3, CHR 0xA3] @ ''o falhou''),
         (''ja'', [CHR 0xE3, CHR 0x82, CHR 0xB9, CHR 0xE3, CHR 0x82, CHR 0xAD, CHR 0xE3,
             CHR 0x83, CHR 0xA3, CHR 0xE3, CHR 0x83, CHR 0xB3, CHR 0xE5, CHR 0xA4, CHR 0xB1,
             CHR 0xE6, CHR 0x95, CHR 0x97]),
         (''ru'', [CHR 0xD0, CHR 0xA1, CHR 0xD0, CHR 0xBA, CHR 0xD0, CHR 0xB0, CHR 0xD0,
             CHR 0xBD, CHR 0xD0, CHR 0xB8, CHR 0xD1, CHR 0x80, CHR 0xD0, CHR 0xBE, CHR 0xD0,
             CHR 0xB2, CHR 0xD0, CHR 0xB0, CHR 0xD0, CHR 0xBD, CHR 0xD0, CHR 0xB8, CHR 0xD0,
             CHR 0xB5] @ '' '' @ [CHR 0xD0, CHR 0xBD, CHR 0xD0, CHR 0xB5] @ '' '' @ [CHR 0xD1,
             CHR 0x83, CHR 0xD0, CHR 0xB4, CHR 0xD0, CHR 0xB0, CHR 0xD0, CHR 0xBB, CHR 0xD0,
             CHR 0xBE, CHR 0xD1, CHR 0x81, CHR 0xD1, CHR 0x8C]),
         (''ko'', [CHR 0xEC, CHR 0x8A, CHR 0xA4, CHR 0xEC, CHR 0xBA,
             CHR 0x94] @ '' '' @ [CHR 0xEC, CHR 0x8B, CHR 0xA4, CHR 0xED, CHR 0x8C, CHR 0xA8]),
         (''it'', ''Scansione fallita'')]),
      (''Scan Folder'',
        [(''de'', ''Ordner scannen''),
         (''es'', ''Escanear carpeta''),
         (''fr'', ''Analyser le dossier''),
         (''zh-Hans'', [CHR 0xE6, CHR 0x89, CHR 0xAB, CHR 0xE6, CHR 0x8F, CHR 0x8F, CHR 0xE6,
             CHR 0x96, CHR 0x87, CHR 0xE4, CHR 0xBB, CHR 0xB6, CHR 0xE5, CHR 0xA4, CHR 0xB9]),
         (''pt'', ''Verificar pasta''),
         (''ja'', [CHR 0xE3, CHR 0x83, CHR 0x95, CHR 0xE3, CHR 0x82, CHR 0xA9, CHR 0xE3,
             CHR 0x83, CHR 0xAB, CHR 0xE3, CHR 0x83, CHR 0x80, CHR 0xE3, CHR 0x83, CHR 0xBC,
             CHR 0xE3, CHR 0x82, CHR 0x92, CHR 0xE3, CHR 0x82, CHR 0xB9, CHR 0xE3, CHR 0x82,
             CHR 0xAD, CHR 0xE3, CHR 0x83, CHR 0xA3, CHR 0xE3, CHR 0x83, CHR 0xB3]),
         (''ru'', [CHR 0xD0, CHR 0xA1, CHR 0xD0, CHR 0xBA, CHR 0xD0, CHR 0xB0, CHR 0xD0,
             CHR 0xBD, CHR 0xD0, CHR 0xB8, CHR 0xD1, CHR 0x80, CHR 0xD0, CHR 0xBE, CHR 0xD0,
             CHR 0xB2, CHR 0xD0, CHR 0xB0, CHR 0xD1, CHR 0x82, CHR 0xD1,
             CHR 0x8C] @ '' '' @ [CHR 0xD0, CHR 0xBF, CHR 0xD0, CHR 0xB0, CHR 0xD0, CHR 0xBF,
             CHR 0xD0, CHR 0xBA, CHR 0xD1, CHR 0x83]),
         (''ko'', [CHR 0xED, CHR 0x8F, CHR 0xB4, CHR 0xEB, CHR 0x8D,
             CHR 0x94] @ '' '' @ [CHR 0xEC, CHR 0x8A, CHR 0xA4, CHR 0xEC, CHR 0xBA, CHR 0x94]),
         (''it'', ''Scansiona cartella'')]),
      (''Scan folder'',
        [(''de'', ''Ordner scannen''),
         (''es'', ''Escanear carpeta''),
         (''fr'', ''Analyser le dossier''),
         (''zh-Hans'', [CHR 0xE6, CHR 0x89, CHR 0xAB, CHR 0xE6, CHR 0x8F, CHR 0x8F, CHR 0xE6,
             CHR 0x96, CHR 0x87, CHR 0xE4, CHR 0xBB, CHR 0xB6, CHR 0xE5, CHR 0xA4, CHR 0xB9]),
         (''pt'', ''Verificar pasta''),
         (''ja'', [CHR 0xE3, CHR 0x83, CHR 0x95, CHR 0xE3, CHR 0x82, CHR 0xA9, CHR 0xE3,
             CHR 0x83, CHR 0xAB, CHR 0xE3, CHR 0x83, CHR 0x80, CHR 0xE3, CHR 0x83, CHR 0xBC,
             CHR 0xE3, CHR 0x82, CHR 0x92, CHR 0xE3, CHR 0x82, CHR 0xB9, CHR 0xE3, CHR 0x82,
             CHR 0xAD, CHR 0xE3, CHR 0x83, CHR 0xA3, CHR 0xE3, CHR 0x83, CHR 0xB3]),
         (''ru'', [CHR 0xD0, CHR 0xA1, CHR 0xD0, CHR 0xBA, CHR 0xD0, CHR 0xB0, CHR 0xD0,
             CHR 0xBD, CHR 0xD0, CHR 0xB8, CHR 0xD1, CHR 0x80, CHR 0xD0, CHR 0xBE, CHR 0xD0,
             CHR 0xB2, CHR 0xD0, CHR 0xB0, CHR 0xD1, CHR 0x82, CHR 0xD1,
             CHR 0x8C] @ '' '' @ [CHR 0xD0, CHR 0xBF, CHR 0xD0, CHR 0xB0, CHR 0xD0, CHR 0xBF,
             CHR 0xD0, CHR 0xBA, CHR 0xD1, CHR 0x83]),
         (''ko'', [CHR 0xED, CHR 0x8F, CHR 0xB4, CHR 0xEB, CHR 0x8D,
             CHR 0x94] @ '' '' @ [CHR 0xEC, CHR 0x8A, CHR 0xA4, CHR 0xEC, CHR 0xBA, CHR 0x94]),
         (''it'', ''Scansiona cartella'')]),
      (''Scanning in progress'',
        [(''de'', ''Scan l'' @ [CHR 0xC3, CHR 0xA4] @ ''uft''),
         (''es'', ''Escaneo en progreso''),
         (''fr'', ''Analyse en cours''),
         (''zh-Hans'', [CHR 0xE6, CHR 0xAD, CHR 0xA3, CHR 0xE5, CHR 0x9C, CHR 0xA8, CHR 0xE6,
             CHR 0x89, CHR 0xAB, CHR 0xE6, CHR 0x8F, CHR 0x8F]),
         (''pt'', ''Verifica'' @ [CHR 0xC3, CHR 0xA7, CHR 0xC3, CHR 0xA3] @ ''o em andamento''),
         (''ja'', [CHR 0xE3, CHR 0x82, CHR 0xB9, CHR 0xE3, CHR 0x82, CHR 0xAD, CHR 0xE3,
             CHR 0x83, CHR 0xA3, CHR 0xE3, CHR 0x83, CHR 0xB3, CHR 0xE4, CHR 0xB8, CHR 0xAD]),
         (''ru'', [CHR 0xD0, CHR 0x92, CHR 0xD1, CHR 0x8B, CHR 0xD0, CHR 0xBF, CHR 0xD0,
             CHR 0xBE, CHR 0xD0, CHR 0xBB, CHR 0xD0, CHR 0xBD, CHR 0xD1, CHR 0x8F, CHR 0xD0,
             CHR 0xB5, CHR 0xD1, CHR 0x82, CHR 0xD1, CHR 0x81, CHR 0xD1,
             CHR 0x8F] @ '' '' @ [CHR 0xD1, CHR 0x81, CHR 0xD0, CHR 0xBA, CHR 0xD0, CHR 0xB0,
             CHR 0xD0, CHR 0xBD, CHR 0xD0, CHR 0xB8, CHR 0xD1, CHR 0x80, CHR 0xD0, CHR 0xBE,
             CHR 0xD0, CHR 0xB2, CHR 0xD0, CHR 0xB0, CHR 0xD0, CHR 0xBD, CHR 0xD0, CHR 0xB8,
             CHR 0xD0, CHR 0xB5]),
         (''ko'', [CHR 0xEC, CHR 0x8A, CHR 0xA4, CHR 0xEC, CHR 0xBA,
             CHR 0x94] @ '' '' @ [CHR 0xEC, CHR 0xA7, CHR 0x84, CHR 0xED, CHR 0x96,
             CHR 0x89] @ '' '' @ [CHR 0xEC, CHR 0xA4, CHR 0x91]),
         (''it'', ''Scansione in corso'')]),
      (''Scanning...'',
        [(''de'', ''Scannen...''),
         (''es'', ''Escaneando...''),
         (''fr'', ''Analyse...''),
         (''zh-Hans'', [CHR 0xE6, CHR 0xAD, CHR 0xA3, CHR 0xE5, CHR 0x9C, CHR 0xA8, CHR 0xE6,
             CHR 0x89, CHR 0xAB, CHR 0xE6, CHR 0x8F, CHR 0x8F] @ ''...''),
         (''pt'', ''Verificando...''),
         (''ja'', [CHR 0xE3, CHR 0x82, CHR 0xB9, CHR 0xE3, CHR 0x82, CHR 0xAD, CHR 0xE3,
             CHR 0x83, CHR 0xA3, CHR 0xE3, CHR 0x83, CHR 0xB3, CHR 0xE4, CHR 0xB8,
             CHR 0xAD] @ ''...''),
         (''ru'', [CHR 0xD0, CHR 0xA1, CHR 0xD0, CHR 0xBA, CHR 0xD0, CHR 0xB0, CHR 0xD0,
             CHR 0xBD, CHR 0xD0, CHR 0xB8, CHR 0xD1, CHR 0x80, CHR 0xD0, CHR 0xBE, CHR 0xD0,
             CHR 0xB2, CHR 0xD0, CHR 0xB0, CHR 0xD0, CHR 0xBD, CHR 0xD0, CHR 0xB8, CHR 0xD0,
             CHR 0xB5] @ ''...''),
         (''ko'', [CHR 0xEC, CHR 0x8A, CHR 0xA4, CHR 0xEC, CHR 0xBA,
             CHR 0x94] @ '' '' @ [CHR 0xEC, CHR 0xA4, CHR 0x91] @ ''...''),
         (''it'', ''Scansione...'')]),
      (''Select a folder to analyze'',
        [(''de'', ''W'' @ [CHR 0xC3, CHR 0xA4] @ ''hlen Sie einen Ordner zum Analysieren aus''),
         (''es'', ''Seleccione una carpeta para analizar''),
         (''fr'', ''S'' @ [CHR 0xC3, CHR 0xA9] @ ''lectionnez un dossier '' @ [CHR 0xC3,
             CHR 0xA0] @ '' analyser''),
         (''zh-Hans'', [CHR 0xE9, CHR 0x80, CHR 0x89, CHR 0xE6, CHR 0x8B, CHR 0xA9, CHR 0xE8,
             CHR 0xA6, CHR 0x81, CHR 0xE5, CHR 0x88, CHR 0x86, CHR 0xE6, CHR 0x9E, CHR 0x90,
             CHR 0xE7, CHR 0x9A, CHR 0x84, CHR 0xE6, CHR 0x96, CHR 0x87, CHR 0xE4, CHR 0xBB,
             CHR 0xB6, CHR 0xE5, CHR 0xA4, CHR 0xB9]),
         (''pt'', ''Selecione uma pasta para analisar''),
         (''ja'', [CHR 0xE5, CHR 0x88, CHR 0x86, CHR 0xE6, CHR 0x9E, CHR 0x90, CHR 0xE3,
             CHR 0x81, CHR 0x99, CHR 0xE3, CHR 0x82, CHR 0x8B, CHR 0xE3, CHR 0x83, CHR 0x95,
             CHR 0xE3, CHR 0x82, CHR 0xA9, CHR 0xE3, CHR 0x83, CHR 0xAB, CHR 0xE3, CHR 0x83,
             CHR 0x80, CHR 0xE3, CHR 0x83, CHR 0xBC, CHR 0xE3, CHR 0x82, CHR 0x92, CHR 0xE9,
             CHR 0x81, CHR 0xB8, CHR 0xE6, CHR 0x8A, CHR 0x9E]),
         (''ru'', [CHR 0xD0, CHR 0x92, CHR 0xD1, CHR 0x8B, CHR 0xD0, CHR 0xB1, CHR 0xD0,
             CHR 0xB5, CHR 0xD1, CHR 0x80, CHR 0xD0, CHR 0xB8, CHR 0xD1, CHR 0x82, CHR 0xD0,
             CHR 0xB5] @ '' '' @ [CHR 0xD0, CHR 0xBF, CHR 0xD0, CHR 0xB0, CHR 0xD0, CHR 0xBF,
             CHR 0xD0, CHR 0xBA, CHR 0xD1, CHR 0x83] @ '' '' @ [CHR 0xD0, CHR 0xB4, CHR 0xD0,
             CHR 0xBB, CHR 0xD1, CHR 0x8F] @ '' '' @ [CHR 0xD0, CHR 0xB0, CHR 0xD0, CHR 0xBD,
             CHR 0xD0, CHR 0xB0, CHR 0xD0, CHR 0xBB, CHR 0xD0, CHR 0xB8, CHR 0xD0, CHR 0xB7,
             CHR 0xD0, CHR 0xB0]),
         (''ko'', [CHR 0xEB, CHR 0xB6, CHR 0x84, CHR 0xEC, CHR 0x84, CHR 0x9D, CHR 0xED,
             CHR 0x95, CHR 0xA0] @ '' '' @ [CHR 0xED, CHR 0x8F, CHR 0xB4, CHR 0xEB, CHR 0x8D,
             CHR 0x94] @ '' '' @ [CHR 0xEC, CHR 0x84, CHR 0xA0, CHR 0xED, CHR 0x83, CHR 0x9D]),
         (''it'', ''Seleziona una cartella da analizzare'')]),
      (''Selected'',
        [(''de'', ''Ausgew'' @ [CHR 0xC3, CHR 0xA4] @ ''hlt''),
         (''es'', ''Seleccionado''),
         (''fr'', ''S'' @ [CHR 0xC3, CHR 0xA9] @ ''lectionn'' @ [CHR 0xC3, CHR 0xA9]),
         (''zh-Hans'', [CHR 0xE5, CHR 0xB7, CHR 0xB2, CHR 0xE9, CHR 0x80, CHR 0x89, CHR 0xE6,
             CHR 0x8B, CHR 0xA9]),
         (''pt'', ''Selecionado''),
         (''ja'', [CHR 0xE9, CHR 0x81, CHR 0xB8, CHR 0xE6, CHR 0x8A, CHR 0x9E, CHR 0xE6,
             CHR 0xB8, CHR 0x88, CHR 0xE3, CHR 0x81, CHR 0xBF]),
         (''ru'', [CHR 0xD0, CHR 0x92, CHR 0xD1, CHR 0x8B, CHR 0xD0, CHR 0xB1, CHR 0xD1,
             CHR 0x80, CHR 0xD0, CHR 0xB0, CHR 0xD0, CHR 0xBD, CHR 0xD0, CHR 0xBE]),
         (''ko'', [CHR 0xEC, CHR 0x84, CHR 0xA0, CHR 0xED, CHR 0x83, CHR 0x9D, CHR 0xEB,
             CHR 0x90, CHR 0xA8]),
         (''it'', ''Selezionato'')]),
      (''Show in Finder'',
        [(''de'', ''Im Finder anzeigen''),
         (''es'', ''Mostrar en Finder''),
         (''fr'', ''Afficher dans le Finder''),
         (''zh-Hans'', [CHR 0xE5, CHR 0x9C, CHR 0xA8, CHR 0xE8, CHR 0xAE, CHR 0xBF, CHR 0xE8,
             CHR 0xBE, CHR 0xBE, CHR 0xE4, CHR 0xB8, CHR 0xAD, CHR 0xE6, CHR 0x98, CHR 0xBE,
             CHR 0xE7, CHR 0xA4, CHR 0xBA]),
         (''pt'', ''Mostrar no Finder''),
         (''ja'', ''Finder'' @ [CHR 0xE3, CHR 0x81, CHR 0xA7, CHR 0xE8, CHR 0xA1, CHR 0xA8,
             CHR 0xE7, CHR 0xA4, CHR 0xBA]),
         (''ru'', [CHR 0xD0, CHR 0x9F, CHR 0xD0, CHR 0xBE, CHR 0xD0, CHR 0xBA, CHR 0xD0,
             CHR 0xB0, CHR 0xD0, CHR 0xB7, CHR 0xD0, CHR 0xB0, CHR 0xD1, CHR 0x82, CHR 0xD1,
             CHR 0x8C] @ '' '' @ [CHR 0xD0, CHR 0xB2] @ '' Finder''),
         (''ko'', ''Finder'' @ [CHR 0xEC, CHR 0x97, CHR 0x90, CHR 0xEC, CHR 0x84,
             CHR 0x9C] @ '' '' @ [CHR 0xEB, CHR 0xB3, CHR 0xB4, CHR 0xEA, CHR 0xB8, CHR 0xB0]),
         (''it'', ''Mostra nel Finder'')]),
      (''Shown'',
        [(''de'', ''Angezeigt''),
         (''es'', ''Mostrado''),
         (''fr'', ''Affich'' @ [CHR 0xC3, CHR 0xA9]),
         (''zh-Hans'', [CHR 0xE5, CHR 0xB7, CHR 0xB2, CHR 0xE6, CHR 0x98, CHR 0xBE, CHR 0xE7,
             CHR 0xA4, CHR 0xBA]),
         (''pt'', ''Exibido''),
         (''ja'', [CHR 0xE8, CHR 0xA1, CHR 0xA8, CHR 0xE7, CHR 0xA4, CHR 0xBA, CHR 0xE4,
             CHR 0xB8, CHR 0xAD]),
         (''ru'', [CHR 0xD0, CHR 0x9F, CHR 0xD0, CHR 0xBE, CHR 0xD0, CHR 0xBA, CHR 0xD0,
             CHR 0xB0, CHR 0xD0, CHR 0xB7, CHR 0xD0, CHR 0xB0, CHR 0xD0, CHR 0xBD, CHR 0xD0,
             CHR 0xBE]),
         (''ko'', [CHR 0xED, CHR 0x91, CHR 0x9C, CHR 0xEC, CHR 0x8B, CHR 0x9C, CHR 0xEB,
             CHR 0x90, CHR 0xA8]),
         (''it'', ''Mostrato'')]),
      (''Size:'',
        [(''de'', ''Gr'' @ [CHR 0xC3, CHR 0xB6, CHR 0xC3, CHR 0x9F] @ ''e:''),
         (''es'', ''Tama'' @ [CHR 0xC3, CHR 0xB1] @ ''o:''),
         (''fr'', ''Taille:''),
         (''zh-Hans'', [CHR 0xE5, CHR 0xA4, CHR 0xA7, CHR 0xE5, CHR 0xB0, CHR 0x8F, CHR 0xEF,
             CHR 0xBC, CHR 0x9A]),
         (''pt'', ''Tamanho:''),
         (''ja'', [CHR 0xE3, CHR 0x82, CHR 0xB5, CHR 0xE3, CHR 0x82, CHR 0xA4, CHR 0xE3,
             CHR 0x82, CHR 0xBA, CHR 0xEF, CHR 0xBC, CHR 0x9A]),
         (''ru'', [CHR 0xD0, CHR 0xA0, CHR 0xD0, CHR 0xB0, CHR 0xD0, CHR 0xB7, CHR 0xD0,
             CHR 0xBC, CHR 0xD0, CHR 0xB5, CHR 0xD1, CHR 0x80] @ '':''),
         (''ko'', [CHR 0xED, CHR 0x81, CHR 0xAC, CHR 0xEA, CHR 0xB8, CHR 0xB0] @ '':''),
         (''it'', ''Dimensione:'')]),
      (''Stops the current folder scan'',
        [(''de'', ''Stoppt den aktuellen Ordnerscan''),
         (''es'', ''Detiene el escaneo de carpeta actual''),
         (''fr'', ''Arr'' @ [CHR 0xC3,
             CHR 0xAA] @ ''te l'' @ [CHR 0x27] @ ''analyse de dossier en cours''),
         (''zh-Hans'', [CHR 0xE5, CHR 0x81, CHR 0x9C, CHR 0xE6, CHR 0xAD, CHR 0xA2, CHR 0xE5,
             CHR 0xBD, CHR 0x93, CHR 0xE5, CHR 0x89, CHR 0x8D, CHR 0xE6, CHR 0x96, CHR 0x87,
             CHR 0xE4, CHR 0xBB, CHR 0xB6, CHR 0xE5, CHR 0xA4, CHR 0xB9, CHR 0xE6, CHR 0x89,
             CHR 0xAB, CHR 0xE6, CHR 0x8F, CHR 0x8F]),
         (''pt'', ''Para a verifica'' @ [CHR 0xC3, CHR 0xA7, CHR 0xC3,
             CHR 0xA3] @ ''o de pasta atual''),
         (''ja'', [CHR 0xE7, CHR 0x8F, CHR 0xBE, CHR 0xE5, CHR 0x9C, CHR 0xA8, CHR 0xE3,
             CHR 0x81, CHR 0xAE, CHR 0xE3, CHR 0x83, CHR 0x95, CHR 0xE3, CHR 0x82, CHR 0xA9,
             CHR 0xE3, CHR 0x83, CHR 0xAB, CHR 0xE3, CHR 0x83, CHR 0x80, CHR 0xE3, CHR 0x83,
             CHR 0xBC, CHR 0xE3, CHR 0x82, CHR 0xB9, CHR 0xE3, CHR 0x82, CHR 0xAD, CHR 0xE3,
             CHR 0x83, CHR 0xA3, CHR 0xE3, CHR 0x83, CHR 0xB3, CHR 0xE3, CHR 0x82, CHR 0x92,
             CHR 0xE5, CHR 0x81, CHR 0x9C, CHR 0xE6, CHR 0xAD, CHR 0xA2]),
         (''ru'', [CHR 0xD0, CHR 0x9E, CHR 0xD1, CHR 0x81, CHR 0xD1, CHR 0x82, CHR 0xD0,
             CHR 0xB0, CHR 0xD0, CHR 0xBD, CHR 0xD0, CHR 0xB0, CHR 0xD0, CHR 0xB2, CHR 0xD0,
             CHR 0xBB, CHR 0xD0, CHR 0xB8, CHR 0xD0, CHR 0xB2, CHR 0xD0, CHR 0xB0, CHR 0xD0,
             CHR 0xB5, CHR 0xD1, CHR 0x82] @ '' '' @ [CHR 0xD1, CHR 0x82, CHR 0xD0, CHR 0xB5,
             CHR 0xD0, CHR 0xBA, CHR 0xD1, CHR 0x83, CHR 0xD1, CHR 0x89, CHR 0xD0, CHR 0xB5,
             CHR 0xD0, CHR 0xB5] @ '' '' @ [CHR 0xD1, CHR 0x81, CHR 0xD0, CHR 0xBA, CHR 0xD0,
             CHR 0xB0, CHR 0xD0, CHR 0xBD, CHR 0xD0, CHR 0xB8, CHR 0xD1, CHR 0x80, CHR 0xD0,
             CHR 0xBE, CHR 0xD0, CHR 0xB2, CHR 0xD0, CHR 0xB0, CHR 0xD0, CHR 0xBD, CHR 0xD0,
             CHR 0xB8, CHR 0xD0, CHR 0xB5] @ '' '' @ [CHR 0xD0, CHR 0xBF, CHR 0xD0, CHR 0xB0,
             CHR 0xD0, CHR 0xBF, CHR 0xD0, CHR 0xBA, CHR 0xD0, CHR 0xB8]),
         (''ko'', [CHR 0xED, CHR 0x98, CHR 0x84, CHR 0xEC, CHR 0x9E,
             CHR 0xAC] @ '' '' @ [CHR 0xED, CHR 0x8F, CHR 0xB4, CHR 0xEB, CHR 0x8D,
             CHR 0x94] @ '' '' @ [CHR 0xEC, CHR 0x8A, CHR 0xA4, CHR 0xEC, CHR 0xBA,
             CHR 0x94] @ '' '' @ [CHR 0xEC, CHR 0xA4, CHR 0x91, CHR 0xEC, CHR 0xA7, CHR 0x80]),
         (''it'', ''Ferma la scansione della cartella corrente'')]),
      (''Try Again'',
        [(''de'', ''Erneut versuchen''),
         (''es'', ''Intentar de nuevo''),
         (''fr'', ''R'' @ [CHR 0xC3, CHR 0xA9] @ ''essayer''),
         (''zh-Hans'', [CHR 0xE9, CHR 0x87, CHR 0x8D, CHR 0xE8, CHR 0xAF, CHR 0x95]),
         (''pt'', ''Tentar novamente''),
         (''ja'', [CHR 0xE5, CHR 0x86, CHR 0x8D, CHR 0xE8, CHR 0xA9, CHR 0xA6, CHR 0xE8,
             CHR 0xA1, CHR 0x8C]),
         (''ru'', [CHR 0xD0, CHR 0x9F, CHR 0xD0, CHR 0xBE, CHR 0xD0, CHR 0xB2, CHR 0xD1,
             CHR 0x82, CHR 0xD0, CHR 0xBE, CHR 0xD1, CHR 0x80, CHR 0xD0, CHR 0xB8, CHR 0xD1,
             CHR 0x82, CHR 0xD1, CHR 0x8C] @ '' '' @ [CHR 0xD0, CHR 0xBF, CHR 0xD0, CHR 0xBE,
             CHR 0xD0, CHR 0xBF, CHR 0xD1, CHR 0x8B, CHR 0xD1, CHR 0x82, CHR 0xD0, CHR 0xBA,
             CHR 0xD1, CHR 0x83]),
         (''ko'', [CHR 0xEB, CHR 0x8B, CHR 0xA4, CHR 0xEC, CHR 0x8B,
             CHR 0x9C] @ '' '' @ [CHR 0xEC, CHR 0x8B, CHR 0x9C, CHR 0xEB, CHR 0x8F, CHR 0x84]),
         (''it'', ''Riprova'')]),
      (''Try scanning again'',
        [(''de'', ''Erneut scannen''),
         (''es'', ''Intentar escanear nuevamente''),
         (''fr'', ''Essayez d'' @ [CHR 0x27] @ ''analyser '' @ [CHR 0xC3,
             CHR 0xA0] @ '' nouveau''),
         (''zh-Hans'', [CHR 0xE9, CHR 0x87, CHR 0x8D, CHR 0xE6, CHR 0x96, CHR 0xB0, CHR 0xE6,
             CHR 0x89, CHR 0xAB, CHR 0xE6, CHR 0x8F, CHR 0x8F]),
         (''pt'', ''Tente verificar novamente''),
         (''ja'', [CHR 0xE5, CHR 0x86, CHR 0x8D, CHR 0xE5, CHR 0xBA, CHR 0xA6, CHR 0xE3,
             CHR 0x82, CHR 0xB9, CHR 0xE3, CHR 0x82, CHR 0xAD, CHR 0xE3, CHR 0x83, CHR 0xA3,
             CHR 0xE3, CHR 0x83, CHR 0xB3, CHR 0xE3, CHR 0x81, CHR 0x97, CHR 0xE3, CHR 0x81,
             CHR 0xA6, CHR 0xE3, CHR 0x81, CHR 0xBF, CHR 0xE3, CHR 0x82, CHR 0x8B]),
         (''ru'', [CHR 0xD0, CHR 0x9F, CHR 0xD0, CHR 0xBE, CHR 0xD0, CHR 0xBF, CHR 0xD1,
             CHR 0x80, CHR 0xD0, CHR 0xBE, CHR 0xD0, CHR 0xB1, CHR 0xD1, CHR 0x83, CHR 0xD0,
             CHR 0xB9, CHR 0xD1, CHR 0x82, CHR 0xD0, CHR 0xB5] @ '' '' @ [CHR 0xD1, CHR 0x81,
             CHR 0xD0, CHR 0xBA, CHR 0xD0, CHR 0xB0, CHR 0xD0, CHR 0xBD, CHR 0xD0, CHR 0xB8,
             CHR 0xD1, CHR 0x80, CHR 0xD0, CHR 0xBE, CHR 0xD0, CHR 0xB2, CHR 0xD0, CHR 0xB0,
             CHR 0xD0, CHR 0xBD, CHR 0xD0, CHR 0xB8, CHR 0xD0, CHR 0xB5] @ '' '' @ [CHR 0xD1,
             CHR 0x81, CHR 0xD0, CHR 0xBD, CHR 0xD0, CHR 0xBE, CHR 0xD0, CHR 0xB2, CHR 0xD0,
             CHR 0xB0]),
         (''ko'', [CHR 0xEB, CHR 0x8B, CHR 0xA4, CHR 0xEC, CHR 0x8B,
             CHR 0x9C] @ '' '' @ [CHR 0xEC, CHR 0x8A, CHR 0xA4, CHR 0xEC, CHR 0xBA,
             CHR 0x94] @ '' '' @ [CHR 0xEC, CHR 0x8B, CHR 0x9C, CHR 0xEB, CHR 0x8F, CHR 0x84]),
         (''it'', ''Prova a scansionare di nuovo'')]),
      (''Type:'',
        [(''de'', ''Typ:''),
         (''es'', ''Tipo:''),
         (''fr'', ''Type:''),
         (''zh-Hans'', [CHR 0xE7, CHR 0xB1, CHR 0xBB, CHR 0xE5, CHR 0x9E, CHR 0x8B, CHR 0xEF,
             CHR 0xBC, CHR 0x9A]),
         (''pt'', ''Tipo:''),
         (''ja'', [CHR 0xE3, CHR 0x82, CHR 0xBF, CHR 0xE3, CHR 0x82, CHR 0xA4, CHR 0xE3,
             CHR 0x83, CHR 0x97, CHR 0xEF, CHR 0xBC, CHR 0x9A]),
         (''ru'', [CHR 0xD0, CHR 0xA2, CHR 0xD0, CHR 0xB8, CHR 0xD0, CHR 0xBF] @ '':''),
         (''ko'', [CHR 0xEC, CHR 0x9C, CHR 0xA0, CHR 0xED, CHR 0x98, CHR 0x95] @ '':''),
         (''it'', ''Tipo:'')]),
      (''Wildcards: * (any)'',
        [(''de'', ''Platzhalter: * (beliebig)''),
         (''es'', ''Comodines: * (cualquiera)''),
         (''fr'', ''Caract'' @ [CHR 0xC3, CHR 0xA8] @ ''res g'' @ [CHR 0xC3,
             CHR 0xA9] @ ''n'' @ [CHR 0xC3, CHR 0xA9] @ ''riques: * (quelconque)''),
         (''zh-Hans'', [CHR 0xE9, CHR 0x80, CHR 0x9A, CHR 0xE9, CHR 0x85, CHR 0x8D, CHR 0xE7,
             CHR 0xAC, CHR 0xA6, CHR 0xEF, CHR 0xBC, CHR 0x9A] @ ''*'' @ [CHR 0xEF, CHR 0xBC,
             CHR 0x88, CHR 0xE4, CHR 0xBB, CHR 0xBB, CHR 0xE6, CHR 0x84, CHR 0x8F, CHR 0xEF,
             CHR 0xBC, CHR 0x89]),
         (''pt'', ''Curingas: * (qualquer)''),
         (''ja'', [CHR 0xE3, CHR 0x83, CHR 0xAF, CHR 0xE3, CHR 0x82, CHR 0xA4, CHR 0xE3,
             CHR 0x83, CHR 0xAB, CHR 0xE3, CHR 0x83, CHR 0x89, CHR 0xE3, CHR 0x82, CHR 0xAB,
             CHR 0xE3, CHR 0x83, CHR 0xBC, CHR 0xE3, CHR 0x83, CHR 0x89, CHR 0xEF, CHR 0xBC,
             CHR 0x9A] @ ''*'' @ [CHR 0xEF, CHR 0xBC, CHR 0x88, CHR 0xE4, CHR 0xBB, CHR 0xBB,
             CHR 0xE6, CHR 0x84, CHR 0x8F, CHR 0xEF, CHR 0xBC, CHR 0x89]),
         (''ru'', [CHR 0xD0, CHR 0x9F, CHR 0xD0, CHR 0xBE, CHR 0xD0, CHR 0xB4, CHR 0xD1,
             CHR 0x81, CHR 0xD1, CHR 0x82, CHR 0xD0, CHR 0xB0, CHR 0xD0, CHR 0xBD, CHR 0xD0,
             CHR 0xBE, CHR 0xD0, CHR 0xB2, CHR 0xD0, CHR 0xBE, CHR 0xD1, CHR 0x87, CHR 0xD0,
             CHR 0xBD, CHR 0xD1, CHR 0x8B, CHR 0xD0, CHR 0xB5] @ '' '' @ [CHR 0xD0, CHR 0xB7,
             CHR 0xD0, CHR 0xBD, CHR 0xD0, CHR 0xB0, CHR 0xD0, CHR 0xBA, CHR 0xD0,
             CHR 0xB8] @ '': * ('' @ [CHR 0xD0, CHR 0xBB, CHR 0xD1, CHR 0x8E, CHR 0xD0, CHR 0xB1,
             CHR 0xD1, CHR 0x8B, CHR 0xD0, CHR 0xB5] @ '')''),
         (''ko'', [CHR 0xEC, CHR 0x99, CHR 0x80, CHR 0xEC, CHR 0x9D, CHR 0xBC, CHR 0xEB,
             CHR 0x93, CHR 0x9C, CHR 0xEC, CHR 0xB9, CHR 0xB4, CHR 0xEB, CHR 0x93,
             CHR 0x9C] @ '': * ('' @ [CHR 0xEB, CHR 0xAA, CHR 0xA8, CHR 0xEB, CHR 0x93,
             CHR 0xA0] @ '')''),
         (''it'', ''Caratteri jolly: * (qualsiasi)'')])]"

section \<open>Properties\<close>

subsection \<open>Dictionaries\<close>

lemma map_of_dict_setitem:
  "map_of (dict_setitem d k v) = (map_of d)(k \<mapsto> v)"
  by (induction d) (auto simp: fun_eq_iff)

lemma keys_dict_setitem:
  "map fst (dict_setitem d k v) = (if k \<in> set (map fst d) then map fst d else map fst d @ [k])"
  by (induction d) force+

lemma keyset_dict_setitem:
  "fst ` set (dict_setitem d k v) = insert k (fst ` set d)"
  using keys_dict_setitem [of d k v, THEN arg_cong, of set]
  by (auto simp: insert_absorb split: if_splits)

lemma dict_setitem_new:
  "k \<notin> set (map fst d) \<Longrightarrow> dict_setitem d k v = d @ [(k, v)]"
  by (induction d) auto

lemma is_dict_setitem:
  "is_dict d \<Longrightarrow> is_dict (dict_setitem d k v)"
  by (simp add: is_dict_def keys_dict_setitem)

subsection \<open>The two loops\<close>

lemma create_string_entry_eq: "create_string_entry t s = Inr (entry_of t s)"
proof (cases "map_of t s")
  case None
  then have "s \<notin> set (map fst t)" by (simp add: map_of_eq_None_iff)
  with None show ?thesis
    by (simp add: create_string_entry_def entry_of_def dict_get_def dict_contains_def)
next
  case (Some r)
  then have "s \<in> set (map fst t)" by (metis map_of_eq_None_iff option.distinct(1) set_map)
  with Some show ?thesis
    by (simp add: create_string_entry_def entry_of_def dict_get_def dict_contains_def
        dict_getitem_def dict_items_def)
qed

lemma add_entries_eq:
  "add_entries t ss (catalog_with strings) = Inr (catalog_with (set_entries t ss strings))"
  by (induction ss arbitrary: strings)
     (simp_all add: create_string_entry_eq dict_getitem_def catalog_with_def)

lemma build_catalog_eq:
  "build_catalog t = Inr (catalog_with (set_entries t (dict_keys t) []))"
  using add_entries_eq [of t "dict_keys t" "[]"]
  by (simp add: build_catalog_def initial_catalog_def catalog_with_def)

lemma map_of_set_entries:
  "map_of (set_entries t ss strings) s =
     (if s \<in> set ss then Some (entry_of t s) else map_of strings s)"
  by (induction ss arbitrary: strings) (auto simp: map_of_dict_setitem)

lemma set_entries_fresh:
  "distinct ss \<Longrightarrow> set ss \<inter> set (map fst strings) = {} \<Longrightarrow>
   set_entries t ss strings = strings @ map (\<lambda>s. (s, entry_of t s)) ss"
proof (induction ss arbitrary: strings)
  case Nil
  then show ?case by simp
next
  case (Cons s ss)
  from Cons.prems have new: "s \<notin> set (map fst strings)" by auto
  from Cons.prems have "distinct ss" "set ss \<inter> set (map fst (strings @ [(s, entry_of t s)])) = {}"
    by auto
  from Cons.IH [OF this] new show ?case
    by (simp add: dict_setitem_new)
qed

lemma keys_set_entries:
  "fst ` set (set_entries t ss strings) = fst ` set strings \<union> set ss"
  by (induction ss arbitrary: strings) (auto simp: keyset_dict_setitem)

lemma is_dict_set_entries:
  "is_dict strings \<Longrightarrow> is_dict (set_entries t ss strings)"
  by (induction ss arbitrary: strings) (auto simp: is_dict_setitem)

lemma map_of_add_translations:
  "distinct (map fst r) \<Longrightarrow>
   map_of (add_translations r locs) l =
     (case map_of r l of
        None \<Rightarrow> map_of locs l
      | Some v \<Rightarrow> Some (create_localization_entry l v))"
proof (induction r locs rule: add_translations.induct)
  case (1 locs)
  then show ?case by simp
next
  case (2 l0 v0 rest locs)
  from "2.prems" have d: "distinct (map fst rest)" and n: "map_of rest l0 = None"
    by (simp_all add: map_of_eq_None_iff)
  from "2.IH" [OF d] n show ?case
    by (simp add: map_of_dict_setitem split: option.splits)
qed

lemma keys_add_translations:
  "fst ` set (add_translations r locs) = fst ` set locs \<union> fst ` set r"
  by (induction r locs rule: add_translations.induct) (auto simp: keyset_dict_setitem)

lemma is_dict_add_translations:
  "is_dict locs \<Longrightarrow> is_dict (add_translations r locs)"
  by (induction r locs rule: add_translations.induct) (auto simp: is_dict_setitem)

lemma add_translations_fresh:
  "distinct (map fst r) \<Longrightarrow> set (map fst r) \<inter> set (map fst locs) = {} \<Longrightarrow>
   add_translations r locs = locs @ map (\<lambda>(l, v). (l, create_localization_entry l v)) r"
proof (induction r locs rule: add_translations.induct)
  case (1 locs)
  then show ?case by simp
next
  case (2 l v rest locs)
  from "2.prems" have new: "l \<notin> set (map fst locs)" by auto
  from "2.prems" have "distinct (map fst rest)"
    "set (map fst rest) \<inter> set (map fst (dict_setitem locs l (create_localization_entry l v))) = {}"
    by (auto simp: keys_dict_setitem)
  from "2.IH" [OF this] new show ?case
    by (simp add: dict_setitem_new)
qed

lemma map_of_add_translations_other:
  "l \<notin> fst ` set r \<Longrightarrow> map_of (add_translations r locs) l = map_of locs l"
  by (induction r locs rule: add_translations.induct) (auto simp: map_of_dict_setitem)

lemma in_add_translations:
  "(l, u) \<in> set (add_translations r locs) \<Longrightarrow>
   (l, u) \<in> set locs \<or> (\<exists>v. u = create_localization_entry l v)"
proof (induction r locs rule: add_translations.induct)
  case (1 locs)
  then show ?case by simp
next
  case (2 l0 v0 rest locs)
  have "(l, u) \<in> set (dict_setitem locs l0 w) \<Longrightarrow> (l, u) \<in> set locs \<or> (l = l0 \<and> u = w)" for w
    by (induction locs) (auto split: if_splits)
  moreover from "2.prems"
  have "(l, u) \<in> set (add_translations rest (dict_setitem locs l0 (create_localization_entry l0 v0)))"
    by simp
  ultimately show ?case using "2.IH" by blast
qed

lemma in_set_entries:
  "(s, e) \<in> set (set_entries t ss strings) \<Longrightarrow> (s, e) \<in> set strings \<or> e = entry_of t s"
proof (induction ss arbitrary: strings)
  case Nil
  then show ?case by simp
next
  case (Cons s0 ss)
  have "(s, e) \<in> set (dict_setitem strings s0 w) \<Longrightarrow> (s, e) \<in> set strings \<or> (s = s0 \<and> e = w)" for w
    by (induction strings) (auto split: if_splits)
  with Cons.IH [of "dict_setitem strings s0 (entry_of t s0)"] Cons.prems show ?case
    by auto
qed

lemma catalog_at_strings:
  "catalog_at t (''strings'' # p) = lookup_path (Dict (set_entries t (dict_keys t) [])) p"
  by (simp add: catalog_at_def build_catalog_eq catalog_with_def)

lemma catalog_at_entry:
  "catalog_at t (''strings'' # s # p) =
     (if dict_contains t s then lookup_path (entry_of t s) p else None)"
  by (simp add: catalog_at_strings map_of_set_entries dict_keys_def dict_contains_def)

lemma lookup_entry_unit:
  "lookup_path (entry_of t s) (''localizations'' # l # p) =
     (case map_of (add_translations (dict_get t s []) [(''en'', create_localization_entry ''en'' s)]) l of
        None \<Rightarrow> None
      | Some u \<Rightarrow> lookup_path u p)"
  by (simp add: entry_of_def)

lemma unit_value:
  "lookup_path (create_localization_entry l v) [''stringUnit'', ''value''] = Some (Str v)"
  by (simp add: create_localization_entry_def)

lemma unit_state:
  "lookup_path (create_localization_entry l v) [''stringUnit'', ''state''] = Some (Str ''translated'')"
  by (simp add: create_localization_entry_def)

lemma getitem_contains: "dict_getitem d k = Inr v \<Longrightarrow> dict_contains d k"
  by (auto simp: dict_getitem_def dict_contains_def split: option.splits dest: map_of_SomeD intro: rev_image_eqI)

lemma getitem_get: "dict_getitem d k = Inr v \<Longrightarrow> dict_get d k dflt = v"
  by (auto simp: dict_getitem_def dict_get_def split: option.splits)

lemma getitem_map_of: "dict_getitem d k = Inr v \<longleftrightarrow> map_of d k = Some v"
  by (auto simp: dict_getitem_def split: option.splits)

lemma table_row_is_dict: "is_table t \<Longrightarrow> dict_getitem t s = Inr r \<Longrightarrow> is_dict r"
  by (auto simp: is_table_def getitem_map_of list_all_iff dest!: map_of_SomeD)

lemma strings_of_dict:
  "is_dict t \<Longrightarrow> set_entries t (map fst t) [] = map (\<lambda>s. (s, entry_of t s)) (map fst t)"
  using set_entries_fresh [of "map fst t" "[]" t] by (simp add: is_dict_def)

subsection \<open>Strings: escaping and scanning\<close>

lemma hex_value_digit: "k < 16 \<Longrightarrow> hex_value (hex_digit k) = Some k"
  by (auto simp: hex_value_def hex_digit_def Let_def)

lemma unicode_escape_control:
  assumes "(of_char c :: nat) < 32"
  shows "unicode_escape [CHR ''0'', CHR ''0'', hex_digit (of_char c div 16), hex_digit (of_char c mod 16)]
         = Some c"
proof -
  let ?n = "of_char c :: nat"
  from assms have "?n div 16 < 16" "?n mod 16 < 16" by simp_all
  then have "hex_value (hex_digit (?n div 16)) = Some (?n div 16)"
    "hex_value (hex_digit (?n mod 16)) = Some (?n mod 16)"
    by (simp_all only: hex_value_digit)
  moreover have "hex_value (CHR ''0'') = Some 0"
    by (simp add: hex_value_def)
  moreover from assms have "?n div 16 * 16 + ?n mod 16 < 128" by simp
  ultimately show ?thesis
    by (simp add: unicode_escape_def)
qed

lemma escape_char_plain:
  assumes "c \<noteq> CHR 0x5C" and "c \<noteq> CHR 0x22" and "\<not> (of_char c :: nat) < 32"
  shows "escape_char c = [c]"
proof -
  from assms(3) have "c \<noteq> CHR 0x08" "c \<noteq> CHR 0x0C" "c \<noteq> CHR 0x0A" "c \<noteq> CHR 0x0D" "c \<noteq> CHR 0x09"
    by auto
  with assms show ?thesis
    by (simp add: escape_char_def)
qed

lemma escape_char_control:
  assumes "(of_char c :: nat) < 32"
    and "c \<noteq> CHR 0x08" "c \<noteq> CHR 0x0C" "c \<noteq> CHR 0x0A" "c \<noteq> CHR 0x0D" "c \<noteq> CHR 0x09"
  shows "escape_char c =
     [CHR 0x5C, CHR ''u'', CHR ''0'', CHR ''0'',
      hex_digit (of_char c div 16), hex_digit (of_char c mod 16)]"
proof -
  from assms(1) have "c \<noteq> CHR 0x5C" "c \<noteq> CHR 0x22"
    by auto
  with assms show ?thesis
    by (simp add: escape_char_def)
qed

lemma scanstring_escape_char:
  "scanstring (escape_char c @ rest) = prepend c (scanstring rest)"
proof -
  consider "c = CHR 0x5C" | "c = CHR 0x22" | "c = CHR 0x08" | "c = CHR 0x0C" | "c = CHR 0x0A"
    | "c = CHR 0x0D" | "c = CHR 0x09"
    | "(of_char c :: nat) < 32" "c \<noteq> CHR 0x08" "c \<noteq> CHR 0x0C" "c \<noteq> CHR 0x0A"
      "c \<noteq> CHR 0x0D" "c \<noteq> CHR 0x09"
    | "c \<noteq> CHR 0x5C" "c \<noteq> CHR 0x22" "\<not> (of_char c :: nat) < 32"
    by blast
  then show ?thesis
  proof cases
    case 8
    then show ?thesis
      by (simp add: escape_char_control unicode_escape_control)
  next
    case 9
    then show ?thesis
      by (simp add: escape_char_plain)
  qed (simp_all add: escape_char_def unescape_char_def)
qed

lemma scanstring_escaped:
  "scanstring (concat (map escape_char s) @ CHR 0x22 # rest) = Some (s, rest)"
  by (induction s) (simp_all add: scanstring_escape_char prepend_def)

subsection \<open>Documents: writing and reading\<close>

lemma skip_whitespace_newline_indent:
  "skip_whitespace (newline_indent l @ s) = skip_whitespace s"
  by (simp add: skip_whitespace_def newline_indent_def is_whitespace_def dropWhile_append)

lemma skip_whitespace_quote: "skip_whitespace (CHR 0x22 # s) = CHR 0x22 # s"
  by (simp add: skip_whitespace_def is_whitespace_def)

lemma skip_whitespace_brace: "skip_whitespace (CHR ''}'' # s) = CHR ''}'' # s"
  by (simp add: skip_whitespace_def is_whitespace_def)

lemma skip_whitespace_comma: "skip_whitespace (CHR '','' # s) = CHR '','' # s"
  by (simp add: skip_whitespace_def is_whitespace_def)

lemma skip_whitespace_colon: "skip_whitespace (CHR '':'' # s) = CHR '':'' # s"
  by (simp add: skip_whitespace_def is_whitespace_def)

lemma skip_whitespace_space: "skip_whitespace (CHR '' '' # s) = skip_whitespace s"
  by (simp add: skip_whitespace_def is_whitespace_def)

lemma skip_whitespace_iterencode:
  "skip_whitespace (iterencode lvl v @ s) = iterencode lvl v @ s"
proof (cases v)
  case (Str x)
  then show ?thesis by (simp add: encode_basestring_def skip_whitespace_quote)
next
  case (Dict items)
  then show ?thesis
    by (cases items) (simp_all add: skip_whitespace_def is_whitespace_def)
qed

lemma iterencode_items_first:
  "iterencode_items True lvl ((k, v) # items) =
     CHR 0x22 # concat (map escape_char k) @ CHR 0x22 # CHR '':'' # CHR '' '' #
       iterencode lvl v @ iterencode_items False lvl items"
  by (simp add: encode_basestring_def)

lemma iterencode_items_nil: "iterencode_items first lvl [] = []"
  by simp

lemma iterencode_items_next:
  "iterencode_items False lvl (item # items) =
     CHR '','' # newline_indent lvl @ iterencode_items True lvl (item # items)"
  by (cases item) simp

lemma parse_members_encoded:
  assumes vals: "\<And>k v n lvl rest. (k, v) \<in> set items \<Longrightarrow> weight v \<le> n \<Longrightarrow>
                     parse_value n (iterencode lvl v @ rest) = Some (v, rest)"
    and "items \<noteq> []"
    and "sum_list (map (\<lambda>item. Suc (weight (snd item))) items) \<le> n"
  shows "parse_members n pairs
           (iterencode_items True lvl items @ newline_indent l @ CHR ''}'' # rest)
         = Some (fold (\<lambda>(k, v) d. dict_setitem d k v) items pairs, rest)"
  using assms
proof (induction items arbitrary: n pairs)
  case Nil
  then show ?case by simp
next
  case (Cons item items)
  note IH = Cons.IH and enc = Cons.prems(1)
  obtain k v where item: "item = (k, v)" by (cases item)
  from Cons.prems(3) item obtain m where n: "n = Suc m" and wv: "weight v \<le> m"
    and wi: "sum_list (map (\<lambda>item. Suc (weight (snd item))) items) \<le> m"
    by (cases n) auto
  let ?tail = "iterencode_items False lvl items @ newline_indent l @ CHR ''}'' # rest"
  have pv: "parse_value m (iterencode lvl v @ ?tail) = Some (v, ?tail)"
    using enc [of k v m lvl ?tail] by (simp add: item wv)
  show ?case
  proof (cases items)
    case Nil
    with pv show ?thesis
      by (simp add: n item scanstring_escaped skip_whitespace_colon
          skip_whitespace_space skip_whitespace_iterencode skip_whitespace_newline_indent
          skip_whitespace_brace encode_basestring_def)
  next
    case (Cons item' items')
    have "parse_members m (dict_setitem pairs k v)
            (iterencode_items True lvl items @ newline_indent l @ CHR ''}'' # rest)
          = Some (fold (\<lambda>(k, v) d. dict_setitem d k v) items (dict_setitem pairs k v), rest)"
    proof (rule IH)
      show "parse_value n' (iterencode lvl' v' @ rest') = Some (v', rest')"
        if "(k', v') \<in> set items" "weight v' \<le> n'" for k' v' n' lvl' rest'
        using enc [of k' v' n' lvl' rest'] that by simp
      show "items \<noteq> []" using Cons by simp
      show "sum_list (map (\<lambda>item. Suc (weight (snd item))) items) \<le> m" by (rule wi)
    qed
    moreover have "skip_whitespace (iterencode_items True lvl items @ newline_indent l @ CHR ''}'' # rest)
          = iterencode_items True lvl items @ newline_indent l @ CHR ''}'' # rest"
      using Cons by (cases item') (simp add: encode_basestring_def skip_whitespace_quote)
    ultimately show ?thesis
      using pv Cons
      by (simp add: n item iterencode_items_first iterencode_items_next scanstring_escaped
          skip_whitespace_colon skip_whitespace_space skip_whitespace_iterencode
          skip_whitespace_newline_indent skip_whitespace_comma del: iterencode_items.simps)
  qed
qed

lemma fold_setitem_dict:
  "distinct (map fst (pairs @ items)) \<Longrightarrow>
   fold (\<lambda>(k, v) d. dict_setitem d k v) items pairs = pairs @ items"
proof (induction items arbitrary: pairs)
  case Nil
  then show ?case by simp
next
  case (Cons item items)
  obtain k v where item: "item = (k, v)" by (cases item)
  from Cons.prems item have "k \<notin> set (map fst pairs)" by auto
  then have "dict_setitem pairs k v = pairs @ [(k, v)]" by (rule dict_setitem_new)
  moreover from Cons.prems item have "distinct (map fst ((pairs @ [(k, v)]) @ items))" by simp
  ultimately show ?case using Cons.IH [of "pairs @ [(k, v)]"] item by simp
qed

lemma parse_value_encoded:
  "wf_doc v \<Longrightarrow> weight v \<le> n \<Longrightarrow> parse_value n (iterencode lvl v @ rest) = Some (v, rest)"
proof (induction v arbitrary: n lvl rest)
  case (Str s)
  then obtain m where "n = Suc m" by (cases n) auto
  then show ?case
    by (simp add: encode_basestring_def scanstring_escaped)
next
  case (Dict items)
  from Dict.prems(2) obtain m where n: "n = Suc m"
    and wi: "sum_list (map (\<lambda>item. Suc (weight (snd item))) items) \<le> m"
    by (cases n) auto
  show ?case
  proof (cases items)
    case Nil
    then show ?thesis
      by (simp add: n skip_whitespace_brace)
  next
    case (Cons item items')
    have vals: "parse_value n' (iterencode lvl' v' @ rest') = Some (v', rest')"
      if "(k', v') \<in> set items" "weight v' \<le> n'" for k' v' n' lvl' rest'
    proof (rule Dict.IH)
      from that(1) show "(k', v') \<in> set items" .
      show "v' \<in> Basic_BNFs.snds (k', v')" by simp
      from Dict.prems(1) that(1) show "wf_doc v'" by auto
      from that(2) show "weight v' \<le> n'" .
    qed
    have "parse_members m []
            (iterencode_items True (Suc lvl) items @ newline_indent lvl @ CHR ''}'' # rest)
          = Some (fold (\<lambda>(k, v) d. dict_setitem d k v) items [], rest)"
      by (rule parse_members_encoded [OF vals _ wi]) (simp_all add: Cons)
    moreover from Dict.prems(1) have "fold (\<lambda>(k, v) d. dict_setitem d k v) items [] = items"
      using fold_setitem_dict [of "[]" items] by (simp add: is_dict_def)
    moreover obtain k v where "item = (k, v)" by (cases item)
    ultimately show ?thesis
      using Cons
      by (simp add: n skip_whitespace_newline_indent encode_basestring_def skip_whitespace_quote)
  qed
qed

lemma items_weight_le_length:
  assumes "\<And>item lvl. item \<in> set items \<Longrightarrow> weight (snd item) \<le> length (iterencode lvl (snd item))"
  shows "sum_list (map (\<lambda>item. Suc (weight (snd item))) items)
         \<le> length (iterencode_items first lvl items)"
  using assms
proof (induction items arbitrary: first)
  case Nil
  then show ?case by simp
next
  case (Cons item items)
  obtain k v where item: "item = (k, v)" by (cases item)
  from Cons.prems [of item lvl] item have "weight v \<le> length (iterencode lvl v)" by simp
  moreover have "sum_list (map (\<lambda>item. Suc (weight (snd item))) items)
         \<le> length (iterencode_items False lvl items)"
    by (rule Cons.IH) (simp add: Cons.prems)
  ultimately show ?case
    by (simp add: item encode_basestring_def)
qed

lemma weight_le_length: "weight v \<le> length (iterencode lvl v)"
proof (induction v arbitrary: lvl)
  case (Str s)
  then show ?case by (simp add: encode_basestring_def)
next
  case (Dict items)
  have "sum_list (map (\<lambda>item. Suc (weight (snd item))) items)
         \<le> length (iterencode_items True (Suc lvl) items)"
  proof (rule items_weight_le_length)
    fix item :: "string \<times> pyval" and lvl'
    assume "item \<in> set items"
    moreover obtain k v where "item = (k, v)" by (cases item)
    ultimately show "weight (snd item) \<le> length (iterencode lvl' (snd item))"
      using Dict.IH [of item v lvl'] by simp
  qed
  then show ?case
    by (cases items) (simp_all del: iterencode_items.simps)
qed

lemma json_loads_dumps: "wf_doc v \<Longrightarrow> json_loads (json_dumps v) = Some v"
  using parse_value_encoded [of v "length (iterencode 0 v)" 0 "[]"]
    skip_whitespace_iterencode [of 0 v "[]"]
  by (simp add: json_loads_def json_dumps_def weight_le_length skip_whitespace_def)

subsection \<open>The catalog is a well-formed document\<close>

lemma wf_unit: "wf_doc (create_localization_entry l v)"
  by (simp add: create_localization_entry_def is_dict_def)

lemma wf_entry: "wf_doc (entry_of t s)"
proof -
  let ?locs = "add_translations (dict_get t s []) [(''en'', create_localization_entry ''en'' s)]"
  have "is_dict ?locs"
    by (rule is_dict_add_translations) (simp add: is_dict_def)
  moreover have "wf_doc (snd item)" if "item \<in> set ?locs" for item
  proof -
    obtain l u where item: "item = (l, u)" by (cases item)
    with that in_add_translations [of l u "dict_get t s []" "[(''en'', create_localization_entry ''en'' s)]"]
    obtain v where "u = create_localization_entry l v" by auto
    with item show ?thesis by (simp add: wf_unit)
  qed
  ultimately show ?thesis
    by (simp add: entry_of_def is_dict_def)
qed

lemma wf_catalog: "wf_doc (Dict (catalog_with (set_entries t ss [])))"
proof -
  let ?strings = "set_entries t ss []"
  have "is_dict ?strings"
    by (rule is_dict_set_entries) (simp add: is_dict_def)
  moreover have "wf_doc (snd item)" if "item \<in> set ?strings" for item
  proof -
    obtain s e where item: "item = (s, e)" by (cases item)
    with that in_set_entries [of s e t ss "[]"] have "e = entry_of t s" by simp
    with item show ?thesis by (simp add: wf_entry)
  qed
  ultimately show ?thesis
    by (simp add: catalog_with_def is_dict_def)
qed

lemma round_trip_eq:
  "round_trip t files = rederive_table (Dict (catalog_with (set_entries t (dict_keys t) [])))"
  by (simp add: round_trip_def generate_translations_def build_catalog_eq
      json_loads_dumps [OF wf_catalog])

subsection \<open>Deriving the table from the catalog\<close>

lemma rederive_units:
  "''en'' \<notin> fst ` set r \<Longrightarrow>
   those (map (\<lambda>(l, u). map_option (Pair l) (rederive_unit u))
              (filter (\<lambda>(l, u). l \<noteq> ''en'')
                 (map (\<lambda>(l, v). (l, create_localization_entry l v)) r))) = Some r"
proof (induction r)
  case Nil
  then show ?case by simp
next
  case (Cons x r)
  obtain l v where x: "x = (l, v)" by (cases x)
  from Cons.prems x have "l \<noteq> ''en''" and "''en'' \<notin> fst ` set r" by auto
  with Cons.IH show ?case
    by (simp add: x rederive_unit_def create_localization_entry_def)
qed

lemma rederive_row_entry:
  assumes "is_dict t" and "(s, r) \<in> set t" and "is_dict r" and "\<not> dict_contains r ''en''"
  shows "rederive_row (entry_of t s) = Some r"
proof -
  from assms(1,2) have "map_of t s = Some r"
    by (simp add: is_dict_def)
  then have "dict_get t s [] = r"
    by (simp add: dict_get_def)
  moreover from assms(3,4)
  have "add_translations r [(''en'', create_localization_entry ''en'' s)]
        = [(''en'', create_localization_entry ''en'' s)]
          @ map (\<lambda>(l, v). (l, create_localization_entry l v)) r"
    by (intro add_translations_fresh) (auto simp: is_dict_def dict_contains_def)
  moreover from assms(4) have "''en'' \<notin> fst ` set r"
    by (simp add: dict_contains_def)
  ultimately show ?thesis
    using rederive_units [of r] by (simp add: rederive_row_def entry_of_def)
qed

lemma those_rows:
  assumes "\<And>s r. (s, r) \<in> set xs \<Longrightarrow> f (g s) = Some r"
  shows "those (map (\<lambda>(s, e). map_option (Pair s) (f e)) (map (\<lambda>s. (s, g s)) (map fst xs)))
         = Some xs"
  using assms
proof (induction xs)
  case Nil
  then show ?case by simp
next
  case (Cons x xs)
  obtain s r where x: "x = (s, r)" by (cases x)
  from Cons.prems [of s r] x have "f (g s) = Some r" by simp
  moreover have "those (map (\<lambda>(s, e). map_option (Pair s) (f e)) (map (\<lambda>s. (s, g s)) (map fst xs)))
         = Some xs"
    by (rule Cons.IH) (simp add: Cons.prems)
  ultimately show ?case
    by (simp add: x)
qed

subsection \<open>The literal of the script\<close>

lemma translations_is_table: "is_table translations_dict"
  by (simp add: translations_dict_def is_table_def is_dict_def)

lemma translations_no_en_row: "no_en_row translations_dict"
  by (simp add: translations_dict_def no_en_row_def dict_contains_def)

lemma translations_len: "dict_len translations_dict = 39"
  by (simp add: translations_dict_def dict_len_def)

section \<open>The claims\<close>

text \<open>
  C10. For every table the builder returns, without raising, a document whose top level
  has exactly the fields \<open>sourceLanguage\<close>, \<open>strings\<close> and \<open>version\<close>, in this order,
  with \<open>sourceLanguage\<close> the string "en" and \<open>version\<close> the string "1.0".
\<close>

theorem catalog_top_level:
  "\<exists>strings. build_catalog t =
     Inr [(''sourceLanguage'', Str ''en''), (''strings'', Dict strings), (''version'', Str ''1.0'')]"
  by (simp add: build_catalog_eq catalog_with_def)

text \<open>
  C1, as amended. For every source string \<open>s\<close> of the table whose row does not hold the
  language code "en", the catalog's \<open>strings[s].localizations.en.stringUnit.value\<close> is
  \<open>s\<close> itself.
\<close>

theorem source_unit_is_source_string:
  assumes "dict_getitem t s = Inr r" and "\<not> dict_contains r ''en''"
  shows "catalog_at t [''strings'', s, ''localizations'', ''en'', ''stringUnit'', ''value'']
         = Some (Str s)"
proof -
  from assms(2) have "''en'' \<notin> fst ` set r"
    by (simp add: dict_contains_def)
  then have "map_of (add_translations r [(''en'', create_localization_entry ''en'' s)]) ''en''
               = Some (create_localization_entry ''en'' s)"
    by (simp add: map_of_add_translations_other)
  then show ?thesis
    by (simp add: catalog_at_entry getitem_contains [OF assms(1)] lookup_entry_unit
        getitem_get [OF assms(1)] unit_value)
qed

theorem source_unit_is_source_string_witness:
  "dict_getitem scenario_cancel ''Cancel'' = Inr [(''de'', ''Abbrechen''), (''fr'', ''Annuler'')]
   \<and> \<not> dict_contains [(''de'', ''Abbrechen''), (''fr'', ''Annuler'')] ''en''
   \<and> catalog_at scenario_cancel
         [''strings'', ''Cancel'', ''localizations'', ''en'', ''stringUnit'', ''value'']
       = Some (Str ''Cancel'')"
proof -
  have h1: "dict_getitem scenario_cancel ''Cancel'' = Inr [(''de'', ''Abbrechen''), (''fr'', ''Annuler'')]"
    by (simp add: scenario_cancel_def dict_getitem_def)
  have h2: "\<not> dict_contains [(''de'', ''Abbrechen''), (''fr'', ''Annuler'')] ''en''"
    by (simp add: dict_contains_def)
  from source_unit_is_source_string [OF h1 h2] h1 h2 show ?thesis by simp
qed

text \<open>
  C1 as the spec states it fails on a table whose row holds "en": the row's value
  replaces the source string.
\<close>

theorem source_unit_counterexample:
  "is_table en_row_table \<and> dict_contains en_row_table ''Cancel'' \<and>
   catalog_at en_row_table [''strings'', ''Cancel'', ''localizations'', ''en'', ''stringUnit'', ''value'']
     = Some (Str ''Abort'') \<and>
   catalog_at en_row_table [''strings'', ''Cancel'', ''localizations'', ''en'', ''stringUnit'', ''value'']
     \<noteq> Some (Str ''Cancel'')"
  by (simp add: en_row_table_def is_table_def is_dict_def dict_contains_def catalog_at_def
      build_catalog_def initial_catalog_def dict_keys_def create_string_entry_def
      dict_getitem_def dict_items_def create_localization_entry_def)

text \<open>
  C2. For every source string \<open>s\<close> of the table and every language code \<open>l\<close> of its
  row, the catalog's \<open>strings[s].localizations[l].stringUnit\<close> has the value
  \<open>translations[s][l]\<close> and the state "translated".
\<close>

theorem translated_units:
  assumes "is_table t" and "dict_getitem t s = Inr r" and "dict_getitem r l = Inr v"
  shows "catalog_at t [''strings'', s, ''localizations'', l, ''stringUnit'', ''value''] = Some (Str v)
       \<and> catalog_at t [''strings'', s, ''localizations'', l, ''stringUnit'', ''state'']
           = Some (Str ''translated'')"
proof -
  from assms(1,2) have "distinct (map fst r)"
    using table_row_is_dict is_dict_def by blast
  from map_of_add_translations [OF this] assms(3)
  have "map_of (add_translations r [(''en'', create_localization_entry ''en'' s)]) l
          = Some (create_localization_entry l v)"
    by (simp add: getitem_map_of)
  then show ?thesis
    by (simp add: catalog_at_entry getitem_contains [OF assms(2)] lookup_entry_unit
        getitem_get [OF assms(2)] unit_value unit_state)
qed

theorem translated_units_witness:
  "is_table excerpt
   \<and> dict_getitem excerpt ''Cancel'' = Inr (dict_get excerpt ''Cancel'' [])
   \<and> dict_getitem (dict_get excerpt ''Cancel'' []) ''zh-Hans''
       = Inr [CHR 0xE5, CHR 0x8F, CHR 0x96, CHR 0xE6, CHR 0xB6, CHR 0x88]
   \<and> catalog_at excerpt [''strings'', ''Cancel'', ''localizations'', ''zh-Hans'', ''stringUnit'', ''value'']
       = Some (Str [CHR 0xE5, CHR 0x8F, CHR 0x96, CHR 0xE6, CHR 0xB6, CHR 0x88])
   \<and> catalog_at excerpt [''strings'', ''Cancel'', ''localizations'', ''zh-Hans'', ''stringUnit'', ''state'']
       = Some (Str ''translated'')"
proof -
  have h1: "is_table excerpt"
    by (simp add: excerpt_def is_table_def is_dict_def)
  have h2: "dict_getitem excerpt ''Cancel'' = Inr (dict_get excerpt ''Cancel'' [])"
    by (simp add: excerpt_def dict_getitem_def dict_get_def)
  have h3: "dict_getitem (dict_get excerpt ''Cancel'' []) ''zh-Hans''
              = Inr [CHR 0xE5, CHR 0x8F, CHR 0x96, CHR 0xE6, CHR 0xB6, CHR 0x88]"
    by (simp add: excerpt_def dict_getitem_def dict_get_def)
  from translated_units [OF h1 h2 h3] h1 h2 h3 show ?thesis by simp
qed

text \<open>
  C3. For every string \<open>s\<close>, the entry that \<open>create_string_entry\<close> returns has a
  \<open>localizations\<close> dictionary whose language codes are exactly "en" and the codes of
  \<open>translations.get(s, {})\<close>; where \<open>s\<close> is a source string of the table, this is the
  dictionary \<open>strings[s].localizations\<close> of the catalog.
\<close>

theorem localization_codes:
  "\<exists>locs. create_string_entry t s = Inr (Dict [(''localizations'', Dict locs)])
        \<and> is_dict locs
        \<and> set (dict_keys locs) = {''en''} \<union> set (dict_keys (dict_get t s []))
        \<and> (dict_contains t s \<longrightarrow>
             catalog_at t [''strings'', s, ''localizations''] = Some (Dict locs))"
proof -
  let ?locs = "add_translations (dict_get t s []) [(''en'', create_localization_entry ''en'' s)]"
  have "create_string_entry t s = Inr (Dict [(''localizations'', Dict ?locs)])"
    by (simp add: create_string_entry_eq entry_of_def)
  moreover have "is_dict ?locs"
    by (rule is_dict_add_translations) (simp add: is_dict_def)
  moreover have "set (dict_keys ?locs) = {''en''} \<union> set (dict_keys (dict_get t s []))"
    by (simp add: dict_keys_def keys_add_translations)
  moreover have "dict_contains t s \<longrightarrow>
      catalog_at t [''strings'', s, ''localizations''] = Some (Dict ?locs)"
    by (simp add: catalog_at_entry entry_of_def)
  ultimately show ?thesis by blast
qed

theorem localization_codes_witness:
  "dict_contains scenario_cancel ''Cancel''
   \<and> (\<exists>locs. catalog_at scenario_cancel [''strings'', ''Cancel'', ''localizations''] = Some (Dict locs)
          \<and> is_dict locs
          \<and> set (dict_keys locs) = {''en'', ''de'', ''fr''})"
proof -
  have h: "dict_contains scenario_cancel ''Cancel''"
    by (simp add: scenario_cancel_def dict_contains_def)
  have k: "dict_keys (dict_get scenario_cancel ''Cancel'' []) = [''de'', ''fr'']"
    by (simp add: scenario_cancel_def dict_get_def dict_keys_def)
  from localization_codes [of scenario_cancel "''Cancel''"] h k show ?thesis
    by auto
qed

text \<open>
  C4. For every table (a dictionary: no key twice), the catalog's \<open>strings\<close> has as
  many entries as the table has keys, no key twice, and the same keys.
\<close>

theorem one_entry_per_source_string:
  assumes "is_dict t"
  shows "\<exists>strings. catalog_at t [''strings''] = Some (Dict strings)
           \<and> dict_len strings = dict_len t
           \<and> is_dict strings
           \<and> set (dict_keys strings) = set (dict_keys t)"
proof -
  let ?strings = "set_entries t (dict_keys t) []"
  have "catalog_at t [''strings''] = Some (Dict ?strings)"
    by (simp add: catalog_at_strings)
  moreover have "dict_len ?strings = dict_len t"
    by (simp add: strings_of_dict [OF assms] dict_len_def dict_keys_def)
  moreover have "is_dict ?strings"
    by (rule is_dict_set_entries) (simp add: is_dict_def)
  moreover have "set (dict_keys ?strings) = set (dict_keys t)"
    by (simp add: dict_keys_def keys_set_entries)
  ultimately show ?thesis by blast
qed

theorem one_entry_per_source_string_witness:
  "is_dict translations_dict
   \<and> (\<exists>strings. catalog_at translations_dict [''strings''] = Some (Dict strings)
          \<and> dict_len strings = 39
          \<and> is_dict strings
          \<and> set (dict_keys strings) = set (dict_keys translations_dict))"
proof -
  have h: "is_dict translations_dict"
    using translations_is_table by (simp add: is_table_def)
  from one_entry_per_source_string [OF h] h translations_len show ?thesis
    by simp
qed

text \<open>
  C7. For every table (a dictionary: no key twice), the keys of the catalog's
  \<open>strings\<close> are, in order, the keys of the table in its iteration order.
\<close>

theorem entries_in_table_order:
  assumes "is_dict t"
  shows "\<exists>strings. catalog_at t [''strings''] = Some (Dict strings)
           \<and> dict_keys strings = dict_keys t"
proof -
  have "dict_keys (set_entries t (dict_keys t) []) = dict_keys t"
    by (simp add: strings_of_dict [OF assms] dict_keys_def comp_def)
  then show ?thesis
    by (simp add: catalog_at_strings)
qed

theorem entries_in_table_order_witness:
  "is_dict translations_dict
   \<and> (\<exists>strings. catalog_at translations_dict [''strings''] = Some (Dict strings)
          \<and> dict_keys strings = dict_keys translations_dict)"
proof -
  have h: "is_dict translations_dict"
    using translations_is_table by (simp add: is_table_def)
  from entries_in_table_order [OF h] h show ?thesis
    by simp
qed

text \<open>
  C8. Where the row of a source string \<open>s\<close> holds the language code "en" with the value
  \<open>v\<close>, the catalog's \<open>strings[s].localizations.en.stringUnit.value\<close> is \<open>v\<close>, and so
  is not \<open>s\<close> when the two differ.
\<close>

theorem en_row_overwrites_source_unit:
  assumes "is_table t" and "dict_getitem t s = Inr r" and "dict_getitem r ''en'' = Inr v"
  shows "catalog_at t [''strings'', s, ''localizations'', ''en'', ''stringUnit'', ''value'']
           = Some (Str v)
       \<and> (v \<noteq> s \<longrightarrow>
            catalog_at t [''strings'', s, ''localizations'', ''en'', ''stringUnit'', ''value'']
              \<noteq> Some (Str s))"
proof -
  from assms(1,2) have "distinct (map fst r)"
    using table_row_is_dict is_dict_def by blast
  from map_of_add_translations [OF this] assms(3)
  have "map_of (add_translations r [(''en'', create_localization_entry ''en'' s)]) ''en''
          = Some (create_localization_entry ''en'' v)"
    by (simp add: getitem_map_of)
  then show ?thesis
    by (simp add: catalog_at_entry getitem_contains [OF assms(2)] lookup_entry_unit
        getitem_get [OF assms(2)] unit_value)
qed

theorem en_row_overwrites_source_unit_witness:
  "is_table en_row_table
   \<and> dict_getitem en_row_table ''Cancel'' = Inr [(''en'', ''Abort''), (''de'', ''Abbrechen'')]
   \<and> dict_getitem [(''en'', ''Abort''), (''de'', ''Abbrechen'')] ''en'' = Inr ''Abort''
   \<and> ''Abort'' \<noteq> ''Cancel''
   \<and> catalog_at en_row_table
        [''strings'', ''Cancel'', ''localizations'', ''en'', ''stringUnit'', ''value'']
       = Some (Str ''Abort'')
   \<and> catalog_at en_row_table
        [''strings'', ''Cancel'', ''localizations'', ''en'', ''stringUnit'', ''value'']
       \<noteq> Some (Str ''Cancel'')"
proof -
  have h1: "is_table en_row_table"
    by (simp add: en_row_table_def is_table_def is_dict_def)
  have h2: "dict_getitem en_row_table ''Cancel'' = Inr [(''en'', ''Abort''), (''de'', ''Abbrechen'')]"
    by (simp add: en_row_table_def dict_getitem_def)
  have h3: "dict_getitem [(''en'', ''Abort''), (''de'', ''Abbrechen'')] ''en'' = Inr ''Abort''"
    by (simp add: dict_getitem_def)
  have h4: "''Abort'' \<noteq> ''Cancel''"
    by simp
  from en_row_overwrites_source_unit [OF h1 h2 h3] h1 h2 h3 h4 show ?thesis
    by simp
qed

text \<open>
  C9. Every localization unit of the catalog, the "en" unit of every entry included,
  is a \<open>stringUnit\<close> with the state "translated" and a value, and nothing else: no other
  state occurs.
\<close>

theorem every_unit_translated:
  assumes "catalog_at t [''strings''] = Some (Dict strings)"
    and "(s, entry) \<in> set strings"
    and "lookup_path entry [''localizations''] = Some (Dict locs)"
    and "(l, u) \<in> set locs"
  shows "(\<exists>v. u = Dict [(''stringUnit'', Dict [(''state'', Str ''translated''), (''value'', Str v)])])
       \<and> lookup_path u [''stringUnit'', ''state''] = Some (Str ''translated'')"
proof -
  from assms(1) have "strings = set_entries t (dict_keys t) []"
    by (simp add: catalog_at_strings)
  with assms(2) in_set_entries [of s entry t "dict_keys t" "[]"] have "entry = entry_of t s"
    by simp
  with assms(3) have "locs = add_translations (dict_get t s []) [(''en'', create_localization_entry ''en'' s)]"
    by (simp add: entry_of_def)
  with assms(4) in_add_translations [of l u "dict_get t s []" "[(''en'', create_localization_entry ''en'' s)]"]
  obtain v where "u = create_localization_entry l v"
    by auto
  then show ?thesis
    by (simp add: create_localization_entry_def)
qed

theorem every_unit_translated_witness:
  "catalog_at scenario_orphan [''strings'']
     = Some (Dict [(''Orphan String'',
          Dict [(''localizations'', Dict [(''en'', create_localization_entry ''en'' ''Orphan String'')])])])
   \<and> lookup_path (create_localization_entry ''en'' ''Orphan String'') [''stringUnit'', ''state'']
       = Some (Str ''translated'')"
proof -
  let ?u = "create_localization_entry ''en'' ''Orphan String''"
  let ?entry = "Dict [(''localizations'', Dict [(''en'', ?u)])]"
  have h1: "catalog_at scenario_orphan [''strings''] = Some (Dict [(''Orphan String'', ?entry)])"
    by (simp add: scenario_orphan_def catalog_at_def build_catalog_def initial_catalog_def
        dict_keys_def create_string_entry_def dict_contains_def dict_getitem_def dict_items_def)
  have h2: "(''Orphan String'', ?entry) \<in> set [(''Orphan String'', ?entry)]"
    by simp
  have h3: "lookup_path ?entry [''localizations''] = Some (Dict [(''en'', ?u)])"
    by simp
  have h4: "(''en'', ?u) \<in> set [(''en'', ?u)]"
    by simp
  from every_unit_translated [OF h1 h2 h3 h4] h1 show ?thesis
    by simp
qed

text \<open>
  C5, as amended. For every table (a dictionary of dictionaries) none of whose rows holds
  the language code "en", whatever the files before the run: reading the emitted file as
  JSON and deriving a table from the document, each entry's localizations without the
  "en" unit and each remaining code with its \<open>stringUnit\<close> value, gives the original
  table, rows and items in the original order.
\<close>

theorem round_trip_without_en_rows:
  assumes "is_table t" and "no_en_row t"
  shows "round_trip t files = Some t"
proof -
  from assms(1) have d: "is_dict t" by (simp add: is_table_def)
  have rows: "rederive_row (entry_of t s) = Some r" if "(s, r) \<in> set t" for s r
  proof (rule rederive_row_entry [OF d that])
    from assms(1) that show "is_dict r" by (auto simp: is_table_def list_all_iff)
    from assms(2) that show "\<not> dict_contains r ''en''" by (auto simp: no_en_row_def list_all_iff)
  qed
  have "those (map (\<lambda>(s, e). map_option (Pair s) (rederive_row e))
                   (map (\<lambda>s. (s, entry_of t s)) (map fst t))) = Some t"
    by (rule those_rows) (rule rows)
  then show ?thesis
    by (simp add: round_trip_eq rederive_table_def catalog_with_def dict_keys_def strings_of_dict [OF d])
qed

theorem round_trip_without_en_rows_witness:
  "is_table translations_dict \<and> no_en_row translations_dict
   \<and> round_trip translations_dict Map.empty = Some translations_dict"
  using round_trip_without_en_rows [OF translations_is_table translations_no_en_row, of Map.empty]
    translations_is_table translations_no_en_row
  by simp

text \<open>
  C5 as the spec states it fails on a table whose row holds "en": the derived row has
  lost that item.
\<close>

theorem round_trip_counterexample:
  "is_table en_row_table
   \<and> round_trip en_row_table Map.empty = Some [(''Cancel'', [(''de'', ''Abbrechen'')])]
   \<and> round_trip en_row_table Map.empty \<noteq> Some en_row_table"
  by (simp add: round_trip_eq en_row_table_def is_table_def is_dict_def dict_keys_def entry_of_def
      dict_get_def catalog_with_def rederive_table_def rederive_row_def rederive_unit_def
      create_localization_entry_def)

text \<open>
  C6. For every table the run succeeds and the text it writes depends on the table
  alone: whatever the files before the run, the file at the output path holds the dump
  of the catalog, so a second run on the files that the first one left writes the same
  bytes and changes nothing.
\<close>

theorem generator_deterministic:
  "\<exists>catalog.
     build_catalog t = Inr catalog
     \<and> (\<forall>files. generate_translations t files
                   = Inr (files(output_path \<mapsto> json_dumps (Dict catalog))))
     \<and> generate_translations t (files(output_path \<mapsto> json_dumps (Dict catalog)))
         = Inr (files(output_path \<mapsto> json_dumps (Dict catalog)))"
  by (simp add: generate_translations_def build_catalog_eq)

end
